theory Spec2Isabelle
  imports Complex_Main
begin

section \<open>The engine interface as the program sees it\<close>

text \<open>
  \<^verbatim>\<open>dsjob.c\<close> is a command-line client of the DataStage engine. The engine is reached
  through the functions of \<^verbatim>\<open>dsapi.h\<close>, which is not part of the sources; what the
  program needs of that header is kept symbolic here:
  \<^item> the three status macros the program compares against are fields of the record
    \<open>platform\<close> (their numeric values are the header's business);
  \<^item> the enumerations the program only switches on or passes through (parameter types,
    log types, run modes, limits, job states, info keys) are datatypes with one
    constructor per macro the program names and, where the program has a
    \<^verbatim>\<open>default:\<close> branch, a constructor that carries any other code.
\<close>

type_synonym handle = nat
  \<comment> \<open>a non-NULL \<^verbatim>\<open>DSPROJECT\<close> or \<^verbatim>\<open>DSJOB\<close>; NULL is \<open>None\<close> of \<open>handle option\<close>\<close>

datatype paramtype =
    DSJ_PARAMTYPE_STRING | DSJ_PARAMTYPE_ENCRYPTED | DSJ_PARAMTYPE_INTEGER
  | DSJ_PARAMTYPE_FLOAT | DSJ_PARAMTYPE_PATHNAME | DSJ_PARAMTYPE_LIST
  | DSJ_PARAMTYPE_DATE | DSJ_PARAMTYPE_TIME
  | PARAMTYPE_other int  \<comment> \<open>a code that is none of the eight macros\<close>

datatype logtype =
    DSJ_LOGINFO | DSJ_LOGWARNING | DSJ_LOGFATAL | DSJ_LOGREJECT | DSJ_LOGSTARTED
  | DSJ_LOGRESET | DSJ_LOGBATCH | DSJ_LOGOTHER | DSJ_LOGANY
  | LOGTYPE_other int

datatype runmode = DSJ_RUNNORMAL | DSJ_RUNRESET | DSJ_RUNVALIDATE

datatype limittype = DSJ_LIMITWARN | DSJ_LIMITROWS

datatype jobstatus =
    DSJS_RUNNING | DSJS_RUNOK | DSJS_RUNWARN | DSJS_RUNFAILED | DSJS_VALOK
  | DSJS_VALWARN | DSJS_VALFAILED | DSJS_RESET | DSJS_STOPPED | DSJS_NOTRUNNABLE
  | DSJS_NOTRUNNING | JOBSTATUS_other int

datatype projinfokey = DSJ_JOBLIST

datatype jobinfokey =
    DSJ_JOBSTATUS | DSJ_JOBCONTROLLER | DSJ_JOBSTARTTIMESTAMP | DSJ_JOBWAVENO
  | DSJ_USERSTATUS | DSJ_STAGELIST | DSJ_PARAMLIST

datatype stageinfokey = DSJ_LINKLIST | DSJ_STAGETYPE | DSJ_STAGEINROWNUM | DSJ_STAGELASTERR

datatype linkinfokey = DSJ_LINKROWCOUNT | DSJ_LINKLASTERR

text \<open>
  The union \<^verbatim>\<open>paramValue\<close> of a \<^verbatim>\<open>DSPARAM\<close>: the constructor says which member was
  written. A \<^verbatim>\<open>float\<close> payload is kept as the real number it denotes.
\<close>

datatype paramvalue =
    pString string | pEncrypt string | pInt int | pFloat real
  | pPath string | pListValue string | pDate string | pTime string

record DSPARAM =
  paramType :: paramtype
  paramValue :: paramvalue

record DSPARAMINFO =
  defaultValue :: DSPARAM
  helpText :: string
  paramPrompt :: string
  infoParamType :: paramtype  \<comment> \<open>the member \<^verbatim>\<open>paramType\<close> of \<^verbatim>\<open>DSPARAMINFO\<close>\<close>
  desDefaultValue :: DSPARAM
  listValues :: "string list"
  desListValues :: "string list"
  promptAtRun :: int

text \<open>
  A string list of the API is a buffer of strings, each closed by a NUL, the whole closed
  by an empty string; it is kept as the list of those strings. \<^verbatim>\<open>time_t\<close> is an integer.
\<close>

record DSLOGEVENT =
  eventId :: int
  timestamp :: int
  type :: logtype
  message :: string

record DSLOGDETAIL =
  detailEventId :: int
  detailTimestamp :: int
  detailType :: logtype
  fullMessage :: "string list"

text \<open>
  The info unions: one field per member the program reads. What a member holds after a
  query that did not succeed is whatever the engine left there.
\<close>

record DSJOBINFO =
  jobStatus :: jobstatus
  jobController :: string
  jobStartTime :: int
  jobWaveNumber :: int
  userStatus :: string
  paramList :: "string list"
  stageList :: "string list"

record DSSTAGEINFO =
  typeName :: string
  inRowNum :: int
  stageLastError :: DSLOGDETAIL
  linkList :: "string list"

record DSLINKINFO =
  rowCount :: int
  linkLastError :: DSLOGDETAIL

subsection \<open>Calls and the engine's answers\<close>

text \<open>Every call the program makes to the engine, with its arguments.\<close>

datatype call =
    SetServerParams "string option" "string option" "string option" "string option"
      \<comment> \<open>domain, user, password, server: the order of \<^verbatim>\<open>DSSetServerParams\<close>\<close>
  | OpenProject string
  | CloseProject handle
  | OpenJob handle string
  | CloseJob handle
  | LockJob handle
  | UnlockJob handle
  | SetJobLimit handle limittype int
  | GetParamInfo handle string
  | SetParam handle string DSPARAM
  | RunJob handle runmode
  | WaitForJob handle
  | StopJob handle
  | GetProjectList
  | GetProjectInfo handle projinfokey
  | GetJobInfo handle jobinfokey
  | GetStageInfo handle string stageinfokey
  | GetLinkInfo handle string string linkinfokey
  | LogEvent handle logtype string
  | FindFirstLogEntry handle logtype int int int
  | FindNextLogEntry handle
  | GetLogEntry handle int
  | GetNewestLogId handle logtype
  | GetLastError
  | GetLastErrorMsg

text \<open>
  The engine is an external collaborator: any deterministic engine is a family of answer
  functions, each given the calls made so far and the arguments of the call. The results
  of \<^verbatim>\<open>DSCloseProject\<close>, \<^verbatim>\<open>DSCloseJob\<close> and \<^verbatim>\<open>DSUnlockJob\<close> are cast to void (or dropped)
  by the program, and \<^verbatim>\<open>DSSetServerParams\<close> returns nothing, so they have no answer
  function.
\<close>

record engine =
  DSOpenProject :: "call list \<Rightarrow> string \<Rightarrow> handle option"
  DSOpenJob :: "call list \<Rightarrow> handle \<Rightarrow> string \<Rightarrow> handle option"
  DSLockJob :: "call list \<Rightarrow> handle \<Rightarrow> int"
  DSSetJobLimit :: "call list \<Rightarrow> handle \<Rightarrow> limittype \<Rightarrow> int \<Rightarrow> int"
  DSGetParamInfo :: "call list \<Rightarrow> handle \<Rightarrow> string \<Rightarrow> int \<times> DSPARAMINFO"
  DSSetParam :: "call list \<Rightarrow> handle \<Rightarrow> string \<Rightarrow> DSPARAM \<Rightarrow> int"
  DSRunJob :: "call list \<Rightarrow> handle \<Rightarrow> runmode \<Rightarrow> int"
  DSWaitForJob :: "call list \<Rightarrow> handle \<Rightarrow> int"
  DSStopJob :: "call list \<Rightarrow> handle \<Rightarrow> int"
  DSGetProjectList :: "call list \<Rightarrow> string list option"
  DSGetProjectInfo :: "call list \<Rightarrow> handle \<Rightarrow> projinfokey \<Rightarrow> int \<times> string list"
  DSGetJobInfo :: "call list \<Rightarrow> handle \<Rightarrow> jobinfokey \<Rightarrow> int \<times> DSJOBINFO"
  DSGetStageInfo :: "call list \<Rightarrow> handle \<Rightarrow> string \<Rightarrow> stageinfokey \<Rightarrow> int \<times> DSSTAGEINFO"
  DSGetLinkInfo :: "call list \<Rightarrow> handle \<Rightarrow> string \<Rightarrow> string \<Rightarrow> linkinfokey \<Rightarrow> int \<times> DSLINKINFO"
  DSLogEvent :: "call list \<Rightarrow> handle \<Rightarrow> logtype \<Rightarrow> string \<Rightarrow> int"
  DSFindFirstLogEntry :: "call list \<Rightarrow> handle \<Rightarrow> logtype \<Rightarrow> int \<Rightarrow> int \<Rightarrow> int \<Rightarrow> int \<times> DSLOGEVENT"
  DSFindNextLogEntry :: "call list \<Rightarrow> handle \<Rightarrow> int \<times> DSLOGEVENT"
  DSGetLogEntry :: "call list \<Rightarrow> handle \<Rightarrow> int \<Rightarrow> int \<times> DSLOGDETAIL"
  DSGetNewestLogId :: "call list \<Rightarrow> handle \<Rightarrow> logtype \<Rightarrow> int"
  DSGetLastError :: "call list \<Rightarrow> int"
  DSGetLastErrorMsg :: "call list \<Rightarrow> string list option"

text \<open>
  What the build supplies: the status macros of \<^verbatim>\<open>dsapi.h\<close>, whether \<^verbatim>\<open>WIN32\<close> is
  defined, and what the C standard leaves to the C library and the machine: \<^verbatim>\<open>atoi\<close> of a
  number that does not fit an \<^verbatim>\<open>int\<close>; the \<^verbatim>\<open>double\<close> and the \<^verbatim>\<open>float\<close> nearest to a number that
  is not zero (their formats and rounding, and what stands for a number too large);
  and \<^verbatim>\<open>atof\<close> of the texts \<^verbatim>\<open>inf\<close>, \<^verbatim>\<open>nan\<close> and hexadecimal numbers, which a C99 library
  reads as numbers and an older one does not.
\<close>

record platform =
  DSJE_NOERROR :: int
  DSJE_NOT_AVAILABLE :: int
  DSJE_NOMORE :: int
  WIN32 :: bool
  atoi_out_of_range :: "string \<Rightarrow> int"
  double_rounding :: "real \<Rightarrow> real"
  float_rounding :: "real \<Rightarrow> real"
  atof_special :: "string \<Rightarrow> real"

definition DSJE_DSJOB_ERROR :: int where
  "DSJE_DSJOB_ERROR = - 9999"

definition MAX_PARAMS :: nat where
  "MAX_PARAMS = 10"

definition MAX_MSG_LEN :: nat where
  "MAX_MSG_LEN = 4096"

subsection \<open>The world: calls made, text written, standard input left\<close>

datatype arg =
    AInt int | AStr string | ATime int  \<comment> \<open>\<^verbatim>\<open>%d\<close>, \<^verbatim>\<open>%s\<close>, and \<^verbatim>\<open>%s\<close> of \<^verbatim>\<open>ctime\<close>\<close>
  | AFloat real  \<comment> \<open>\<^verbatim>\<open>%G\<close>\<close>
  | AJobStatus jobstatus | AParamType paramtype  \<comment> \<open>\<^verbatim>\<open>%d\<close> of an enumeration code\<close>

datatype outp =
    Stdout string "arg list"  \<comment> \<open>\<^verbatim>\<open>printf\<close>: the format and its arguments\<close>
  | Stderr string "arg list"  \<comment> \<open>\<^verbatim>\<open>fprintf(stderr, ...)\<close>\<close>

record world =
  calls :: "call list"
  printed :: "outp list"
  stdin :: "char list"

datatype fault =
    ParamArrayOverflow  \<comment> \<open>a write to \<^verbatim>\<open>param[MAX_PARAMS]\<close> or beyond\<close>
  | NullDereference  \<comment> \<open>a write through the NULL that \<^verbatim>\<open>strchr\<close> returned\<close>

definition docall :: "call \<Rightarrow> world \<Rightarrow> world" where
  "docall c w = w\<lparr>calls := calls w @ [c]\<rparr>"

definition printf :: "string \<Rightarrow> arg list \<Rightarrow> world \<Rightarrow> world" where
  "printf fmt as w = w\<lparr>printed := printed w @ [Stdout fmt as]\<rparr>"

definition eprintf :: "string \<Rightarrow> arg list \<Rightarrow> world \<Rightarrow> world" where
  "eprintf fmt as w = w\<lparr>printed := printed w @ [Stderr fmt as]\<rparr>"

definition tabs :: "nat \<Rightarrow> string" where
  "tabs n = replicate n (CHR 0x09)"


text \<open>
  Format strings are kept as the source writes them, with \<^verbatim>\<open>\n\<close> as a newline
  character and each \<^verbatim>\<open>\t\<close> as a tab character.
\<close>

definition putchar :: "char \<Rightarrow> world \<Rightarrow> world" where
  "putchar c w = printf [c] [] w"

text \<open>The wrappers: ask the engine, given the calls so far, and record the call.\<close>

definition doOpenProject :: "engine \<Rightarrow> string \<Rightarrow> world \<Rightarrow> handle option \<times> world" where
  "doOpenProject eng name w = (DSOpenProject eng (calls w) name, docall (OpenProject name) w)"

definition doCloseProject :: "handle \<Rightarrow> world \<Rightarrow> world" where
  "doCloseProject h w = docall (CloseProject h) w"

definition doOpenJob :: "engine \<Rightarrow> handle \<Rightarrow> string \<Rightarrow> world \<Rightarrow> handle option \<times> world" where
  "doOpenJob eng hp name w = (DSOpenJob eng (calls w) hp name, docall (OpenJob hp name) w)"

definition doCloseJob :: "handle \<Rightarrow> world \<Rightarrow> world" where
  "doCloseJob h w = docall (CloseJob h) w"

definition doLockJob :: "engine \<Rightarrow> handle \<Rightarrow> world \<Rightarrow> int \<times> world" where
  "doLockJob eng h w = (DSLockJob eng (calls w) h, docall (LockJob h) w)"

definition doUnlockJob :: "handle \<Rightarrow> world \<Rightarrow> world" where
  "doUnlockJob h w = docall (UnlockJob h) w"

definition doSetJobLimit :: "engine \<Rightarrow> handle \<Rightarrow> limittype \<Rightarrow> int \<Rightarrow> world \<Rightarrow> int \<times> world" where
  "doSetJobLimit eng h l v w = (DSSetJobLimit eng (calls w) h l v, docall (SetJobLimit h l v) w)"

definition doGetParamInfo :: "engine \<Rightarrow> handle \<Rightarrow> string \<Rightarrow> world \<Rightarrow> (int \<times> DSPARAMINFO) \<times> world" where
  "doGetParamInfo eng h name w = (DSGetParamInfo eng (calls w) h name, docall (GetParamInfo h name) w)"

definition doSetParam :: "engine \<Rightarrow> handle \<Rightarrow> string \<Rightarrow> DSPARAM \<Rightarrow> world \<Rightarrow> int \<times> world" where
  "doSetParam eng h name d w = (DSSetParam eng (calls w) h name d, docall (SetParam h name d) w)"

definition doRunJob :: "engine \<Rightarrow> handle \<Rightarrow> runmode \<Rightarrow> world \<Rightarrow> int \<times> world" where
  "doRunJob eng h m w = (DSRunJob eng (calls w) h m, docall (RunJob h m) w)"

definition doWaitForJob :: "engine \<Rightarrow> handle \<Rightarrow> world \<Rightarrow> int \<times> world" where
  "doWaitForJob eng h w = (DSWaitForJob eng (calls w) h, docall (WaitForJob h) w)"

definition doStopJob :: "engine \<Rightarrow> handle \<Rightarrow> world \<Rightarrow> int \<times> world" where
  "doStopJob eng h w = (DSStopJob eng (calls w) h, docall (StopJob h) w)"

definition doGetProjectList :: "engine \<Rightarrow> world \<Rightarrow> string list option \<times> world" where
  "doGetProjectList eng w = (DSGetProjectList eng (calls w), docall GetProjectList w)"

definition doGetProjectInfo :: "engine \<Rightarrow> handle \<Rightarrow> projinfokey \<Rightarrow> world \<Rightarrow> (int \<times> string list) \<times> world" where
  "doGetProjectInfo eng h k w = (DSGetProjectInfo eng (calls w) h k, docall (GetProjectInfo h k) w)"

definition doGetJobInfo :: "engine \<Rightarrow> handle \<Rightarrow> jobinfokey \<Rightarrow> world \<Rightarrow> (int \<times> DSJOBINFO) \<times> world" where
  "doGetJobInfo eng h k w = (DSGetJobInfo eng (calls w) h k, docall (GetJobInfo h k) w)"

definition doGetStageInfo :: "engine \<Rightarrow> handle \<Rightarrow> string \<Rightarrow> stageinfokey \<Rightarrow> world \<Rightarrow> (int \<times> DSSTAGEINFO) \<times> world" where
  "doGetStageInfo eng h s k w = (DSGetStageInfo eng (calls w) h s k, docall (GetStageInfo h s k) w)"

definition doGetLinkInfo :: "engine \<Rightarrow> handle \<Rightarrow> string \<Rightarrow> string \<Rightarrow> linkinfokey \<Rightarrow> world \<Rightarrow> (int \<times> DSLINKINFO) \<times> world" where
  "doGetLinkInfo eng h s l k w = (DSGetLinkInfo eng (calls w) h s l k, docall (GetLinkInfo h s l k) w)"

definition doLogEvent :: "engine \<Rightarrow> handle \<Rightarrow> logtype \<Rightarrow> string \<Rightarrow> world \<Rightarrow> int \<times> world" where
  "doLogEvent eng h t m w = (DSLogEvent eng (calls w) h t m, docall (LogEvent h t m) w)"

definition doFindFirstLogEntry :: "engine \<Rightarrow> handle \<Rightarrow> logtype \<Rightarrow> int \<Rightarrow> int \<Rightarrow> int \<Rightarrow> world \<Rightarrow> (int \<times> DSLOGEVENT) \<times> world" where
  "doFindFirstLogEntry eng h t a b n w =
     (DSFindFirstLogEntry eng (calls w) h t a b n, docall (FindFirstLogEntry h t a b n) w)"

definition doFindNextLogEntry :: "engine \<Rightarrow> handle \<Rightarrow> world \<Rightarrow> (int \<times> DSLOGEVENT) \<times> world" where
  "doFindNextLogEntry eng h w = (DSFindNextLogEntry eng (calls w) h, docall (FindNextLogEntry h) w)"

definition doGetLogEntry :: "engine \<Rightarrow> handle \<Rightarrow> int \<Rightarrow> world \<Rightarrow> (int \<times> DSLOGDETAIL) \<times> world" where
  "doGetLogEntry eng h i w = (DSGetLogEntry eng (calls w) h i, docall (GetLogEntry h i) w)"

definition doGetNewestLogId :: "engine \<Rightarrow> handle \<Rightarrow> logtype \<Rightarrow> world \<Rightarrow> int \<times> world" where
  "doGetNewestLogId eng h t w = (DSGetNewestLogId eng (calls w) h t, docall (GetNewestLogId h t) w)"

definition doGetLastError :: "engine \<Rightarrow> world \<Rightarrow> int \<times> world" where
  "doGetLastError eng w = (DSGetLastError eng (calls w), docall GetLastError w)"

definition doGetLastErrorMsg :: "engine \<Rightarrow> world \<Rightarrow> string list option \<times> world" where
  "doGetLastErrorMsg eng w = (DSGetLastErrorMsg eng (calls w), docall GetLastErrorMsg w)"

text \<open>
  How a run of the program ends: \<open>None\<close> when it does not return, a fault when it leaves
  defined behaviour, otherwise the status returned and the world left behind.
\<close>

type_synonym outcome = "(fault + int \<times> world) option"

definition returns :: "int \<times> world \<Rightarrow> outcome" where
  "returns r = Some (Inr r)"

section \<open>The C library functions the program calls\<close>

definition isspace :: "char \<Rightarrow> bool" where
  "isspace c = (c = CHR '' '' \<or> (9 \<le> (of_char c :: nat) \<and> (of_char c :: nat) \<le> 13))"

definition isdigit :: "char \<Rightarrow> bool" where
  "isdigit c = (48 \<le> (of_char c :: nat) \<and> (of_char c :: nat) \<le> 57)"

definition isprint :: "char \<Rightarrow> bool" where
  "isprint c = (32 \<le> (of_char c :: nat) \<and> (of_char c :: nat) \<le> 126)"

fun digits_value :: "int \<Rightarrow> string \<Rightarrow> int" where
  "digits_value acc [] = acc"
| "digits_value acc (c # cs) =
     (if isdigit c then digits_value (acc * 10 + (of_char c - 48)) cs else acc)"

definition strip_sign :: "string \<Rightarrow> bool \<times> string" where
  "strip_sign t =
     (case t of
        [] \<Rightarrow> (False, [])
      | c # r \<Rightarrow> if c = CHR ''-'' then (True, r) else if c = CHR ''+'' then (False, r) else (False, t))"

text \<open>
  \<^verbatim>\<open>atoi\<close>: white space, an optional sign, then the longest run of decimal digits; no
  digits give 0. An \<^verbatim>\<open>int\<close> has 32 bits; for a number outside its range the C standard
  leaves the result open, and the platform's answer is used.
\<close>

definition atoi :: "platform \<Rightarrow> string \<Rightarrow> int" where
  "atoi pf s =
     (case strip_sign (dropWhile isspace s) of
        (neg, u) \<Rightarrow>
          let v = digits_value 0 u; r = (if neg then - v else v)
          in if - (2 ^ 31) \<le> r \<and> r < 2 ^ 31 then r else atoi_out_of_range pf s)"

text \<open>
  \<^verbatim>\<open>atof\<close>, which is \<^verbatim>\<open>strtod\<close> with no end pointer: white space, an optional sign, then the
  longest text that has the form of a number. The decimal form is a run of digits with
  at most one point in it and at least one digit, and after it, if it is complete, an
  exponent: \<^verbatim>\<open>e\<close> or \<^verbatim>\<open>E\<close>, an optional sign and a run of digits. The result is the \<^verbatim>\<open>double\<close>
  nearest to the number written, and 0 when the text has no such form. The other forms
  (\<^verbatim>\<open>inf\<close> and \<^verbatim>\<open>nan\<close> in either case of each letter, and \<^verbatim>\<open>0x\<close> before a hexadecimal digit or
  a point and a hexadecimal digit) are read by a C99 library only, and to values that
  need not be numbers: for them the result is the platform's.
\<close>

definition isxdigit :: "char \<Rightarrow> bool" where
  "isxdigit c = (isdigit c \<or> c \<in> set ''abcdefABCDEF'')"

definition special_form :: "string \<Rightarrow> bool" where
  "special_form t =
     (case t of
        a # b # c # r \<Rightarrow>
          (a \<in> set ''iI'' \<and> b \<in> set ''nN'' \<and> c \<in> set ''fF'') \<or>
          (a \<in> set ''nN'' \<and> b \<in> set ''aA'' \<and> c \<in> set ''nN'') \<or>
          (a = CHR ''0'' \<and> b \<in> set ''xX'' \<and>
           (isxdigit c \<or> (c = CHR ''.'' \<and> (case r of [] \<Rightarrow> False | e # _ \<Rightarrow> isxdigit e))))
      | _ \<Rightarrow> False)"

definition exponent_part :: "string \<Rightarrow> int" where
  "exponent_part t =
     (case t of
        [] \<Rightarrow> 0
      | c # r \<Rightarrow>
          if c \<in> set ''eE'' then
            (case strip_sign r of
               (neg, ds) \<Rightarrow>
                 (case ds of
                    [] \<Rightarrow> 0
                  | e # _ \<Rightarrow>
                      if isdigit e
                      then (if neg then - digits_value 0 ds else digits_value 0 ds)
                      else 0))
          else 0)"

definition scale10 :: "real \<Rightarrow> int \<Rightarrow> real" where
  "scale10 m k = (if 0 \<le> k then m * 10 ^ nat k else m / 10 ^ nat (- k))"

definition decimal_value :: "string \<Rightarrow> real option" where
  "decimal_value t =
     (let ip = takeWhile isdigit t;
          r1 = dropWhile isdigit t;
          point = (case r1 of [] \<Rightarrow> False | c # _ \<Rightarrow> c = CHR ''.'');
          fp = (if point then takeWhile isdigit (tl r1) else []);
          r2 = (if point then dropWhile isdigit (tl r1) else r1)
      in if ip = [] \<and> fp = [] then None
         else Some (scale10 (of_int (digits_value 0 (ip @ fp))) (exponent_part r2 - int (length fp))))"

definition to_double :: "platform \<Rightarrow> real \<Rightarrow> real" where
  "to_double pf x = (if x = 0 then 0 else double_rounding pf x)"

definition to_float :: "platform \<Rightarrow> real \<Rightarrow> real" where
  \<comment> \<open>the cast \<^verbatim>\<open>(float)\<close>\<close>
  "to_float pf x = (if x = 0 then 0 else float_rounding pf x)"

definition atof :: "platform \<Rightarrow> string \<Rightarrow> real" where
  "atof pf s =
     (case strip_sign (dropWhile isspace s) of
        (neg, t) \<Rightarrow>
          if special_form t then atof_special pf s
          else (case decimal_value t of
                  None \<Rightarrow> 0
                | Some x \<Rightarrow> to_double pf (if neg then - x else x)))"

section \<open>Printing helpers\<close>

text \<open>\<^verbatim>\<open>printStrList\<close>: one string per line up to the closing empty string.\<close>

fun indent_by :: "nat \<Rightarrow> world \<Rightarrow> world" where
  "indent_by 0 w = w"
| "indent_by (Suc n) w = indent_by n (putchar (CHR 0x09) w)"

fun printStrList :: "nat \<Rightarrow> string list \<Rightarrow> world \<Rightarrow> world" where
  "printStrList indent [] w = w"
| "printStrList indent (str # strs) w =
     (if str = [] then w
      else printStrList indent strs (printf ''%s\<newline>'' [AStr str] (indent_by indent w)))"

definition logTypeName :: "logtype \<Rightarrow> string" where
  "logTypeName t =
     (case t of
        DSJ_LOGINFO \<Rightarrow> ''INFO'' | DSJ_LOGWARNING \<Rightarrow> ''WARNING'' | DSJ_LOGFATAL \<Rightarrow> ''FATAL''
      | DSJ_LOGREJECT \<Rightarrow> ''REJECT'' | DSJ_LOGSTARTED \<Rightarrow> ''STARTED'' | DSJ_LOGRESET \<Rightarrow> ''RESET''
      | DSJ_LOGBATCH \<Rightarrow> ''BATCH'' | DSJ_LOGOTHER \<Rightarrow> ''OTHER'' | _ \<Rightarrow> ''????'')"

definition printLogDetail :: "nat \<Rightarrow> DSLOGDETAIL \<Rightarrow> world \<Rightarrow> world" where
  "printLogDetail indent logDetail w =
     (let prefix = tabs indent;
          w1 = printf ''%sEvent Id: '' [AStr prefix] w;
          w2 = (if detailEventId logDetail < 0 then printf ''unknown'' [] w1
                else printf ''%d'' [AInt (detailEventId logDetail)] w1);
          w3 = printf ''\<newline>'' [] w2;
          w4 = printf (''%sTime'' @ tabs 1 @ '': %s'') [AStr prefix, ATime (detailTimestamp logDetail)] w3;
          w5 = printf (''%sType'' @ tabs 1 @ '': '') [AStr prefix] w4;
          w6 = printf (logTypeName (detailType logDetail)) [] w5;
          w7 = printf ''\<newline>'' [] w6;
          w8 = printf (''%sMessage'' @ tabs 1 @ '':\<newline>'') [AStr prefix] w7
      in printStrList (indent + 1) (fullMessage logDetail) w8)"

section \<open>Setting one parameter\<close>

text \<open>
  \<^verbatim>\<open>setParam\<close>: \<^verbatim>\<open>strchr(param, '=')\<close> splits the text at the first \<open>=\<close>; the write through
  its result is a fault when there is none. The value structure is built by the switch
  on the declared type.
\<close>

definition paramDataFor :: "platform \<Rightarrow> paramtype \<Rightarrow> string \<Rightarrow> DSPARAM" where
  "paramDataFor pf t v =
     (case t of
        DSJ_PARAMTYPE_STRING \<Rightarrow> \<lparr>paramType = t, paramValue = pString v\<rparr>
      | DSJ_PARAMTYPE_ENCRYPTED \<Rightarrow> \<lparr>paramType = t, paramValue = pEncrypt v\<rparr>
      | DSJ_PARAMTYPE_INTEGER \<Rightarrow> \<lparr>paramType = t, paramValue = pInt (atoi pf v)\<rparr>
      | DSJ_PARAMTYPE_FLOAT \<Rightarrow> \<lparr>paramType = t, paramValue = pFloat (to_float pf (atof pf v))\<rparr>
      | DSJ_PARAMTYPE_PATHNAME \<Rightarrow> \<lparr>paramType = t, paramValue = pPath v\<rparr>
      | DSJ_PARAMTYPE_LIST \<Rightarrow> \<lparr>paramType = t, paramValue = pListValue v\<rparr>
      | DSJ_PARAMTYPE_DATE \<Rightarrow> \<lparr>paramType = t, paramValue = pDate v\<rparr>
      | DSJ_PARAMTYPE_TIME \<Rightarrow> \<lparr>paramType = t, paramValue = pTime v\<rparr>
      | PARAMTYPE_other _ \<Rightarrow> \<lparr>paramType = DSJ_PARAMTYPE_STRING, paramValue = pString v\<rparr>)"

definition setParam :: "platform \<Rightarrow> engine \<Rightarrow> handle \<Rightarrow> string \<Rightarrow> world \<Rightarrow> fault + int \<times> world" where
  "setParam pf eng hJob param w =
     (if CHR ''='' \<notin> set param then Inl NullDereference
      else
        let name = takeWhile (\<lambda>c. c \<noteq> CHR ''='') param;
            val = tl (dropWhile (\<lambda>c. c \<noteq> CHR ''='') param)
        in case doGetParamInfo eng hJob name w of
             ((status, paramInfo), w1) \<Rightarrow>
               if status \<noteq> DSJE_NOERROR pf
               then Inr (status,
                      eprintf ''Error %d getting information for parameter '%s'\<newline>''
                        [AInt status, AStr name] w1)
               else
                 let paramData = paramDataFor pf (infoParamType paramInfo) val
                 in case doSetParam eng hJob name paramData w1 of
                      (status2, w2) \<Rightarrow>
                        Inr (status2,
                          if status2 \<noteq> DSJE_NOERROR pf
                          then eprintf ''Error setting value of parameter '%s'\<newline>'' [AStr name] w2
                          else w2))"


section \<open>The sub-command handlers\<close>

text \<open>
  A handler receives \<^verbatim>\<open>argc\<close> and \<^verbatim>\<open>argv\<close>: here the list of its argument strings.
  \<^verbatim>\<open>argv[i][0]\<close> of an empty string is its NUL.
\<close>

definition isOption :: "string \<Rightarrow> bool" where
  "isOption a = (case a of [] \<Rightarrow> False | c # _ \<Rightarrow> c = CHR ''-'' \<or> c = CHR ''/'')"

text \<open>
  Thirteen handlers share, word for word, the block that opens the project and the job,
  runs their own statements on the open job, and closes both. \<open>inProjectJob\<close> is that
  block; \<open>body\<close> stands for the statements between \<^verbatim>\<open>DSOpenJob\<close> succeeding and
  \<^verbatim>\<open>DSCloseJob\<close>.
\<close>

definition inProjectJob ::
  "engine \<Rightarrow> string \<Rightarrow> string \<Rightarrow> (handle \<Rightarrow> world \<Rightarrow> outcome) \<Rightarrow> world \<Rightarrow> outcome" where
  "inProjectJob eng project job body w =
     (case doOpenProject eng project w of
        (None, w1) \<Rightarrow>
          (case doGetLastError eng w1 of
             (status, w2) \<Rightarrow> returns (status, eprintf ''ERROR: Failed to open project\<newline>'' [] w2))
      | (Some hProject, w1) \<Rightarrow>
          (case doOpenJob eng hProject job w1 of
             (None, w2) \<Rightarrow>
               (case doGetLastError eng w2 of
                  (status, w3) \<Rightarrow>
                    returns (status,
                      doCloseProject hProject (eprintf ''ERROR: Failed to open job\<newline>'' [] w3)))
           | (Some hJob, w2) \<Rightarrow>
               (case body hJob w2 of
                  None \<Rightarrow> None
                | Some (Inl f) \<Rightarrow> Some (Inl f)
                | Some (Inr (status, w3)) \<Rightarrow>
                    returns (status, doCloseProject hProject (doCloseJob hJob w3)))))"

subsection \<open>\<^verbatim>\<open>-run\<close>\<close>

text \<open>
  The locals of \<^verbatim>\<open>jobRun\<close> that its option loop sets. \<^verbatim>\<open>param\<close> is the array of
  \<^verbatim>\<open>MAX_PARAMS\<close> pointers; a slot never written is shown as the empty string and is
  never read.
\<close>

record runargs =
  mode :: runmode
  warningLimit :: int
  rowLimit :: int
  badOptions :: bool
  param :: "string list"
  nParams :: nat
  waitForJob :: bool

definition runargs0 :: runargs where
  "runargs0 =
     \<lparr>mode = DSJ_RUNNORMAL, warningLimit = - 1, rowLimit = 0, badOptions = False,
      param = replicate MAX_PARAMS [], nParams = 0, waitForJob = False\<rparr>"

text \<open>
  The option loop, on the arguments from \<^verbatim>\<open>argv[i]\<close> on; it returns the locals and the
  arguments left when it stops. \<^verbatim>\<open>param[nParams++] = arg\<close> is the only array write:
  outside the array it is a fault.
\<close>

fun runOptions :: "platform \<Rightarrow> runargs \<Rightarrow> string list \<Rightarrow> fault + runargs \<times> string list" where
  "runOptions pf st [] = Inr (st, [])"
| "runOptions pf st [a] =
     (if badOptions st \<or> \<not> isOption a then Inr (st, [a])
      else if tl a = ''wait'' then runOptions pf (st\<lparr>waitForJob := True\<rparr>) []
      else Inr (st\<lparr>badOptions := True\<rparr>, []))"
| "runOptions pf st (a # arg # rest) =
     (if badOptions st \<or> \<not> isOption a then Inr (st, a # arg # rest)
      else if tl a = ''wait'' then runOptions pf (st\<lparr>waitForJob := True\<rparr>) (arg # rest)
      else if tl a = ''mode'' then
        (if arg = ''NORMAL'' then runOptions pf (st\<lparr>mode := DSJ_RUNNORMAL\<rparr>) rest
         else if arg = ''RESET'' then runOptions pf (st\<lparr>mode := DSJ_RUNRESET\<rparr>) rest
         else if arg = ''VALIDATE'' then runOptions pf (st\<lparr>mode := DSJ_RUNVALIDATE\<rparr>) rest
         else runOptions pf (st\<lparr>badOptions := True\<rparr>) rest)
      else if tl a = ''param'' then
        (if CHR ''='' \<notin> set arg then runOptions pf (st\<lparr>badOptions := True\<rparr>) rest
         else if nParams st < MAX_PARAMS
         then runOptions pf (st\<lparr>param := (param st)[nParams st := arg], nParams := nParams st + 1\<rparr>) rest
         else Inl ParamArrayOverflow)
      else if tl a = ''warn'' then runOptions pf (st\<lparr>warningLimit := atoi pf arg\<rparr>) rest
      else if tl a = ''rows'' then runOptions pf (st\<lparr>rowLimit := atoi pf arg\<rparr>) rest
      else runOptions pf (st\<lparr>badOptions := True\<rparr>) rest)"

text \<open>The loop \<^verbatim>\<open>for (i = 0; (status == DSJE_NOERROR) && (i < nParams); i++)\<close>.\<close>

fun setParams ::
  "platform \<Rightarrow> engine \<Rightarrow> handle \<Rightarrow> string list \<Rightarrow> int \<times> world \<Rightarrow> fault + int \<times> world" where
  "setParams pf eng hJob [] sw = Inr sw"
| "setParams pf eng hJob (p # ps) (status, w) =
     (if status = DSJE_NOERROR pf
      then (case setParam pf eng hJob p w of
              Inl f \<Rightarrow> Inl f
            | Inr sw \<Rightarrow> setParams pf eng hJob ps sw)
      else Inr (status, w))"

definition runUsage :: "world \<Rightarrow> world" where
  "runUsage w =
     eprintf (tabs 3 @ ''<project> <job>\<newline>'') []
       (eprintf (tabs 3 @ ''[-wait]\<newline>'') []
         (eprintf (tabs 3 @ ''[-rows <n>]\<newline>'') []
           (eprintf (tabs 3 @ ''[-warn <n>]\<newline>'') []
             (eprintf (tabs 3 @ ''[-param <name>=<value>]\<newline>'') []
               (eprintf (tabs 3 @ ''[-mode <NORMAL | RESET | VALIDATE>]\<newline>'') []
                 (eprintf ''Invalid arguments: dsjob -run\<newline>'' [] w))))))"

text \<open>The statements of \<^verbatim>\<open>jobRun\<close> on the open job: lock, limits, parameters, run, wait, unlock.\<close>

definition complain :: "platform \<Rightarrow> string \<Rightarrow> int \<times> world \<Rightarrow> int \<times> world" where
  \<comment> \<open>\<^verbatim>\<open>if (status != DSJE_NOERROR) fprintf(stderr, msg);\<close> after a call\<close>
  "complain pf msg sw =
     (case sw of (status, w) \<Rightarrow>
        (status, if status \<noteq> DSJE_NOERROR pf then eprintf msg [] w else w))"

definition runLocked :: "platform \<Rightarrow> engine \<Rightarrow> runargs \<Rightarrow> handle \<Rightarrow> world \<Rightarrow> outcome" where
  "runLocked pf eng st hJob w =
     (case doLockJob eng hJob w of
        (status, w1) \<Rightarrow>
          if status \<noteq> DSJE_NOERROR pf
          then returns (status, eprintf ''ERROR: Failed to lock job\<newline>'' [] w1)
          else
            (let (status2, w2) =
                   (if 0 \<le> warningLimit st
                    then complain pf ''Error setting warning limit\<newline>''
                           (doSetJobLimit eng hJob DSJ_LIMITWARN (warningLimit st) w1)
                    else (status, w1));
                 (status3, w3) =
                   (if rowLimit st \<noteq> 0 \<and> status2 = DSJE_NOERROR pf
                    then complain pf ''Error setting row limit\<newline>''
                           (doSetJobLimit eng hJob DSJ_LIMITROWS (rowLimit st) w2)
                    else (status2, w2))
             in (case setParams pf eng hJob (take (nParams st) (param st)) (status3, w3) of
                   Inl f \<Rightarrow> Some (Inl f)
                 | Inr (status4, w4) \<Rightarrow>
                     (let (status5, w5) =
                            (if status4 = DSJE_NOERROR pf
                             then complain pf ''Error running job\<newline>''
                                    (doRunJob eng hJob (mode st) w4)
                             else (status4, w4));
                          (status6, w6) =
                            (if status5 = DSJE_NOERROR pf \<and> waitForJob st
                             then complain pf ''Error waiting for job\<newline>''
                                    (doWaitForJob eng hJob (printf ''Waiting for job...\<newline>'' [] w5))
                             else (status5, w5))
                      in returns (status6, doUnlockJob hJob w6)))))"

definition jobRun :: "platform \<Rightarrow> engine \<Rightarrow> string list \<Rightarrow> world \<Rightarrow> outcome" where
  "jobRun pf eng argv w =
     (case runOptions pf runargs0 argv of
        Inl f \<Rightarrow> Some (Inl f)
      | Inr (st, rest) \<Rightarrow>
          if badOptions st \<or> length rest \<noteq> 2
          then returns (DSJE_DSJOB_ERROR, runUsage w)
          else inProjectJob eng (rest ! 0) (rest ! 1) (runLocked pf eng st) w)"

subsection \<open>\<^verbatim>\<open>-stop\<close>, \<^verbatim>\<open>-lprojects\<close>, \<^verbatim>\<open>-ljobs\<close>, \<^verbatim>\<open>-lstages\<close>, \<^verbatim>\<open>-llinks\<close>\<close>

text \<open>
  For each handler below, the statements it runs on the open job are a function of their
  own (\<open>stopBody\<close>, \<open>lstagesBody\<close>, ...), placed into the common block by the handler.
\<close>

definition stopBody :: "platform \<Rightarrow> engine \<Rightarrow> handle \<Rightarrow> world \<Rightarrow> int \<times> world" where
  "stopBody pf eng hJob w = complain pf ''Error stopping job\<newline>'' (doStopJob eng hJob w)"

definition jobStop :: "platform \<Rightarrow> engine \<Rightarrow> string list \<Rightarrow> world \<Rightarrow> outcome" where
  "jobStop pf eng argv w =
     (if length argv \<noteq> 2
      then returns (DSJE_DSJOB_ERROR,
             eprintf ''Invalid arguments: dsjob -stop <project> <job>\<newline>'' [] w)
      else inProjectJob eng (argv ! 0) (argv ! 1)
             (\<lambda>hJob w2. returns (stopBody pf eng hJob w2)) w)"

definition jobLProjects :: "platform \<Rightarrow> engine \<Rightarrow> string list \<Rightarrow> world \<Rightarrow> outcome" where
  "jobLProjects pf eng argv w =
     (if length argv \<noteq> 0
      then returns (DSJE_DSJOB_ERROR, eprintf ''Invalid arguments: dsjob -lproject\<newline>'' [] w)
      else case doGetProjectList eng w of
             (None, w1) \<Rightarrow> returns (doGetLastError eng w1)
           | (Some list, w1) \<Rightarrow> returns (DSJE_NOERROR pf, printStrList 0 list w1))"

definition jobLJobs :: "platform \<Rightarrow> engine \<Rightarrow> string list \<Rightarrow> world \<Rightarrow> outcome" where
  "jobLJobs pf eng argv w =
     (if length argv \<noteq> 1
      then returns (DSJE_DSJOB_ERROR,
             eprintf ''Invalid arguments: dsjob -ljobs <project>\<newline>'' [] w)
      else case doOpenProject eng (argv ! 0) w of
             (None, w1) \<Rightarrow> returns (doGetLastError eng w1)
           | (Some hProject, w1) \<Rightarrow>
               (case doGetProjectInfo eng hProject DSJ_JOBLIST w1 of
                  ((status, jobList), w2) \<Rightarrow>
                    if status = DSJE_NOT_AVAILABLE pf
                    then returns (DSJE_NOERROR pf,
                           doCloseProject hProject (printf ''<none>\<newline>'' [] w2))
                    else if status = DSJE_NOERROR pf
                    then returns (status, doCloseProject hProject (printStrList 0 jobList w2))
                    else returns (status, doCloseProject hProject w2)))"

definition lstagesBody :: "platform \<Rightarrow> engine \<Rightarrow> handle \<Rightarrow> world \<Rightarrow> int \<times> world" where
  "lstagesBody pf eng hJob w =
     (case doGetJobInfo eng hJob DSJ_STAGELIST w of
        ((status, jobInfo), w3) \<Rightarrow>
          if status = DSJE_NOT_AVAILABLE pf
          then (DSJE_NOERROR pf, printf ''<none>\<newline>'' [] w3)
          else if status \<noteq> DSJE_NOERROR pf
          then (status, eprintf ''Error %d getting stage list\<newline>'' [AInt status] w3)
          else (status, printStrList 0 (stageList jobInfo) w3))"

definition jobLStages :: "platform \<Rightarrow> engine \<Rightarrow> string list \<Rightarrow> world \<Rightarrow> outcome" where
  "jobLStages pf eng argv w =
     (if length argv \<noteq> 2
      then returns (DSJE_DSJOB_ERROR,
             eprintf ''Invalid arguments: dsjob -lstages <project> <job>\<newline>'' [] w)
      else inProjectJob eng (argv ! 0) (argv ! 1)
             (\<lambda>hJob w2. returns (lstagesBody pf eng hJob w2)) w)"

text \<open>
  In \<^verbatim>\<open>jobLLinks\<close> the second test is a plain \<^verbatim>\<open>if\<close>, not an \<^verbatim>\<open>else if\<close>: after
  "not available" the status is already reset, and the link list member is printed as
  the engine left it.
\<close>

definition llinksBody :: "platform \<Rightarrow> engine \<Rightarrow> string \<Rightarrow> handle \<Rightarrow> world \<Rightarrow> int \<times> world" where
  "llinksBody pf eng stage hJob w =
     (case doGetStageInfo eng hJob stage DSJ_LINKLIST w of
        ((status0, stageInfo), w3) \<Rightarrow>
          let (status, w4) =
                (if status0 = DSJE_NOT_AVAILABLE pf
                 then (DSJE_NOERROR pf, printf ''<none>\<newline>'' [] w3)
                 else (status0, w3))
          in if status \<noteq> DSJE_NOERROR pf
             then (status, eprintf ''Error %d getting link list\<newline>'' [AInt status] w4)
             else (status, printStrList 0 (linkList stageInfo) w4))"

definition jobLLinks :: "platform \<Rightarrow> engine \<Rightarrow> string list \<Rightarrow> world \<Rightarrow> outcome" where
  "jobLLinks pf eng argv w =
     (if length argv \<noteq> 3
      then returns (DSJE_DSJOB_ERROR,
             eprintf ''Invalid arguments: dsjob -llinks <project> <job> <stage>\<newline>'' [] w)
      else inProjectJob eng (argv ! 0) (argv ! 1)
             (\<lambda>hJob w2. returns (llinksBody pf eng (argv ! 2) hJob w2)) w)"


subsection \<open>\<^verbatim>\<open>-jobinfo\<close>, \<^verbatim>\<open>-stageinfo\<close>, \<^verbatim>\<open>-linkinfo\<close>, \<^verbatim>\<open>-lparams\<close>, \<^verbatim>\<open>-paraminfo\<close>\<close>

definition jobStatusName :: "jobstatus \<Rightarrow> string" where
  "jobStatusName js =
     (case js of
        DSJS_RUNNING \<Rightarrow> ''RUNNING'' | DSJS_RUNOK \<Rightarrow> ''RUN OK''
      | DSJS_RUNWARN \<Rightarrow> ''RUN with WARNINGS'' | DSJS_RUNFAILED \<Rightarrow> ''RUN FAILED''
      | DSJS_VALOK \<Rightarrow> ''VALIDATED OK'' | DSJS_VALWARN \<Rightarrow> ''VALIDATE with WARNINGS''
      | DSJS_VALFAILED \<Rightarrow> ''VALIDATION FILED'' | DSJS_RESET \<Rightarrow> ''RESET''
      | DSJS_STOPPED \<Rightarrow> ''STOPPED'' | DSJS_NOTRUNNABLE \<Rightarrow> ''NOT COMPILED''
      | DSJS_NOTRUNNING \<Rightarrow> ''NOT RUNNING'' | JOBSTATUS_other _ \<Rightarrow> ''UNKNOWN'')"

text \<open>
  \<^verbatim>\<open>jobJobInfo\<close> makes five queries in a row, each assigning \<^verbatim>\<open>status\<close> and followed by
  the statement that prints the answer or the error; the value returned is the one the
  last query left, with "not available" turned into success.
\<close>

definition showJobStatus :: "platform \<Rightarrow> int \<Rightarrow> DSJOBINFO \<Rightarrow> world \<Rightarrow> world" where
  "showJobStatus pf status jobInfo w =
     (if status \<noteq> DSJE_NOERROR pf
      then eprintf ''Error %d getting job status\<newline>'' [AInt status] w
      else printf '' (%d)\<newline>'' [AJobStatus (jobStatus jobInfo)]
             (printf (jobStatusName (jobStatus jobInfo)) []
               (printf (''Job Status'' @ tabs 1 @ '': '') [] w)))"

definition showJobController :: "platform \<Rightarrow> int \<Rightarrow> DSJOBINFO \<Rightarrow> world \<Rightarrow> world" where
  "showJobController pf status jobInfo w =
     (if status = DSJE_NOT_AVAILABLE pf
      then printf (''Job Controller'' @ tabs 1 @ '': not available\<newline>'') [] w
      else if status \<noteq> DSJE_NOERROR pf
      then eprintf ''Error %d getting job controller\<newline>'' [AInt status] w
      else printf (''Job Controller'' @ tabs 1 @ '': %s\<newline>'') [AStr (jobController jobInfo)] w)"

definition showJobStartTime :: "platform \<Rightarrow> int \<Rightarrow> DSJOBINFO \<Rightarrow> world \<Rightarrow> world" where
  "showJobStartTime pf status jobInfo w =
     (if status = DSJE_NOT_AVAILABLE pf
      then printf (''Job Start Time'' @ tabs 1 @ '': not available\<newline>'') [] w
      else if status \<noteq> DSJE_NOERROR pf
      then eprintf ''Error %d getting job start time\<newline>'' [AInt status] w
      else printf (''Job Start Time'' @ tabs 1 @ '': %s'') [ATime (jobStartTime jobInfo)] w)"

definition showJobWaveNumber :: "platform \<Rightarrow> int \<Rightarrow> DSJOBINFO \<Rightarrow> world \<Rightarrow> world" where
  "showJobWaveNumber pf status jobInfo w =
     (if status \<noteq> DSJE_NOERROR pf
      then eprintf ''Error %d getting job wave number\<newline>'' [AInt status] w
      else printf (''Job Wave Number'' @ tabs 1 @ '': %d\<newline>'') [AInt (jobWaveNumber jobInfo)] w)"

definition showUserStatus :: "platform \<Rightarrow> int \<Rightarrow> DSJOBINFO \<Rightarrow> world \<Rightarrow> world" where
  "showUserStatus pf status jobInfo w =
     (if status = DSJE_NOT_AVAILABLE pf
      then printf (''User Status'' @ tabs 1 @ '': not available\<newline>'') [] w
      else if status \<noteq> DSJE_NOERROR pf
      then eprintf ''Error %d getting job user status\<newline>'' [AInt status] w
      else printf (''User Status'' @ tabs 1 @ '': %s\<newline>'') [AStr (userStatus jobInfo)] w)"

definition jobInfoBody :: "platform \<Rightarrow> engine \<Rightarrow> handle \<Rightarrow> world \<Rightarrow> int \<times> world" where
  "jobInfoBody pf eng hJob w =
     (let ((s1, i1), w1) = doGetJobInfo eng hJob DSJ_JOBSTATUS w;
          w2 = showJobStatus pf s1 i1 w1;
          ((s2, i2), w3) = doGetJobInfo eng hJob DSJ_JOBCONTROLLER w2;
          w4 = showJobController pf s2 i2 w3;
          ((s3, i3), w5) = doGetJobInfo eng hJob DSJ_JOBSTARTTIMESTAMP w4;
          w6 = showJobStartTime pf s3 i3 w5;
          ((s4, i4), w7) = doGetJobInfo eng hJob DSJ_JOBWAVENO w6;
          w8 = showJobWaveNumber pf s4 i4 w7;
          ((s5, i5), w9) = doGetJobInfo eng hJob DSJ_USERSTATUS w8;
          w10 = showUserStatus pf s5 i5 w9
      in (if s5 = DSJE_NOT_AVAILABLE pf then DSJE_NOERROR pf else s5, w10))"

definition jobJobInfo :: "platform \<Rightarrow> engine \<Rightarrow> string list \<Rightarrow> world \<Rightarrow> outcome" where
  "jobJobInfo pf eng argv w =
     (if length argv \<noteq> 2
      then returns (DSJE_DSJOB_ERROR,
             eprintf ''Invalid arguments: dsjob -jobinfo <project> <job>\<newline>'' [] w)
      else inProjectJob eng (argv ! 0) (argv ! 1)
             (\<lambda>hJob w2. returns (jobInfoBody pf eng hJob w2)) w)"

definition showStageType :: "platform \<Rightarrow> int \<Rightarrow> DSSTAGEINFO \<Rightarrow> world \<Rightarrow> world" where
  "showStageType pf status stageInfo w =
     (if status \<noteq> DSJE_NOERROR pf
      then eprintf ''Error %d getting stage type\<newline>'' [AInt status] w
      else printf (''Stage Type'' @ tabs 1 @ '': %s\<newline>'') [AStr (typeName stageInfo)] w)"

definition showInRowNum :: "platform \<Rightarrow> int \<Rightarrow> DSSTAGEINFO \<Rightarrow> world \<Rightarrow> world" where
  "showInRowNum pf status stageInfo w =
     (if status \<noteq> DSJE_NOERROR pf
      then eprintf ''Error %d getting stage row number\<newline>'' [AInt status] w
      else printf (''In Row Number'' @ tabs 1 @ '': %d\<newline>'') [AInt (inRowNum stageInfo)] w)"

definition showStageLastError :: "platform \<Rightarrow> int \<Rightarrow> DSSTAGEINFO \<Rightarrow> world \<Rightarrow> world" where
  "showStageLastError pf status stageInfo w =
     (if status = DSJE_NOT_AVAILABLE pf
      then printf ''Stage Last Error: <none>\<newline>'' [] w
      else if status \<noteq> DSJE_NOERROR pf
      then eprintf ''Error %d getting stage last error\<newline>'' [AInt status] w
      else printLogDetail 1 (stageLastError stageInfo)
             (printf ''Stage Last Error:\<newline>'' [] w))"

definition stageInfoBody :: "platform \<Rightarrow> engine \<Rightarrow> string \<Rightarrow> handle \<Rightarrow> world \<Rightarrow> int \<times> world" where
  "stageInfoBody pf eng stage hJob w =
     (let ((s1, i1), w1) = doGetStageInfo eng hJob stage DSJ_STAGETYPE w;
          w2 = showStageType pf s1 i1 w1;
          ((s2, i2), w3) = doGetStageInfo eng hJob stage DSJ_STAGEINROWNUM w2;
          w4 = showInRowNum pf s2 i2 w3;
          ((s3, i3), w5) = doGetStageInfo eng hJob stage DSJ_STAGELASTERR w4;
          w6 = showStageLastError pf s3 i3 w5
      in (if s3 = DSJE_NOT_AVAILABLE pf then DSJE_NOERROR pf else s3, w6))"

definition jobStageInfo :: "platform \<Rightarrow> engine \<Rightarrow> string list \<Rightarrow> world \<Rightarrow> outcome" where
  "jobStageInfo pf eng argv w =
     (if length argv \<noteq> 3
      then returns (DSJE_DSJOB_ERROR,
             eprintf ''Invalid arguments: dsjob -stageinfo <project> <job> <stage>\<newline>'' [] w)
      else inProjectJob eng (argv ! 0) (argv ! 1)
             (\<lambda>hJob w2. returns (stageInfoBody pf eng (argv ! 2) hJob w2)) w)"

definition showLinkRowCount :: "platform \<Rightarrow> int \<Rightarrow> DSLINKINFO \<Rightarrow> world \<Rightarrow> world" where
  "showLinkRowCount pf status linkInfo w =
     (if status \<noteq> DSJE_NOERROR pf
      then eprintf ''Error %d getting link row count\<newline>'' [AInt status] w
      else printf (''Link Row Count'' @ tabs 1 @ '': %d\<newline>'') [AInt (rowCount linkInfo)] w)"

definition linkInfoBody ::
  "platform \<Rightarrow> engine \<Rightarrow> string \<Rightarrow> string \<Rightarrow> handle \<Rightarrow> world \<Rightarrow> int \<times> world" where
  "linkInfoBody pf eng stage link hJob w =
     (let ((s1, i1), w1) = doGetLinkInfo eng hJob stage link DSJ_LINKROWCOUNT w;
          w2 = showLinkRowCount pf s1 i1 w1;
          ((s2, i2), w3) = doGetLinkInfo eng hJob stage link DSJ_LINKLASTERR w2
      in if s2 = DSJE_NOT_AVAILABLE pf
         then (DSJE_NOERROR pf, printf (''Link Last Error'' @ tabs 1 @ '': <none>\<newline>'') [] w3)
         else if s2 \<noteq> DSJE_NOERROR pf
         then (s2, eprintf ''Error %d getting link last error\<newline>'' [AInt s2] w3)
         else (s2, printLogDetail 1 (linkLastError i2)
                     (printf (''Link Last Error'' @ tabs 1 @ '':\<newline>'') [] w3)))"

definition jobLinkInfo :: "platform \<Rightarrow> engine \<Rightarrow> string list \<Rightarrow> world \<Rightarrow> outcome" where
  "jobLinkInfo pf eng argv w =
     (if length argv \<noteq> 4
      then returns (DSJE_DSJOB_ERROR,
             eprintf ''Invalid arguments: dsjob -linkinfo <project> <job> <stage> <link>\<newline>'' [] w)
      else inProjectJob eng (argv ! 0) (argv ! 1)
             (\<lambda>hJob w2. returns (linkInfoBody pf eng (argv ! 2) (argv ! 3) hJob w2)) w)"

definition lparamsBody :: "platform \<Rightarrow> engine \<Rightarrow> handle \<Rightarrow> world \<Rightarrow> int \<times> world" where
  "lparamsBody pf eng hJob w =
     (case doGetJobInfo eng hJob DSJ_PARAMLIST w of
        ((status, jobInfo), w3) \<Rightarrow>
          if status = DSJE_NOT_AVAILABLE pf
          then (DSJE_NOERROR pf, printf ''<none>\<newline>'' [] w3)
          else if status \<noteq> DSJE_NOERROR pf
          then (status, eprintf ''Error %d getting parameter list\<newline>'' [AInt status] w3)
          else (status, printStrList 0 (paramList jobInfo) w3))"

definition jobLParams :: "platform \<Rightarrow> engine \<Rightarrow> string list \<Rightarrow> world \<Rightarrow> outcome" where
  "jobLParams pf eng argv w =
     (if length argv \<noteq> 2
      then returns (DSJE_DSJOB_ERROR,
             eprintf ''Invalid arguments: dsjob -lparams <project> <job>\<newline>'' [] w)
      else inProjectJob eng (argv ! 0) (argv ! 1)
             (\<lambda>hJob w2. returns (lparamsBody pf eng hJob w2)) w)"

text \<open>
  \<^verbatim>\<open>printValue\<close> switches on the type and prints the member of that type; the switch has
  no default. A value whose written member is not the one of its type would be printed
  from reinterpreted bytes in C; here nothing is printed for it.
\<close>

definition printValue :: "DSPARAM \<Rightarrow> world \<Rightarrow> world" where
  "printValue p w =
     (case (paramType p, paramValue p) of
        (DSJ_PARAMTYPE_STRING, pString v) \<Rightarrow> printf ''%s'' [AStr v] w
      | (DSJ_PARAMTYPE_ENCRYPTED, pEncrypt v) \<Rightarrow> printf ''%s'' [AStr v] w
      | (DSJ_PARAMTYPE_INTEGER, pInt v) \<Rightarrow> printf ''%d'' [AInt v] w
      | (DSJ_PARAMTYPE_FLOAT, pFloat v) \<Rightarrow> printf ''%G'' [AFloat v] w
      | (DSJ_PARAMTYPE_PATHNAME, pPath v) \<Rightarrow> printf ''%s'' [AStr v] w
      | (DSJ_PARAMTYPE_LIST, pListValue v) \<Rightarrow> printf ''%s'' [AStr v] w
      | (DSJ_PARAMTYPE_DATE, pDate v) \<Rightarrow> printf ''%s'' [AStr v] w
      | (DSJ_PARAMTYPE_TIME, pTime v) \<Rightarrow> printf ''%s'' [AStr v] w
      | _ \<Rightarrow> w)"

definition paramTypeName :: "paramtype \<Rightarrow> string" where
  "paramTypeName t =
     (case t of
        DSJ_PARAMTYPE_STRING \<Rightarrow> ''String'' | DSJ_PARAMTYPE_ENCRYPTED \<Rightarrow> ''Encrypted''
      | DSJ_PARAMTYPE_INTEGER \<Rightarrow> ''Integer'' | DSJ_PARAMTYPE_FLOAT \<Rightarrow> ''Float''
      | DSJ_PARAMTYPE_PATHNAME \<Rightarrow> ''Pathname'' | DSJ_PARAMTYPE_LIST \<Rightarrow> ''list''
      | DSJ_PARAMTYPE_DATE \<Rightarrow> ''Date'' | DSJ_PARAMTYPE_TIME \<Rightarrow> ''Time''
      | PARAMTYPE_other _ \<Rightarrow> ''*** ERROR - UNKNOWN TYPE ***'')"

definition printParamInfo :: "DSPARAMINFO \<Rightarrow> world \<Rightarrow> world" where
  "printParamInfo paramInfo w =
     (let w1 = printf (''Type'' @ tabs 2 @ '': '') [] w;
          w2 = printf (paramTypeName (infoParamType paramInfo)) [] w1;
          w3 = printf '' (%d)\<newline>'' [AParamType (infoParamType paramInfo)] w2;
          w4 = printf (''Help Text'' @ tabs 1 @ '': %s\<newline>'') [AStr (helpText paramInfo)] w3;
          w5 = printf (''Prompt'' @ tabs 2 @ '': %s\<newline>'') [AStr (paramPrompt paramInfo)] w4;
          w6 = printf (''Prompt At Run'' @ tabs 1 @ '': %d\<newline>'') [AInt (promptAtRun paramInfo)] w5;
          w7 = printf (''Default Value'' @ tabs 1 @ '': '') [] w6;
          w8 = printf ''\<newline>'' [] (printValue (defaultValue paramInfo) w7);
          w9 = printf ''Original Default: '' [] w8;
          w10 = printf ''\<newline>'' [] (printValue (desDefaultValue paramInfo) w9);
          w11 = (if infoParamType paramInfo = DSJ_PARAMTYPE_LIST
                 then printStrList 2 (desListValues paramInfo)
                        (printf (''Original List'' @ tabs 1 @ '':\<newline>'') []
                          (printStrList 2 (listValues paramInfo)
                            (printf (''List Values'' @ tabs 1 @ '':\<newline>'') [] w10)))
                 else w10)
      in printf ''\<newline>'' [] w11)"

definition paramInfoBody :: "platform \<Rightarrow> engine \<Rightarrow> string \<Rightarrow> handle \<Rightarrow> world \<Rightarrow> int \<times> world" where
  "paramInfoBody pf eng name hJob w =
     (case doGetParamInfo eng hJob name w of
        ((status, paramInfo), w3) \<Rightarrow>
          if status \<noteq> DSJE_NOERROR pf
          then (status, eprintf ''Error %d getting info for parameter\<newline>'' [AInt status] w3)
          else (status, printParamInfo paramInfo w3))"

definition jobParamInfo :: "platform \<Rightarrow> engine \<Rightarrow> string list \<Rightarrow> world \<Rightarrow> outcome" where
  "jobParamInfo pf eng argv w =
     (if length argv \<noteq> 3
      then returns (DSJE_DSJOB_ERROR,
             eprintf ''Invalid arguments: dsjob -paraminfo <project> <job> <param>\<newline>'' [] w)
      else inProjectJob eng (argv ! 0) (argv ! 1)
             (\<lambda>hJob w2. returns (paramInfoBody pf eng (argv ! 2) hJob w2)) w)"


subsection \<open>\<^verbatim>\<open>-log\<close>\<close>

fun logOptions :: "logtype \<times> bool \<Rightarrow> string list \<Rightarrow> (logtype \<times> bool) \<times> string list" where
  "logOptions st [] = (st, [])"
| "logOptions (ty, bad) (a # rest) =
     (if bad \<or> \<not> isOption a then ((ty, bad), a # rest)
      else if tl a = ''info'' then logOptions (DSJ_LOGINFO, bad) rest
      else if tl a = ''warn'' then logOptions (DSJ_LOGWARNING, bad) rest
      else logOptions (ty, True) rest)"

text \<open>
  Reading the message: standard input is a finite sequence of characters followed by
  end of file. The loop keeps newlines and printable characters while fewer than
  \<^verbatim>\<open>MAX_MSG_LEN\<close> are kept; with \<^verbatim>\<open>WIN32\<close>, character 4 ends the message too.
\<close>

fun readMessage :: "bool \<Rightarrow> string \<Rightarrow> char list \<Rightarrow> string \<times> char list" where
  "readMessage win msg [] = (msg, [])"
| "readMessage win msg (ch # input) =
     (if \<not> length msg < MAX_MSG_LEN then (msg, ch # input)
      else if win \<and> (of_char ch :: nat) = 4 then (msg, input)
      else if ch = CHR ''\<newline>'' \<or> isprint ch then readMessage win (msg @ [ch]) input
      else readMessage win msg input)"

definition logUsage :: "world \<Rightarrow> world" where
  "logUsage w =
     eprintf ''\<newline>Log message is read from stdin.\<newline>'' []
       (eprintf (tabs 3 @ ''<project> <job>\<newline>'') []
         (eprintf (tabs 3 @ ''[-info | -warn]\<newline>'') []
           (eprintf ''Invalid arguments: dsjob -log\<newline>'' [] w)))"

definition logBody :: "platform \<Rightarrow> engine \<Rightarrow> logtype \<Rightarrow> handle \<Rightarrow> world \<Rightarrow> int \<times> world" where
  "logBody pf eng ty hJob w =
     (let w1 = printf ''Enter message text, terminating with Ctrl-d\<newline>'' [] w;
          (msg, input) = readMessage (WIN32 pf) [] (stdin w1);
          w2 = printf ''\<newline>Message read.\<newline>'' [] (w1\<lparr>stdin := input\<rparr>)
      in complain pf ''Error adding log entry\<newline>'' (doLogEvent eng hJob ty msg w2))"

definition jobLog :: "platform \<Rightarrow> engine \<Rightarrow> string list \<Rightarrow> world \<Rightarrow> outcome" where
  "jobLog pf eng argv w =
     (case logOptions (DSJ_LOGINFO, False) argv of
        ((ty, bad), rest) \<Rightarrow>
          if bad \<or> length rest \<noteq> 2
          then returns (DSJE_DSJOB_ERROR, logUsage w)
          else inProjectJob eng (rest ! 0) (rest ! 1)
                 (\<lambda>hJob w2. returns (logBody pf eng ty hJob w2)) w)"

subsection \<open>\<^verbatim>\<open>-logsum\<close>, \<^verbatim>\<open>-logdetail\<close>, \<^verbatim>\<open>-lognewest\<close>\<close>

text \<open>The chain of \<^verbatim>\<open>strcmp\<close> on a log type name, the same in \<^verbatim>\<open>jobLogSum\<close> and \<^verbatim>\<open>jobLogNewest\<close>.\<close>

definition logTypeArg :: "string \<Rightarrow> logtype option" where
  "logTypeArg a =
     (if a = ''INFO'' then Some DSJ_LOGINFO
      else if a = ''WARNING'' then Some DSJ_LOGWARNING
      else if a = ''FATAL'' then Some DSJ_LOGFATAL
      else if a = ''REJECT'' then Some DSJ_LOGREJECT
      else if a = ''STARTED'' then Some DSJ_LOGSTARTED
      else if a = ''RESET'' then Some DSJ_LOGRESET
      else if a = ''BATCH'' then Some DSJ_LOGBATCH
      else if a = ''OTHER'' then Some DSJ_LOGOTHER
      else None)"

record logsumargs =
  lsType :: logtype
  maxNumber :: int
  lsBad :: bool

fun logSumOptions :: "platform \<Rightarrow> logsumargs \<Rightarrow> string list \<Rightarrow> logsumargs \<times> string list" where
  "logSumOptions pf st [] = (st, [])"
| "logSumOptions pf st [a] =
     (if lsBad st \<or> \<not> isOption a then (st, [a]) else (st\<lparr>lsBad := True\<rparr>, []))"
| "logSumOptions pf st (a # arg # rest) =
     (if lsBad st \<or> \<not> isOption a then (st, a # arg # rest)
      else if tl a = ''type'' then
        (case logTypeArg arg of
           Some t \<Rightarrow> logSumOptions pf (st\<lparr>lsType := t\<rparr>) rest
         | None \<Rightarrow> logSumOptions pf (st\<lparr>lsBad := True\<rparr>) rest)
      else if tl a = ''max'' then logSumOptions pf (st\<lparr>maxNumber := atoi pf arg\<rparr>) rest
      else logSumOptions pf (st\<lparr>lsBad := True\<rparr>) rest)"

definition logSumUsage :: "world \<Rightarrow> world" where
  "logSumUsage w =
     eprintf (tabs 3 @ ''<project> <job>\<newline>'') []
       (eprintf (tabs 3 @ ''[-max <n>]\<newline>'') []
         (eprintf (tabs 3 @ ''[-type <INFO | WARNING | FATAL | REJECT | STARTED | RESET | BATCH>]\<newline>'') []
           (eprintf ''Invalid arguments: dsjob -logsum\<newline>'' [] w)))"

text \<open>One pass of the body of the \<^verbatim>\<open>while\<close> loop up to the call of \<^verbatim>\<open>DSFindNextLogEntry\<close>.\<close>

definition printLogEvent :: "DSLOGEVENT \<Rightarrow> world \<Rightarrow> world" where
  "printLogEvent event w =
     printf (tabs 1 @ ''%s\<newline>'') [AStr (message event)]
       (printf (tabs 1 @ ''%s'') [ATime (timestamp event)]
         (printf (logTypeName (type event)) []
           (printf (''%d'' @ tabs 1) [AInt (eventId event)] w)))"

text \<open>
  \<^verbatim>\<open>while (status == DSJE_NOERROR)\<close>: the loop runs for as long as the engine answers
  with success, so it need not end; \<open>None\<close> is the run that never leaves it.
\<close>

partial_function (option) logLoop ::
  "platform \<Rightarrow> engine \<Rightarrow> handle \<Rightarrow> int \<Rightarrow> DSLOGEVENT \<Rightarrow> world \<Rightarrow> (int \<times> world) option" where
  "logLoop pf eng hJob status event w =
     (if status = DSJE_NOERROR pf
      then logLoop pf eng hJob
             (fst (fst (doFindNextLogEntry eng hJob (printLogEvent event w))))
             (snd (fst (doFindNextLogEntry eng hJob (printLogEvent event w))))
             (snd (doFindNextLogEntry eng hJob (printLogEvent event w)))
      else Some (status, w))"

declare logLoop.simps [code]

definition logSumBody :: "platform \<Rightarrow> engine \<Rightarrow> logsumargs \<Rightarrow> handle \<Rightarrow> world \<Rightarrow> outcome" where
  "logSumBody pf eng st hJob w =
     (case (case doFindFirstLogEntry eng hJob (lsType st) 0 0 (maxNumber st) w of
              ((status0, event), w0) \<Rightarrow> logLoop pf eng hJob status0 event w0) of
        None \<Rightarrow> None
      | Some (status, w1) \<Rightarrow>
          if status = DSJE_NOMORE pf then returns (DSJE_NOERROR pf, w1)
          else returns (status, eprintf ''Error %d getting log summary\<newline>'' [AInt status] w1))"

definition jobLogSum :: "platform \<Rightarrow> engine \<Rightarrow> string list \<Rightarrow> world \<Rightarrow> outcome" where
  "jobLogSum pf eng argv w =
     (case logSumOptions pf \<lparr>lsType = DSJ_LOGANY, maxNumber = 0, lsBad = False\<rparr> argv of
        (st, rest) \<Rightarrow>
          if lsBad st \<or> length rest \<noteq> 2
          then returns (DSJE_DSJOB_ERROR, logSumUsage w)
          else inProjectJob eng (rest ! 0) (rest ! 1) (logSumBody pf eng st) w)"

definition logDetailBody :: "platform \<Rightarrow> engine \<Rightarrow> int \<Rightarrow> handle \<Rightarrow> world \<Rightarrow> int \<times> world" where
  "logDetailBody pf eng evId hJob w =
     (case doGetLogEntry eng hJob evId w of
        ((status, logDetail), w3) \<Rightarrow>
          if status \<noteq> DSJE_NOERROR pf
          then (status, eprintf ''Error %d getting event details\<newline>'' [AInt status] w3)
          else (status, printLogDetail 0 logDetail w3))"

definition jobLogDetail :: "platform \<Rightarrow> engine \<Rightarrow> string list \<Rightarrow> world \<Rightarrow> outcome" where
  "jobLogDetail pf eng argv w =
     (if length argv \<noteq> 3
      then returns (DSJE_DSJOB_ERROR,
             eprintf ''Invalid arguments: dsjob -logdetail <project> <job> <event id>\<newline>'' [] w)
      else inProjectJob eng (argv ! 0) (argv ! 1)
             (\<lambda>hJob w2. returns (logDetailBody pf eng (atoi pf (argv ! 2)) hJob w2)) w)"

definition logNewestUsage :: "world \<Rightarrow> world" where
  "logNewestUsage w =
     eprintf (tabs 1 @ '' event type = INFO | WARNING | FATAL | REJECT | STARTED | RESET | BATCH\<newline>'') []
       (eprintf ''Invalid arguments: dsjob -lognewest <project> <job> [<event type>]\<newline>'' [] w)"

definition logNewestBody :: "platform \<Rightarrow> engine \<Rightarrow> logtype \<Rightarrow> handle \<Rightarrow> world \<Rightarrow> int \<times> world" where
  "logNewestBody pf eng ty hJob w =
     (case doGetNewestLogId eng hJob ty w of
        (newestId, w1) \<Rightarrow>
          if newestId < 0
          then (case doGetLastError eng w1 of
                  (status, w2) \<Rightarrow>
                    (status, eprintf ''Error %d getting event details\<newline>'' [AInt status] w2))
          else (DSJE_NOERROR pf, printf ''Newsest id = %d\<newline>'' [AInt newestId] w1))"

definition jobLogNewest :: "platform \<Rightarrow> engine \<Rightarrow> string list \<Rightarrow> world \<Rightarrow> outcome" where
  "jobLogNewest pf eng argv w =
     (if length argv < 2 \<or> 3 < length argv
      then returns (DSJE_DSJOB_ERROR, logNewestUsage w)
      else case (if length argv = 3 then logTypeArg (argv ! 2) else Some DSJ_LOGANY) of
             None \<Rightarrow> returns (DSJE_DSJOB_ERROR, logNewestUsage w)
           | Some ty \<Rightarrow>
               inProjectJob eng (argv ! 0) (argv ! 1)
                 (\<lambda>hJob w2. returns (logNewestBody pf eng ty hJob w2)) w)"

section \<open>The dispatcher\<close>

text \<open>The table \<^verbatim>\<open>MajorOption\<close>, in its order.\<close>

definition MajorOption ::
  "(string \<times> (platform \<Rightarrow> engine \<Rightarrow> string list \<Rightarrow> world \<Rightarrow> outcome)) list" where
  "MajorOption =
     [(''run'', jobRun), (''stop'', jobStop), (''lprojects'', jobLProjects),
      (''ljobs'', jobLJobs), (''lstages'', jobLStages), (''llinks'', jobLLinks),
      (''jobinfo'', jobJobInfo), (''stageinfo'', jobStageInfo), (''linkinfo'', jobLinkInfo),
      (''lparams'', jobLParams), (''paraminfo'', jobParamInfo), (''log'', jobLog),
      (''logsum'', jobLogSum), (''logdetail'', jobLogDetail), (''lognewest'', jobLogNewest)]"

text \<open>The label \<^verbatim>\<open>reportError\<close>: the command syntax, every name of the table, the local error code.\<close>

definition reportError :: "world \<Rightarrow> int \<times> world" where
  "reportError w =
     (DSJE_DSJOB_ERROR,
      foldl (\<lambda>w' name. eprintf (tabs 1 @ ''-%s\<newline>'') [AStr name] w')
        (eprintf ''\<newline>Valid primary command options are:\<newline>'' []
          (eprintf (tabs 3 @ ''<primary command> [<arguments>]\<newline>'') []
            (eprintf (tabs 1 @ ''dsjob [-domain <domain>][-server <server>][-user <user>][-password <password>]\<newline>'') []
              (eprintf ''Command syntax:\<newline>'' [] w))))
        (map fst MajorOption))"

text \<open>
  One of the four tests for a global option, on \<^verbatim>\<open>argc\<close> and \<^verbatim>\<open>argPos\<close>: \<open>None\<close> is
  the jump to \<^verbatim>\<open>reportError\<close>, otherwise the value taken (if the flag is there) and the
  new \<^verbatim>\<open>argc\<close> and \<^verbatim>\<open>argPos\<close>.
\<close>

definition globalOption ::
  "string \<Rightarrow> string list \<Rightarrow> nat \<times> nat \<Rightarrow> (string option \<times> nat \<times> nat) option" where
  "globalOption flag argv ap =
     (case ap of
        (argc, argPos) \<Rightarrow>
          if argv ! argPos = flag
          then (if argc < 3 then None else Some (Some (argv ! (argPos + 1)), argc - 2, argPos + 2))
          else Some (None, argc, argPos))"

definition hasPrefixChar :: "platform \<Rightarrow> string \<Rightarrow> bool" where
  "hasPrefixChar pf a =
     (case a of [] \<Rightarrow> False | c # _ \<Rightarrow> c = CHR ''-'' \<or> (WIN32 pf \<and> c = CHR ''/''))"

text \<open>The statements run when an entry of the table matches.\<close>

definition runHandler ::
  "platform \<Rightarrow> engine \<Rightarrow> (platform \<Rightarrow> engine \<Rightarrow> string list \<Rightarrow> world \<Rightarrow> outcome) \<Rightarrow>
   string option \<Rightarrow> string option \<Rightarrow> string option \<Rightarrow> string option \<Rightarrow>
   string list \<Rightarrow> world \<Rightarrow> outcome" where
  "runHandler pf eng optionHandler domain server user password args w =
     (case optionHandler pf eng args (docall (SetServerParams domain user password server) w) of
        None \<Rightarrow> None
      | Some (Inl f) \<Rightarrow> Some (Inl f)
      | Some (Inr (result, w1)) \<Rightarrow>
          (let w2 = (if result \<noteq> DSJE_NOERROR pf
                     then eprintf ''\<newline>Status code = %d\<newline>'' [AInt result] w1 else w1)
           in case doGetLastErrorMsg eng w2 of
                (None, w3) \<Rightarrow> returns (result, w3)
              | (Some errText, w3) \<Rightarrow>
                  returns (result,
                    eprintf ''\<newline>'' []
                      (printStrList 0 errText
                        (eprintf ''\<newline>Last recorded error message =\<newline>'' [] w3)))))"

text \<open>The four tests of \<^verbatim>\<open>main\<close> for the global options, one after the other.\<close>

definition globalOptions ::
  "string list \<Rightarrow>
   (string option \<times> string option \<times> string option \<times> string option \<times> nat \<times> nat) option" where
  "globalOptions argv =
     (case globalOption ''-domain'' argv (length argv - 1, 1) of
        None \<Rightarrow> None
      | Some (domain, ap1) \<Rightarrow>
     (case globalOption ''-server'' argv ap1 of
        None \<Rightarrow> None
      | Some (server, ap2) \<Rightarrow>
     (case globalOption ''-user'' argv ap2 of
        None \<Rightarrow> None
      | Some (user, ap3) \<Rightarrow>
     (case globalOption ''-password'' argv ap3 of
        None \<Rightarrow> None
      | Some (password, argc, argPos) \<Rightarrow>
          Some (domain, server, user, password, argc, argPos)))))"

definition main :: "platform \<Rightarrow> engine \<Rightarrow> string list \<Rightarrow> world \<Rightarrow> outcome" where
  "main pf eng argv w =
     (if length argv < 2 then returns (reportError w)
      else
        (case globalOptions argv of
           None \<Rightarrow> returns (reportError w)
         | Some (domain, server, user, password, argc, argPos) \<Rightarrow>
             if argc < 1 then returns (reportError w)
             else if \<not> hasPrefixChar pf (argv ! argPos) then returns (reportError w)
             else
               (case find (\<lambda>entry. tl (argv ! argPos) = fst entry) MajorOption of
                  Some entry \<Rightarrow>
                    runHandler pf eng (snd entry) domain server user password
                      (drop (argPos + 1) argv) w
                | None \<Rightarrow>
                    returns (reportError
                      (eprintf ''Invalid/unknown primary command switch.\<newline>'' [] w)))))"

section \<open>Notions used to state the properties\<close>

subsection \<open>The command line of the specification\<close>

text \<open>
  The specification describes the command line as a grammar: the global options
  domain, server, user, password, in this order, each an exact flag token followed by
  one value token and each possibly absent; then the sub-command token, which begins
  with the option-prefix character and whose remainder is looked up in the table.
  \<open>takeFlag\<close> and \<open>specDispatch\<close> follow these words, on the tokens after the program
  name; they are compared with \<open>main\<close> below.
\<close>

definition takeFlag :: "string \<Rightarrow> string list \<Rightarrow> (string option \<times> string list) option" where
  "takeFlag flag ts =
     (case ts of
        [] \<Rightarrow> Some (None, [])
      | t # rest \<Rightarrow>
          if t = flag
          then (case rest of [] \<Rightarrow> None | v # rest' \<Rightarrow> Some (Some v, rest'))
          else Some (None, ts))"

definition specGlobals ::
  "string list \<Rightarrow>
   (string option \<times> string option \<times> string option \<times> string option \<times> string list) option" where
  "specGlobals ts =
     (case takeFlag ''-domain'' ts of
        None \<Rightarrow> None
      | Some (domain, ts1) \<Rightarrow>
     (case takeFlag ''-server'' ts1 of
        None \<Rightarrow> None
      | Some (server, ts2) \<Rightarrow>
     (case takeFlag ''-user'' ts2 of
        None \<Rightarrow> None
      | Some (user, ts3) \<Rightarrow>
     (case takeFlag ''-password'' ts3 of
        None \<Rightarrow> None
      | Some (password, ts4) \<Rightarrow> Some (domain, server, user, password, ts4)))))"

definition specDispatch :: "platform \<Rightarrow> engine \<Rightarrow> string list \<Rightarrow> world \<Rightarrow> outcome" where
  "specDispatch pf eng argv w =
     (case specGlobals (tl argv) of
        None \<Rightarrow> returns (reportError w)
      | Some (domain, server, user, password, ts) \<Rightarrow>
          (case ts of
             [] \<Rightarrow> returns (reportError w)
           | cmd # args \<Rightarrow>
               if \<not> hasPrefixChar pf cmd then returns (reportError w)
               else
                 (case find (\<lambda>entry. tl cmd = fst entry) MajorOption of
                    None \<Rightarrow>
                      returns (reportError
                        (eprintf ''Invalid/unknown primary command switch.\<newline>'' [] w))
                  | Some entry \<Rightarrow>
                      runHandler pf eng (snd entry) domain server user password args w)))"


text \<open>
  A command line is dispatched to a handler, with the connection values \<open>d\<close>, \<open>s\<close>, \<open>u\<close>, \<open>p\<close>
  and the arguments \<open>args\<close>, when the run \<open>out\<close> of the program from world \<open>w\<close> is this: the
  connection values are given to the engine, the handler runs on \<open>args\<close>, and if it does not
  return or leaves defined behaviour so does the program; if it returns \<open>r\<close>, the program
  returns \<open>r\<close> after one more call, the query of the last error message, and has only
  added to what the handler wrote.
\<close>

definition dispatchedTo ::
  "platform \<Rightarrow> engine \<Rightarrow> (platform \<Rightarrow> engine \<Rightarrow> string list \<Rightarrow> world \<Rightarrow> outcome) \<Rightarrow>
   string option \<Rightarrow> string option \<Rightarrow> string option \<Rightarrow> string option \<Rightarrow>
   string list \<Rightarrow> world \<Rightarrow> outcome \<Rightarrow> bool" where
  "dispatchedTo pf eng handler d s u p args w out =
     (case handler pf eng args (docall (SetServerParams d u p s) w) of
        None \<Rightarrow> out = None
      | Some (Inl f) \<Rightarrow> out = Some (Inl f)
      | Some (Inr (r, w1)) \<Rightarrow>
          (case out of
             Some (Inr (r', w2)) \<Rightarrow>
               r' = r \<and> calls w2 = calls w1 @ [GetLastErrorMsg] \<and>
               take (length (printed w1)) (printed w2) = printed w1
           | _ \<Rightarrow> False))"

text \<open>
  \<^verbatim>\<open>argc\<close> and \<^verbatim>\<open>argPos\<close> of \<^verbatim>\<open>main\<close> describe the tokens \<open>ts\<close> still to be read:
  \<^verbatim>\<open>argPos\<close> is the index of the first and \<^verbatim>\<open>argc\<close> their number, which is not zero.
\<close>

definition inStep :: "string list \<Rightarrow> nat \<times> nat \<Rightarrow> string list \<Rightarrow> bool" where
  "inStep argv ap ts =
     (case ap of
        (argc, argPos) \<Rightarrow>
          argPos < length argv \<and> argc = length argv - argPos \<and> ts = drop argPos argv)"

text \<open>The tokens of a global option that is given (\<open>Some\<close>) or left out (\<open>None\<close>).\<close>

definition flagTokens :: "string \<Rightarrow> string option \<Rightarrow> string list" where
  "flagTokens flag v = (case v of None \<Rightarrow> [] | Some x \<Rightarrow> [flag, x])"

definition globalTokens ::
  "string option \<Rightarrow> string option \<Rightarrow> string option \<Rightarrow> string option \<Rightarrow> string list" where
  "globalTokens domain server user password =
     flagTokens ''-domain'' domain @ flagTokens ''-server'' server @
     flagTokens ''-user'' user @ flagTokens ''-password'' password"

text \<open>The lines that \<^verbatim>\<open>reportError\<close> writes.\<close>

definition usageText :: "outp list" where
  "usageText =
     [Stderr ''Command syntax:\<newline>'' [],
      Stderr (tabs 1 @ ''dsjob [-domain <domain>][-server <server>][-user <user>][-password <password>]\<newline>'') [],
      Stderr (tabs 3 @ ''<primary command> [<arguments>]\<newline>'') [],
      Stderr ''\<newline>Valid primary command options are:\<newline>'' []] @
     map (\<lambda>name. Stderr (tabs 1 @ ''-%s\<newline>'') [AStr name]) (map fst MajorOption)"

subsection \<open>The options of \<^verbatim>\<open>-run\<close> as the usage text lists them\<close>

datatype runopt = OptWait | OptMode runmode | OptParam string | OptWarn string | OptRows string




text \<open>The \<open>name=value\<close> texts among the options, in their order.\<close>

fun paramsOf :: "runopt list \<Rightarrow> string list" where
  "paramsOf [] = []"
| "paramsOf (OptParam p # opts) = p # paramsOf opts"
| "paramsOf (_ # opts) = paramsOf opts"

text \<open>What one option does to the locals, the array left aside.\<close>

definition optEffect :: "platform \<Rightarrow> runargs \<Rightarrow> runopt \<Rightarrow> runargs" where
  "optEffect pf st opt =
     (case opt of
        OptWait \<Rightarrow> st\<lparr>waitForJob := True\<rparr>
      | OptMode m \<Rightarrow> st\<lparr>mode := m\<rparr>
      | OptParam p \<Rightarrow> st\<lparr>param := (param st)[nParams st := p], nParams := nParams st + 1\<rparr>
      | OptWarn n \<Rightarrow> st\<lparr>warningLimit := atoi pf n\<rparr>
      | OptRows n \<Rightarrow> st\<lparr>rowLimit := atoi pf n\<rparr>)"

subsection \<open>Texts with no number\<close>

text \<open>
  \<open>no_digits\<close>: after white space and a sign the text does not go on with a digit, so
  that it has no integer to convert. \<open>holds_number\<close>: after white space and a sign the text
  goes on with one of the forms that \<^verbatim>\<open>strtod\<close> of some C library converts.
\<close>

definition no_digits :: "string \<Rightarrow> bool" where
  "no_digits s =
     (case snd (strip_sign (dropWhile isspace s)) of [] \<Rightarrow> True | c # _ \<Rightarrow> \<not> isdigit c)"

definition holds_number :: "string \<Rightarrow> bool" where
  "holds_number s =
     (case strip_sign (dropWhile isspace s) of
        (neg, t) \<Rightarrow> special_form t \<or> decimal_value t \<noteq> None)"

subsection \<open>The life cycle of handles, read off the calls\<close>

text \<open>
  A monitor over the sequence of calls, asking the engine (with the calls before) whether
  an open or a lock succeeded. It accepts a call only when: a project is opened while
  none is open; a job is opened in the open project while no job is open; a job is
  closed while it is the open job and not locked; a project is closed while it is the
  open project and its job is closed; a job is unlocked while it is locked; and limits,
  parameters, run and wait are not called after a failed lock.
\<close>

record lifecycle =
  projectOpen :: "handle option"
  jobOpen :: "handle option"
  locked :: bool
  lockFailed :: bool

definition allClosed :: lifecycle where
  "allClosed = \<lparr>projectOpen = None, jobOpen = None, locked = False, lockFailed = False\<rparr>"

definition business :: "lifecycle \<Rightarrow> lifecycle option" where
  "business s = (if lockFailed s then None else Some s)"

definition monitor :: "platform \<Rightarrow> engine \<Rightarrow> call list \<Rightarrow> lifecycle \<Rightarrow> call \<Rightarrow> lifecycle option" where
  "monitor pf eng hist s c =
     (case c of
        OpenProject name \<Rightarrow>
          if projectOpen s = None then Some (s\<lparr>projectOpen := DSOpenProject eng hist name\<rparr>)
          else None
      | CloseProject h \<Rightarrow>
          if projectOpen s = Some h \<and> jobOpen s = None then Some (s\<lparr>projectOpen := None\<rparr>)
          else None
      | OpenJob hp name \<Rightarrow>
          if projectOpen s = Some hp \<and> jobOpen s = None
          then Some (s\<lparr>jobOpen := DSOpenJob eng hist hp name\<rparr>)
          else None
      | CloseJob h \<Rightarrow>
          if jobOpen s = Some h \<and> \<not> locked s
          then Some (s\<lparr>jobOpen := None, lockFailed := False\<rparr>)
          else None
      | LockJob h \<Rightarrow>
          if jobOpen s = Some h \<and> \<not> locked s
          then (if DSLockJob eng hist h = DSJE_NOERROR pf
                then Some (s\<lparr>locked := True, lockFailed := False\<rparr>)
                else Some (s\<lparr>lockFailed := True\<rparr>))
          else None
      | UnlockJob h \<Rightarrow>
          if jobOpen s = Some h \<and> locked s then Some (s\<lparr>locked := False\<rparr>) else None
      | SetJobLimit h l v \<Rightarrow> business s
      | GetParamInfo h n \<Rightarrow> business s
      | SetParam h n d \<Rightarrow> business s
      | RunJob h m \<Rightarrow> business s
      | WaitForJob h \<Rightarrow> business s
      | _ \<Rightarrow> Some s)"

fun monitorAll ::
  "platform \<Rightarrow> engine \<Rightarrow> call list \<Rightarrow> lifecycle \<Rightarrow> call list \<Rightarrow> lifecycle option" where
  "monitorAll pf eng hist s [] = Some s"
| "monitorAll pf eng hist s (c # cs) =
     (case monitor pf eng hist s c of
        None \<Rightarrow> None
      | Some s' \<Rightarrow> monitorAll pf eng (hist @ [c]) s' cs)"

text \<open>
  The calls \<open>cs\<close>, made after the calls \<open>hist\<close>, respect the life cycle: the monitor
  accepts them from all closed and ends with all closed.
\<close>

definition lifecycleRespected :: "platform \<Rightarrow> engine \<Rightarrow> call list \<Rightarrow> call list \<Rightarrow> bool" where
  "lifecycleRespected pf eng hist cs = (monitorAll pf eng hist allClosed cs = Some allClosed)"

text \<open>The calls made from world \<open>w\<close> to world \<open>w'\<close>.\<close>

definition callsSince :: "world \<Rightarrow> world \<Rightarrow> call list" where
  "callsSince w w' = drop (length (calls w)) (calls w')"

text \<open>
  The handles the engine gave out for the opens among the calls \<open>cs\<close> (made after
  \<open>hist\<close>), and the handles the program closed, each in the order of the calls.
\<close>

definition projectGiven :: "engine \<Rightarrow> call list \<Rightarrow> call \<Rightarrow> handle list" where
  "projectGiven eng hist c =
     (case c of
        OpenProject n \<Rightarrow> (case DSOpenProject eng hist n of Some h \<Rightarrow> [h] | None \<Rightarrow> [])
      | _ \<Rightarrow> [])"

definition jobGiven :: "engine \<Rightarrow> call list \<Rightarrow> call \<Rightarrow> handle list" where
  "jobGiven eng hist c =
     (case c of
        OpenJob hp n \<Rightarrow> (case DSOpenJob eng hist hp n of Some h \<Rightarrow> [h] | None \<Rightarrow> [])
      | _ \<Rightarrow> [])"

fun openedProjects :: "engine \<Rightarrow> call list \<Rightarrow> call list \<Rightarrow> handle list" where
  "openedProjects eng hist [] = []"
| "openedProjects eng hist (c # cs) = projectGiven eng hist c @ openedProjects eng (hist @ [c]) cs"

fun openedJobs :: "engine \<Rightarrow> call list \<Rightarrow> call list \<Rightarrow> handle list" where
  "openedJobs eng hist [] = []"
| "openedJobs eng hist (c # cs) = jobGiven eng hist c @ openedJobs eng (hist @ [c]) cs"

definition closedProjects :: "call list \<Rightarrow> handle list" where
  "closedProjects cs = concat (map (\<lambda>c. case c of CloseProject h \<Rightarrow> [h] | _ \<Rightarrow> []) cs)"

definition closedJobs :: "call list \<Rightarrow> handle list" where
  "closedJobs cs = concat (map (\<lambda>c. case c of CloseJob h \<Rightarrow> [h] | _ \<Rightarrow> []) cs)"


text \<open>The calls that neither open, close, lock nor unlock.\<close>

definition plainCall :: "call \<Rightarrow> bool" where
  "plainCall c =
     (case c of
        OpenProject n \<Rightarrow> False | CloseProject h \<Rightarrow> False | OpenJob h n \<Rightarrow> False
      | CloseJob h \<Rightarrow> False | LockJob h \<Rightarrow> False | UnlockJob h \<Rightarrow> False | _ \<Rightarrow> True)"

definition inJob :: "handle \<Rightarrow> handle \<Rightarrow> lifecycle" where
  "inJob hp hj = \<lparr>projectOpen = Some hp, jobOpen = Some hj, locked = False, lockFailed = False\<rparr>"

text \<open>The calls \<^verbatim>\<open>jobRun\<close> may make on the locked job, for given locals.\<close>

definition runBusinessCall :: "runargs \<Rightarrow> handle \<Rightarrow> call \<Rightarrow> bool" where
  "runBusinessCall st hJob c =
     (case c of
        SetJobLimit h l v \<Rightarrow>
          h = hJob \<and>
          (if l = DSJ_LIMITWARN then v = warningLimit st \<and> 0 \<le> v
           else v = rowLimit st \<and> v \<noteq> 0)
      | GetParamInfo h n \<Rightarrow> h = hJob
      | SetParam h n d \<Rightarrow> h = hJob
      | RunJob h m \<Rightarrow> h = hJob \<and> m = mode st
      | WaitForJob h \<Rightarrow> h = hJob
      | _ \<Rightarrow> False)"

definition isParamCall :: "handle \<Rightarrow> call \<Rightarrow> bool" where
  "isParamCall hJob c =
     (case c of GetParamInfo h n \<Rightarrow> h = hJob | SetParam h n d \<Rightarrow> h = hJob | _ \<Rightarrow> False)"

text \<open>The names whose type was queried, and the names whose value was set, in order.\<close>

fun queriedNames :: "call list \<Rightarrow> string list" where
  "queriedNames [] = []"
| "queriedNames (GetParamInfo h n # cs) = n # queriedNames cs"
| "queriedNames (_ # cs) = queriedNames cs"

fun setNames :: "call list \<Rightarrow> string list" where
  "setNames [] = []"
| "setNames (SetParam h n d # cs) = n # setNames cs"
| "setNames (_ # cs) = setNames cs"

definition paramName :: "string \<Rightarrow> string" where
  "paramName p = takeWhile (\<lambda>c. c \<noteq> CHR ''='') p"

subsection \<open>Statuses read off the calls\<close>

text \<open>
  The status the program receives from a call, for the calls that return one and whose
  result the program keeps (close and unlock are cast to void).
\<close>

definition callStatus :: "engine \<Rightarrow> call list \<Rightarrow> call \<Rightarrow> int option" where
  "callStatus eng hist c =
     (case c of
        LockJob h \<Rightarrow> Some (DSLockJob eng hist h)
      | SetJobLimit h l v \<Rightarrow> Some (DSSetJobLimit eng hist h l v)
      | GetParamInfo h n \<Rightarrow> Some (fst (DSGetParamInfo eng hist h n))
      | SetParam h n d \<Rightarrow> Some (DSSetParam eng hist h n d)
      | RunJob h m \<Rightarrow> Some (DSRunJob eng hist h m)
      | WaitForJob h \<Rightarrow> Some (DSWaitForJob eng hist h)
      | StopJob h \<Rightarrow> Some (DSStopJob eng hist h)
      | GetProjectInfo h k \<Rightarrow> Some (fst (DSGetProjectInfo eng hist h k))
      | GetJobInfo h k \<Rightarrow> Some (fst (DSGetJobInfo eng hist h k))
      | GetStageInfo h s k \<Rightarrow> Some (fst (DSGetStageInfo eng hist h s k))
      | GetLinkInfo h s l k \<Rightarrow> Some (fst (DSGetLinkInfo eng hist h s l k))
      | LogEvent h t m \<Rightarrow> Some (DSLogEvent eng hist h t m)
      | FindFirstLogEntry h t a b n \<Rightarrow> Some (fst (DSFindFirstLogEntry eng hist h t a b n))
      | FindNextLogEntry h \<Rightarrow> Some (fst (DSFindNextLogEntry eng hist h))
      | GetLogEntry h i \<Rightarrow> Some (fst (DSGetLogEntry eng hist h i))
      | GetLastError \<Rightarrow> Some (DSGetLastError eng hist)
      | _ \<Rightarrow> None)"

text \<open>
  The statuses the program takes as an empty result, not as an error: "not available"
  from the queries it answers with \<^verbatim>\<open><none>\<close> or \<^verbatim>\<open>not available\<close>, and "no more" from
  the log cursor.
\<close>

definition softStatus :: "platform \<Rightarrow> call \<Rightarrow> int \<Rightarrow> bool" where
  "softStatus pf c s =
     (case c of
        GetProjectInfo h k \<Rightarrow> s = DSJE_NOT_AVAILABLE pf
      | GetJobInfo h k \<Rightarrow>
          s = DSJE_NOT_AVAILABLE pf \<and> k \<noteq> DSJ_JOBSTATUS \<and> k \<noteq> DSJ_JOBWAVENO
      | GetStageInfo h st k \<Rightarrow>
          s = DSJE_NOT_AVAILABLE pf \<and> (k = DSJ_LINKLIST \<or> k = DSJ_STAGELASTERR)
      | GetLinkInfo h st l k \<Rightarrow> s = DSJE_NOT_AVAILABLE pf \<and> k = DSJ_LINKLASTERR
      | FindFirstLogEntry h t a b n \<Rightarrow> s = DSJE_NOMORE pf
      | FindNextLogEntry h \<Rightarrow> s = DSJE_NOMORE pf
      | _ \<Rightarrow> False)"

text \<open>The failure a call brings: its status when that is neither success nor soft.\<close>

definition failureOf :: "platform \<Rightarrow> engine \<Rightarrow> call list \<Rightarrow> call \<Rightarrow> int list" where
  "failureOf pf eng hist c =
     (case callStatus eng hist c of
        None \<Rightarrow> []
      | Some s \<Rightarrow> if s = DSJE_NOERROR pf \<or> softStatus pf c s then [] else [s])"

fun hardFailures :: "platform \<Rightarrow> engine \<Rightarrow> call list \<Rightarrow> call list \<Rightarrow> int list" where
  "hardFailures pf eng hist [] = []"
| "hardFailures pf eng hist (c # cs) =
     failureOf pf eng hist c @ hardFailures pf eng (hist @ [c]) cs"

text \<open>The handlers whose result is the status of their last query only.\<close>

definition infoCommands :: "string list" where
  "infoCommands = [''jobinfo'', ''stageinfo'', ''linkinfo'']"

subsection \<open>The log cursor\<close>

text \<open>
  The answer of the engine to the \<open>k\<close>-th call of the cursor, when find-first and then
  find-next are called in a row after the calls \<open>hist\<close>.
\<close>

definition cursorAnswer ::
  "engine \<Rightarrow> call list \<Rightarrow> handle \<Rightarrow> logtype \<Rightarrow> int \<Rightarrow> nat \<Rightarrow> int \<times> DSLOGEVENT" where
  "cursorAnswer eng hist hJob ty mx k =
     (case k of
        0 \<Rightarrow> DSFindFirstLogEntry eng hist hJob ty 0 0 mx
      | Suc j \<Rightarrow>
          DSFindNextLogEntry eng
            (hist @ FindFirstLogEntry hJob ty 0 0 mx # replicate j (FindNextLogEntry hJob)) hJob)"

text \<open>What the loop writes for one entry.\<close>

definition logItem :: "DSLOGEVENT \<Rightarrow> outp list" where
  "logItem event =
     [Stdout (''%d'' @ tabs 1) [AInt (eventId event)],
      Stdout (logTypeName (type event)) [],
      Stdout (tabs 1 @ ''%s'') [ATime (timestamp event)],
      Stdout (tabs 1 @ ''%s\<newline>'') [AStr (message event)]]"

text \<open>The last call that returned a status, with that status.\<close>

fun lastStatus :: "engine \<Rightarrow> call list \<Rightarrow> call list \<Rightarrow> (call \<times> int) option" where
  "lastStatus eng hist [] = None"
| "lastStatus eng hist (c # cs) =
     (case lastStatus eng (hist @ [c]) cs of
        Some y \<Rightarrow> Some y
      | None \<Rightarrow> map_option (Pair c) (callStatus eng hist c))"

text \<open>The result a handler owes to the last status it received.\<close>

definition owedResult :: "platform \<Rightarrow> (call \<times> int) option \<Rightarrow> int \<Rightarrow> bool" where
  "owedResult pf lst r =
     (case lst of
        None \<Rightarrow> True
      | Some (c, x) \<Rightarrow> r = (if softStatus pf c x then DSJE_NOERROR pf else x))"

subsection \<open>Chains of calls that stop at the first failure\<close>

text \<open>
  \<open>chained\<close>: since the calls \<open>hist\<close>, the program made only calls that satisfy \<open>ok\<close>; the
  status it holds is the one of the last of them (success if there was none), and it
  is the only failure among them, if any. \<open>stage\<close>: a step that does nothing when the
  status it is given is a failure, and else makes calls of which at most the last
  fails, giving the new status.
\<close>

definition chained ::
  "platform \<Rightarrow> engine \<Rightarrow> (call \<Rightarrow> bool) \<Rightarrow> call list \<Rightarrow> int \<times> world \<Rightarrow> bool" where
  "chained pf eng ok hist sw =
     (case sw of
        (s, w) \<Rightarrow>
          \<exists>mid. calls w = hist @ mid \<and> list_all ok mid \<and>
            hardFailures pf eng hist mid = (if s = DSJE_NOERROR pf then [] else [s]) \<and>
            (case lastStatus eng hist mid of
               None \<Rightarrow> s = DSJE_NOERROR pf
             | Some (c, x) \<Rightarrow> x = s \<and> \<not> softStatus pf c x))"

definition stage ::
  "platform \<Rightarrow> engine \<Rightarrow> (call \<Rightarrow> bool) \<Rightarrow> int \<times> world \<Rightarrow> int \<times> world \<Rightarrow> bool" where
  "stage pf eng ok sw sw' =
     (case sw of
        (s, w) \<Rightarrow>
          (case sw' of
             (s', w') \<Rightarrow>
               \<exists>new. calls w' = calls w @ new \<and> list_all ok new \<and>
                 (if s = DSJE_NOERROR pf
                  then hardFailures pf eng (calls w) new = (if s' = DSJE_NOERROR pf then [] else [s'])
                  else new = []) \<and>
                 (case lastStatus eng (calls w) new of
                    None \<Rightarrow> s' = s
                  | Some (c, x) \<Rightarrow> x = s' \<and> \<not> softStatus pf c x)))"

text \<open>The stored parameters are inside the array and each holds an \<open>=\<close>.\<close>

definition paramsOK :: "runargs \<Rightarrow> bool" where
  "paramsOK st =
     (length (param st) = MAX_PARAMS \<and> nParams st \<le> MAX_PARAMS \<and>
      list_all (\<lambda>p. CHR ''='' \<in> set p) (take (nParams st) (param st)))"

subsection \<open>What a handler, and the statements on the open job, must have done\<close>

text \<open>
  \<open>handled\<close>: from world \<open>w\<close> the handler came to \<open>w'\<close> with result \<open>r\<close> by calls that the
  monitor accepts from all closed to all closed; \<open>r\<close> is owed to the last status
  received; and, when \<open>strict\<close>, every failure received is \<open>r\<close>. \<open>bodyDone\<close> is the same for
  the statements between the opening and the closing of the job.
\<close>

definition handled :: "platform \<Rightarrow> engine \<Rightarrow> bool \<Rightarrow> world \<Rightarrow> int \<Rightarrow> world \<Rightarrow> bool" where
  "handled pf eng strict w r w' =
     (\<exists>new. calls w' = calls w @ new \<and>
        monitorAll pf eng (calls w) allClosed new = Some allClosed \<and>
        owedResult pf (lastStatus eng (calls w) new) r \<and>
        (if strict then list_all (\<lambda>x. x = r) (hardFailures pf eng (calls w) new) else True))"

definition bodyDone ::
  "platform \<Rightarrow> engine \<Rightarrow> bool \<Rightarrow> handle \<Rightarrow> handle \<Rightarrow> world \<Rightarrow> int \<Rightarrow> world \<Rightarrow> bool" where
  "bodyDone pf eng strict hp hj w r w' =
     (\<exists>nb s'. calls w' = calls w @ nb \<and>
        monitorAll pf eng (calls w) (inJob hp hj) nb = Some s' \<and>
        projectOpen s' = Some hp \<and> jobOpen s' = Some hj \<and> \<not> locked s' \<and>
        owedResult pf (lastStatus eng (calls w) nb) r \<and>
        (if strict then list_all (\<lambda>x. x = r) (hardFailures pf eng (calls w) nb) else True))"

text \<open>
  What the loop over the log has done when it is left with \<open>y\<close>, entered with status \<open>s\<close>
  after the calls \<open>hist\<close>: it called find-next \<open>n\<close> times, and only the last answer was not
  success.
\<close>

definition loopTrace ::
  "platform \<Rightarrow> engine \<Rightarrow> handle \<Rightarrow> int \<Rightarrow> call list \<Rightarrow> int \<times> world \<Rightarrow> bool" where
  "loopTrace pf eng hJob s hist y =
     (\<exists>n. calls (snd y) = hist @ replicate n (FindNextLogEntry hJob) \<and>
        fst y \<noteq> DSJE_NOERROR pf \<and>
        (if n = 0 then fst y = s
         else s = DSJE_NOERROR pf \<and>
           hardFailures pf eng hist (replicate n (FindNextLogEntry hJob)) =
             (if fst y = DSJE_NOMORE pf then [] else [fst y]) \<and>
           lastStatus eng hist (replicate n (FindNextLogEntry hJob)) =
             Some (FindNextLogEntry hJob, fst y)))"

subsection \<open>What was written to standard error\<close>

text \<open>
  The standard error stream of a world: the items written with \<^verbatim>\<open>fprintf(stderr, ...)\<close>, in
  order. \<open>extends xs ys\<close>: the list \<open>ys\<close> starts with \<open>xs\<close>. \<open>loud\<close>: from \<open>w\<close> to \<open>w'\<close> the stream
  only grew, and it did grow when the result \<open>r\<close> is not success.
\<close>

definition isStderr :: "outp \<Rightarrow> bool" where
  "isStderr x = (case x of Stderr f a \<Rightarrow> True | Stdout f a \<Rightarrow> False)"

definition stderrOf :: "world \<Rightarrow> outp list" where
  "stderrOf w = filter isStderr (printed w)"

definition extends :: "'a list \<Rightarrow> 'a list \<Rightarrow> bool" where
  "extends xs ys = (take (length xs) ys = xs)"

definition loud :: "platform \<Rightarrow> world \<Rightarrow> int \<Rightarrow> world \<Rightarrow> bool" where
  "loud pf w r w' =
     (extends (stderrOf w) (stderrOf w') \<and>
      (r \<noteq> DSJE_NOERROR pf \<longrightarrow> length (stderrOf w) < length (stderrOf w')))"

text \<open>The handlers that write no message of their own when the engine fails.\<close>

definition quietCommands :: "string list" where
  "quietCommands = [''lprojects'', ''ljobs'']"

subsection \<open>A platform, engines and a world for concrete runs\<close>

text \<open>
  \<open>platform0\<close> has the status values of the DataStage header, \<^verbatim>\<open>WIN32\<close> defined, and a C
  library that answers \<^verbatim>\<open>INT_MAX\<close> to an integer out of range, reads decimal numbers only,
  and rounds nothing away (right for the numbers of the runs below, which a \<^verbatim>\<open>float\<close> holds
  as they are). \<open>engine0\<close> opens project 1 and job 2, answers success to every call, has an
  empty log and no last error message.
\<close>

definition platform0 :: platform where
  "platform0 =
     \<lparr>DSJE_NOERROR = 0, DSJE_NOT_AVAILABLE = - 1007, DSJE_NOMORE = 1001, WIN32 = True,
      atoi_out_of_range = (\<lambda>s. 2147483647), double_rounding = (\<lambda>x. x),
      float_rounding = (\<lambda>x. x), atof_special = (\<lambda>s. 0)\<rparr>"

definition world0 :: world where
  "world0 = \<lparr>calls = [], printed = [], stdin = []\<rparr>"

definition param0 :: DSPARAM where
  "param0 = \<lparr>paramType = DSJ_PARAMTYPE_STRING, paramValue = pString []\<rparr>"

definition paraminfo0 :: DSPARAMINFO where
  "paraminfo0 =
     \<lparr>defaultValue = param0, helpText = [], paramPrompt = [],
      infoParamType = DSJ_PARAMTYPE_INTEGER, desDefaultValue = param0,
      listValues = [], desListValues = [], promptAtRun = 0\<rparr>"

definition detail0 :: DSLOGDETAIL where
  "detail0 = \<lparr>detailEventId = 0, detailTimestamp = 0, detailType = DSJ_LOGINFO, fullMessage = []\<rparr>"

definition event0 :: DSLOGEVENT where
  "event0 = \<lparr>eventId = 0, timestamp = 0, type = DSJ_LOGINFO, message = []\<rparr>"

definition jobinfo0 :: DSJOBINFO where
  "jobinfo0 =
     \<lparr>jobStatus = DSJS_RUNOK, jobController = [], jobStartTime = 0, jobWaveNumber = 1,
      userStatus = [], paramList = [], stageList = []\<rparr>"

definition stageinfo0 :: DSSTAGEINFO where
  "stageinfo0 = \<lparr>typeName = [], inRowNum = 0, stageLastError = detail0, linkList = []\<rparr>"

definition linkinfo0 :: DSLINKINFO where
  "linkinfo0 = \<lparr>rowCount = 0, linkLastError = detail0\<rparr>"

definition engine0 :: engine where
  "engine0 =
     \<lparr>DSOpenProject = (\<lambda>h n. Some 1),
      DSOpenJob = (\<lambda>h p n. Some 2),
      DSLockJob = (\<lambda>h j. 0),
      DSSetJobLimit = (\<lambda>h j l v. 0),
      DSGetParamInfo = (\<lambda>h j n. (0, paraminfo0)),
      DSSetParam = (\<lambda>h j n d. 0),
      DSRunJob = (\<lambda>h j m. 0),
      DSWaitForJob = (\<lambda>h j. 0),
      DSStopJob = (\<lambda>h j. 0),
      DSGetProjectList = (\<lambda>h. Some []),
      DSGetProjectInfo = (\<lambda>h p k. (0, [])),
      DSGetJobInfo = (\<lambda>h j k. (0, jobinfo0)),
      DSGetStageInfo = (\<lambda>h j s k. (0, stageinfo0)),
      DSGetLinkInfo = (\<lambda>h j s l k. (0, linkinfo0)),
      DSLogEvent = (\<lambda>h j t m. 0),
      DSFindFirstLogEntry = (\<lambda>h j t a b n. (1001, event0)),
      DSFindNextLogEntry = (\<lambda>h j. (1001, event0)),
      DSGetLogEntry = (\<lambda>h j i. (0, detail0)),
      DSGetNewestLogId = (\<lambda>h j t. 7),
      DSGetLastError = (\<lambda>h. - 1),
      DSGetLastErrorMsg = (\<lambda>h. None)\<rparr>"

text \<open>Variations: every parameter is declared Float; stopping is answered with \<open>-9999\<close>;
  the lock is refused; the job status query fails; the log has two entries;
  stopping fails and the engine has a last error message.\<close>

definition engine_floatParam :: engine where
  "engine_floatParam =
     engine0\<lparr>DSGetParamInfo := (\<lambda>h j n. (0, paraminfo0\<lparr>infoParamType := DSJ_PARAMTYPE_FLOAT\<rparr>))\<rparr>"


definition engine_lockRefused :: engine where
  "engine_lockRefused = engine0\<lparr>DSLockJob := (\<lambda>h j. - 10)\<rparr>"

definition engine_statusQueryFails :: engine where
  "engine_statusQueryFails =
     engine0\<lparr>DSGetJobInfo := (\<lambda>h j k. (if k = DSJ_JOBSTATUS then - 1 else 0, jobinfo0))\<rparr>"

definition event1 :: DSLOGEVENT where
  "event1 = \<lparr>eventId = 1, timestamp = 100, type = DSJ_LOGSTARTED, message = ''started''\<rparr>"

definition event2 :: DSLOGEVENT where
  "event2 = \<lparr>eventId = 2, timestamp = 200, type = DSJ_LOGWARNING, message = ''careful''\<rparr>"

definition engine_twoEntries :: engine where
  "engine_twoEntries =
     engine0\<lparr>DSFindFirstLogEntry := (\<lambda>h j t a b n. (0, event1)),
             DSFindNextLogEntry := (\<lambda>h j. if FindNextLogEntry j \<in> set h then (1001, event0)
                                            else (0, event2))\<rparr>"

definition engine_stopFails :: engine where
  "engine_stopFails =
     engine0\<lparr>DSStopJob := (\<lambda>h j. - 2), DSGetLastErrorMsg := (\<lambda>h. Some [''job is not running''])\<rparr>"

section \<open>Properties\<close>

subsection \<open>Basic facts about the world\<close>

lemma calls_docall [simp]: "calls (docall c w) = calls w @ [c]"
  and printed_docall [simp]: "printed (docall c w) = printed w"
  and stdin_docall [simp]: "stdin (docall c w) = stdin w"
  by (simp_all add: docall_def)

lemma calls_printf [simp]: "calls (printf f a w) = calls w"
  and printed_printf [simp]: "printed (printf f a w) = printed w @ [Stdout f a]"
  and stdin_printf [simp]: "stdin (printf f a w) = stdin w"
  by (simp_all add: printf_def)

lemma calls_eprintf [simp]: "calls (eprintf f a w) = calls w"
  and printed_eprintf [simp]: "printed (eprintf f a w) = printed w @ [Stderr f a]"
  and stdin_eprintf [simp]: "stdin (eprintf f a w) = stdin w"
  by (simp_all add: eprintf_def)

subsection \<open>Marshalling a parameter\<close>

lemma split_name:
  "CHR ''='' \<notin> set name \<Longrightarrow> takeWhile (\<lambda>c. c \<noteq> CHR ''='') (name @ CHR ''='' # text) = name"
  by (induction name) auto

lemma split_value:
  "CHR ''='' \<notin> set name \<Longrightarrow>
   dropWhile (\<lambda>c. c \<noteq> CHR ''='') (name @ CHR ''='' # text) = CHR ''='' # text"
  by (induction name) auto

lemma atoi_42: "atoi pf ''42'' = 42"
  by (simp add: atoi_def strip_sign_def isspace_def isdigit_def)

lemma atoi_no_digits: "no_digits s \<Longrightarrow> atoi pf s = 0"
  by (auto simp: atoi_def no_digits_def Let_def split: prod.splits list.splits)

lemma to_float_0 [simp]: "to_float pf 0 = 0"
  by (simp add: to_float_def)

lemma atof_no_number: "\<not> holds_number s \<Longrightarrow> atof pf s = 0"
  by (auto simp: atof_def holds_number_def split: prod.splits option.splits)

lemma atof_decimal:
  assumes "strip_sign (dropWhile isspace s) = (neg, t)" and "\<not> special_form t"
    and "decimal_value t = Some x"
  shows "atof pf s = to_double pf (if neg then - x else x)"
  using assms by (simp add: atof_def)

text \<open>
  C5. When the engine answers the type query for \<open>name\<close> with success, \<^verbatim>\<open>setParam\<close> on
  \<open>name=text\<close> raises no error of its own: it makes the two calls, the second with the
  value built from the declared type, and returns the status of the second. For
  Integer the value is \<^verbatim>\<open>atoi\<close> of the text (42 for \<open>42\<close>, 0 for a text with no
  digits), for Float it is \<^verbatim>\<open>atof\<close> of the text cast to \<^verbatim>\<open>float\<close>: 0 for every text that does
  not hold a number, and for a text that holds a decimal number the \<^verbatim>\<open>float\<close> nearest to
  the \<^verbatim>\<open>double\<close> nearest to the number written; for the six string-like types it is the
  text itself, and for any other type code a value of type String with the text itself.
\<close>

theorem setParam_marshalling:
  assumes "CHR ''='' \<notin> set name"
    and "DSGetParamInfo eng (calls w) hJob name = (DSJE_NOERROR pf, info)"
  shows "\<exists>d status w'.
           setParam pf eng hJob (name @ ''='' @ text) w = Inr (status, w') \<and>
           calls w' = calls w @ [GetParamInfo hJob name, SetParam hJob name d] \<and>
           status = DSSetParam eng (calls w @ [GetParamInfo hJob name]) hJob name d \<and>
           printed w' = printed w @
             (if status \<noteq> DSJE_NOERROR pf
              then [Stderr ''Error setting value of parameter '%s'\<newline>'' [AStr name]] else []) \<and>
           d = (case infoParamType info of
                  DSJ_PARAMTYPE_STRING \<Rightarrow> \<lparr>paramType = DSJ_PARAMTYPE_STRING, paramValue = pString text\<rparr>
                | DSJ_PARAMTYPE_ENCRYPTED \<Rightarrow> \<lparr>paramType = DSJ_PARAMTYPE_ENCRYPTED, paramValue = pEncrypt text\<rparr>
                | DSJ_PARAMTYPE_INTEGER \<Rightarrow> \<lparr>paramType = DSJ_PARAMTYPE_INTEGER, paramValue = pInt (atoi pf text)\<rparr>
                | DSJ_PARAMTYPE_FLOAT \<Rightarrow>
                    \<lparr>paramType = DSJ_PARAMTYPE_FLOAT, paramValue = pFloat (to_float pf (atof pf text))\<rparr>
                | DSJ_PARAMTYPE_PATHNAME \<Rightarrow> \<lparr>paramType = DSJ_PARAMTYPE_PATHNAME, paramValue = pPath text\<rparr>
                | DSJ_PARAMTYPE_LIST \<Rightarrow> \<lparr>paramType = DSJ_PARAMTYPE_LIST, paramValue = pListValue text\<rparr>
                | DSJ_PARAMTYPE_DATE \<Rightarrow> \<lparr>paramType = DSJ_PARAMTYPE_DATE, paramValue = pDate text\<rparr>
                | DSJ_PARAMTYPE_TIME \<Rightarrow> \<lparr>paramType = DSJ_PARAMTYPE_TIME, paramValue = pTime text\<rparr>
                | PARAMTYPE_other c \<Rightarrow> \<lparr>paramType = DSJ_PARAMTYPE_STRING, paramValue = pString text\<rparr>) \<and>
           atoi pf ''42'' = 42 \<and>
           (no_digits text \<longrightarrow> atoi pf text = 0) \<and>
           (\<not> holds_number text \<longrightarrow> atof pf text = 0 \<and> to_float pf (atof pf text) = 0) \<and>
           (\<forall>neg t x. strip_sign (dropWhile isspace text) = (neg, t) \<longrightarrow> \<not> special_form t \<longrightarrow>
              decimal_value t = Some x \<longrightarrow>
              atof pf text = to_double pf (if neg then - x else x))"
  using assms
  by (auto simp: setParam_def doGetParamInfo_def doSetParam_def split_name split_value
        paramDataFor_def atoi_42 atoi_no_digits atof_no_number atof_decimal Let_def
        split: paramtype.splits)

theorem setParam_marshalling_witness:
  "map_sum id (\<lambda>(status, w). (status, calls w, printed w))
     (setParam platform0 engine0 2 ''n=42'' world0) =
     Inr (0, [GetParamInfo 2 ''n'',
              SetParam 2 ''n'' \<lparr>paramType = DSJ_PARAMTYPE_INTEGER, paramValue = pInt 42\<rparr>], []) \<and>
   map_sum id (\<lambda>(status, w). (status, calls w, printed w))
     (setParam platform0 engine_floatParam 2 ''x=-2.5e1'' world0) =
     Inr (0, [GetParamInfo 2 ''x'',
              SetParam 2 ''x'' \<lparr>paramType = DSJ_PARAMTYPE_FLOAT, paramValue = pFloat (- 25)\<rparr>], []) \<and>
   map_sum id (\<lambda>(status, w). (status, calls w, printed w))
     (setParam platform0 engine_floatParam 2 ''x=none'' world0) =
     Inr (0, [GetParamInfo 2 ''x'',
              SetParam 2 ''x'' \<lparr>paramType = DSJ_PARAMTYPE_FLOAT, paramValue = pFloat 0\<rparr>], []) \<and>
   atoi platform0 ''abc'' = 0 \<and> atof platform0 ''abc'' = 0 \<and> atof platform0 ''.'' = 0 \<and>
   atof platform0 ''1.5'' = 3 / 2"
proof -
  have h1: "CHR ''='' \<notin> set ''n''" "CHR ''='' \<notin> set ''x''" by simp_all
  have h2: "DSGetParamInfo engine0 (calls world0) 2 ''n'' = (DSJE_NOERROR platform0, paraminfo0)"
    by (simp add: engine0_def platform0_def)
  have h2': "DSGetParamInfo engine_floatParam (calls world0) 2 ''x'' =
      (DSJE_NOERROR platform0, paraminfo0\<lparr>infoParamType := DSJ_PARAMTYPE_FLOAT\<rparr>)"
    by (simp add: engine_floatParam_def engine0_def platform0_def)
  have h3: "no_digits ''abc''" "\<not> holds_number ''abc''" "\<not> holds_number ''.''"
    "\<not> holds_number ''none''"
    by (simp_all add: no_digits_def holds_number_def special_form_def decimal_value_def
          strip_sign_def isspace_def isdigit_def Let_def)
  have h4: "strip_sign (dropWhile isspace ''1.5'') = (False, ''1.5'')"
    "\<not> special_form ''1.5''" "decimal_value ''1.5'' = Some (3 / 2)"
    "strip_sign (dropWhile isspace ''-2.5e1'') = (True, ''2.5e1'')"
    "\<not> special_form ''2.5e1''" "decimal_value ''2.5e1'' = Some 25"
    by (simp_all add: special_form_def decimal_value_def exponent_part_def scale10_def
          strip_sign_def isspace_def isdigit_def isxdigit_def Let_def)
  note ev = atof_def special_form_def decimal_value_def exponent_part_def scale10_def
    strip_sign_def isspace_def isdigit_def isxdigit_def Let_def to_double_def to_float_def
    paraminfo0_def engine_floatParam_def engine0_def platform0_def world0_def
  from setParam_marshalling [OF h1(1) h2, of "''abc''"]
  have a: "atoi platform0 ''abc'' = 0 \<and> atof platform0 ''abc'' = 0"
    by (elim exE conjE) (simp add: h3)
  from setParam_marshalling [OF h1(1) h2, of "''.''"]
  have b: "atof platform0 ''.'' = 0"
    by (elim exE conjE) (simp add: h3)
  from setParam_marshalling [OF h1(1) h2, of "''1.5''"]
  have "\<forall>neg t x. strip_sign (dropWhile isspace ''1.5'') = (neg, t) \<longrightarrow> \<not> special_form t \<longrightarrow>
              decimal_value t = Some x \<longrightarrow>
              atof platform0 ''1.5'' = to_double platform0 (if neg then - x else x)"
    by (elim exE conjE)
  from this [rule_format, OF h4(1,2,3)]
  have c: "atof platform0 ''1.5'' = 3 / 2" by (simp add: to_double_def platform0_def)
  from setParam_marshalling [OF h1(1) h2, of "''42''"]
  have d: "map_sum id (\<lambda>(status, w). (status, calls w, printed w))
     (setParam platform0 engine0 2 ''n=42'' world0) =
     Inr (0, [GetParamInfo 2 ''n'',
              SetParam 2 ''n'' \<lparr>paramType = DSJ_PARAMTYPE_INTEGER, paramValue = pInt 42\<rparr>], [])"
    by (elim exE conjE) (simp add: paraminfo0_def engine0_def platform0_def world0_def)
  from setParam_marshalling [OF h1(2) h2', of "''-2.5e1''"]
  have e: "map_sum id (\<lambda>(status, w). (status, calls w, printed w))
     (setParam platform0 engine_floatParam 2 ''x=-2.5e1'' world0) =
     Inr (0, [GetParamInfo 2 ''x'',
              SetParam 2 ''x'' \<lparr>paramType = DSJ_PARAMTYPE_FLOAT, paramValue = pFloat (- 25)\<rparr>], [])"
    by (elim exE conjE) (simp add: ev)
  from setParam_marshalling [OF h1(2) h2', of "''none''"]
  have f: "map_sum id (\<lambda>(status, w). (status, calls w, printed w))
     (setParam platform0 engine_floatParam 2 ''x=none'' world0) =
     Inr (0, [GetParamInfo 2 ''x'',
              SetParam 2 ''x'' \<lparr>paramType = DSJ_PARAMTYPE_FLOAT, paramValue = pFloat 0\<rparr>], [])"
    by (elim exE conjE) (simp add: ev)
  from a b c d e f show ?thesis by simp
qed

subsection \<open>The option loop of \<^verbatim>\<open>-run\<close>\<close>


lemma runOptions_stop:
  "\<not> isOption project \<Longrightarrow> runOptions pf st [project, job] = Inr (st, [project, job])"
  by simp

lemma optEffect_fields [simp]:
  "badOptions (optEffect pf st opt) = badOptions st"
  "nParams (optEffect pf st opt) = nParams st + length (paramsOf [opt])"
  "length (param (optEffect pf st opt)) = length (param st)"
  by (cases opt; simp add: optEffect_def)+

lemma paramsOf_Cons: "paramsOf (opt # opts) = paramsOf [opt] @ paramsOf opts"
  by (cases opt) simp_all


lemma foldl_optEffect_bad [simp]: "badOptions (foldl (optEffect pf) st opts) = badOptions st"
  by (induction opts arbitrary: st) simp_all

lemma foldl_optEffect_nParams [simp]:
  "nParams (foldl (optEffect pf) st opts) = nParams st + length (paramsOf opts)"
proof (induction opts arbitrary: st)
  case Nil
  then show ?case by simp
next
  case (Cons opt opts)
  then show ?case using paramsOf_Cons [of opt opts] by simp
qed

lemma foldl_optEffect_length [simp]:
  "length (param (foldl (optEffect pf) st opts)) = length (param st)"
  by (induction opts arbitrary: st) simp_all







subsection \<open>Chains of engine calls\<close>

lemma hardFailures_append:
  "hardFailures pf eng hist (xs @ ys) =
   hardFailures pf eng hist xs @ hardFailures pf eng (hist @ xs) ys"
  by (induction xs arbitrary: hist) simp_all

lemma lastStatus_append:
  "lastStatus eng hist (xs @ ys) =
     (case lastStatus eng (hist @ xs) ys of
        Some y \<Rightarrow> Some y
      | None \<Rightarrow> lastStatus eng hist xs)"
  by (induction xs arbitrary: hist) (simp_all split: option.splits)

lemma chained_stage:
  assumes "chained pf eng ok hist sw" and "stage pf eng ok sw sw'"
  shows "chained pf eng ok hist sw'"
proof -
  obtain s w s' w' where sw: "sw = (s, w)" "sw' = (s', w')" by (cases sw, cases sw') auto
  from assms(1) sw obtain mid where mid: "calls w = hist @ mid" "list_all ok mid"
    "hardFailures pf eng hist mid = (if s = DSJE_NOERROR pf then [] else [s])"
    "case lastStatus eng hist mid of
       None \<Rightarrow> s = DSJE_NOERROR pf
     | Some (c, x) \<Rightarrow> x = s \<and> \<not> softStatus pf c x"
    by (auto simp: chained_def)
  from assms(2) sw obtain new where new: "calls w' = calls w @ new" "list_all ok new"
    "if s = DSJE_NOERROR pf
     then hardFailures pf eng (calls w) new = (if s' = DSJE_NOERROR pf then [] else [s'])
     else new = []"
    "case lastStatus eng (calls w) new of
       None \<Rightarrow> s' = s
     | Some (c, x) \<Rightarrow> x = s' \<and> \<not> softStatus pf c x"
    by (auto simp: stage_def)
  have "calls w' = hist @ (mid @ new)" using mid new by simp
  moreover have "list_all ok (mid @ new)" using mid new by simp
  moreover have "hardFailures pf eng hist (mid @ new) = (if s' = DSJE_NOERROR pf then [] else [s'])"
    using mid(1,3) new(3,4) by (cases "s = DSJE_NOERROR pf") (simp_all add: hardFailures_append)
  moreover have "case lastStatus eng hist (mid @ new) of
       None \<Rightarrow> s' = DSJE_NOERROR pf
     | Some (c, x) \<Rightarrow> x = s' \<and> \<not> softStatus pf c x"
    using mid(1,4) new(4) by (auto simp: lastStatus_append split: option.splits)
  ultimately show ?thesis unfolding sw chained_def by blast
qed

lemma stage_same: "stage pf eng ok (s, w) (s, w)"
  by (simp add: stage_def)

lemma complain_simps [simp]:
  "fst (complain pf msg (s, w)) = s"
  "calls (snd (complain pf msg (s, w))) = calls w"
  by (simp_all add: complain_def)

lemma stage_trans:
  assumes "stage pf eng ok sw sw'" and "stage pf eng ok sw' sw''"
  shows "stage pf eng ok sw sw''"
proof -
  obtain s w s' w' s'' w'' where sw: "sw = (s, w)" "sw' = (s', w')" "sw'' = (s'', w'')"
    by (cases sw, cases sw', cases sw'') auto
  from assms(1) sw obtain n1 where n1: "calls w' = calls w @ n1" "list_all ok n1"
    "if s = DSJE_NOERROR pf
     then hardFailures pf eng (calls w) n1 = (if s' = DSJE_NOERROR pf then [] else [s'])
     else n1 = []"
    "case lastStatus eng (calls w) n1 of
       None \<Rightarrow> s' = s
     | Some (c, x) \<Rightarrow> x = s' \<and> \<not> softStatus pf c x"
    by (auto simp: stage_def)
  from assms(2) sw obtain n2 where n2: "calls w'' = calls w' @ n2" "list_all ok n2"
    "if s' = DSJE_NOERROR pf
     then hardFailures pf eng (calls w') n2 = (if s'' = DSJE_NOERROR pf then [] else [s''])
     else n2 = []"
    "case lastStatus eng (calls w') n2 of
       None \<Rightarrow> s'' = s'
     | Some (c, x) \<Rightarrow> x = s'' \<and> \<not> softStatus pf c x"
    by (auto simp: stage_def)
  have "calls w'' = calls w @ (n1 @ n2)" using n1 n2 by simp
  moreover have "list_all ok (n1 @ n2)" using n1 n2 by simp
  moreover have "if s = DSJE_NOERROR pf
     then hardFailures pf eng (calls w) (n1 @ n2) = (if s'' = DSJE_NOERROR pf then [] else [s''])
     else n1 @ n2 = []"
  proof (cases "s = DSJE_NOERROR pf")
    case True
    with n1(1,3,4) n2(3,4) show ?thesis
      by (cases "s' = DSJE_NOERROR pf") (simp_all add: hardFailures_append)
  next
    case False
    with n1(3,4) have "n1 = []" "s' = s" by simp_all
    with False n2(3) show ?thesis by simp
  qed
  moreover have "case lastStatus eng (calls w) (n1 @ n2) of
       None \<Rightarrow> s'' = s
     | Some (c, x) \<Rightarrow> x = s'' \<and> \<not> softStatus pf c x"
    using n1(1,4) n2(4) by (auto simp: lastStatus_append split: option.splits)
  ultimately show ?thesis unfolding sw stage_def by blast
qed

lemma stage_mono:
  assumes "stage pf eng ok sw sw'" and "\<And>c. ok c \<Longrightarrow> ok' c"
  shows "stage pf eng ok' sw sw'"
proof -
  obtain s w s' w' where sw: "sw = (s, w)" "sw' = (s', w')" by (cases sw, cases sw') auto
  from assms(1) sw obtain new where new: "calls w' = calls w @ new" "list_all ok new"
    "if s = DSJE_NOERROR pf
     then hardFailures pf eng (calls w) new = (if s' = DSJE_NOERROR pf then [] else [s'])
     else new = []"
    "case lastStatus eng (calls w) new of
       None \<Rightarrow> s' = s
     | Some (c, x) \<Rightarrow> x = s' \<and> \<not> softStatus pf c x"
    by (auto simp: stage_def)
  have "list_all ok' new" using new(2) assms(2) by (simp add: list_all_iff)
  with new show ?thesis unfolding sw stage_def by blast
qed

lemma complain_stage:
  assumes "callStatus eng (calls w) c = Some s'" and "ok c" and "\<not> softStatus pf c s'"
    and "calls w' = calls w @ [c]"
  shows "stage pf eng ok (DSJE_NOERROR pf, w) (complain pf msg (s', w'))"
  using assms by (auto simp: stage_def failureOf_def complain_def)

lemma setParam_stage:
  assumes "CHR ''='' \<in> set p"
  shows "\<exists>s' w'. setParam pf eng hJob p w = Inr (s', w') \<and>
           stage pf eng (isParamCall hJob) (DSJE_NOERROR pf, w) (s', w')"
  using assms
  by (auto simp: setParam_def Let_def doGetParamInfo_def doSetParam_def stage_def isParamCall_def
        failureOf_def callStatus_def softStatus_def split: prod.splits)

lemma setParams_stage:
  "list_all (\<lambda>p. CHR ''='' \<in> set p) ps \<Longrightarrow>
   \<exists>s' w'. setParams pf eng hJob ps (s, w) = Inr (s', w') \<and>
           stage pf eng (isParamCall hJob) (s, w) (s', w')"
proof (induction ps arbitrary: s w)
  case Nil
  then show ?case by (simp add: stage_same)
next
  case (Cons p ps)
  show ?case
  proof (cases "s = DSJE_NOERROR pf")
    case False
    then show ?thesis by (simp add: stage_same)
  next
    case True
    from Cons.prems obtain s1 w1 where one: "setParam pf eng hJob p w = Inr (s1, w1)"
      "stage pf eng (isParamCall hJob) (DSJE_NOERROR pf, w) (s1, w1)"
      using setParam_stage [of p pf eng hJob w] by auto
    from Cons.prems obtain s' w' where rest: "setParams pf eng hJob ps (s1, w1) = Inr (s', w')"
      "stage pf eng (isParamCall hJob) (s1, w1) (s', w')"
      using Cons.IH [of s1 w1] by auto
    from one rest True show ?thesis
      by (auto intro: stage_trans)
  qed
qed

lemma runLocked_trace:
  assumes ok: "paramsOK st"
  shows "\<exists>r w'. runLocked pf eng st hJob w = Some (Inr (r, w')) \<and>
     (if DSLockJob eng (calls w) hJob \<noteq> DSJE_NOERROR pf
      then calls w' = calls w @ [LockJob hJob] \<and> r = DSLockJob eng (calls w) hJob
      else \<exists>mid. calls w' = calls w @ LockJob hJob # mid @ [UnlockJob hJob] \<and>
             list_all (runBusinessCall st hJob) mid \<and>
             hardFailures pf eng (calls w @ [LockJob hJob]) mid =
               (if r = DSJE_NOERROR pf then [] else [r]) \<and>
             (case lastStatus eng (calls w @ [LockJob hJob]) mid of
                None \<Rightarrow> r = DSJE_NOERROR pf
              | Some (c, x) \<Rightarrow> x = r \<and> \<not> softStatus pf c x) \<and>
             (0 \<le> warningLimit st \<longrightarrow>
                (\<exists>more. mid = SetJobLimit hJob DSJ_LIMITWARN (warningLimit st) # more)))"
proof (cases "DSLockJob eng (calls w) hJob \<noteq> DSJE_NOERROR pf")
  case True
  then show ?thesis by (simp add: runLocked_def doLockJob_def returns_def)
next
  case False
  define ok where "ok = runBusinessCall st hJob"
  define w1 where "w1 = docall (LockJob hJob) w"
  define sw2 where "sw2 =
     (if 0 \<le> warningLimit st
      then complain pf ''Error setting warning limit\<newline>''
             (doSetJobLimit eng hJob DSJ_LIMITWARN (warningLimit st) w1)
      else (DSJE_NOERROR pf, w1))"
  define sw3 where "sw3 =
     (if rowLimit st \<noteq> 0 \<and> fst sw2 = DSJE_NOERROR pf
      then complain pf ''Error setting row limit\<newline>''
             (doSetJobLimit eng hJob DSJ_LIMITROWS (rowLimit st) (snd sw2))
      else sw2)"
  have st2: "stage pf eng ok (DSJE_NOERROR pf, w1) sw2"
    unfolding sw2_def ok_def
    by (auto simp: doSetJobLimit_def stage_same callStatus_def softStatus_def runBusinessCall_def
          intro!: complain_stage)
  have st3: "stage pf eng ok sw2 sw3"
  proof (cases "rowLimit st \<noteq> 0 \<and> fst sw2 = DSJE_NOERROR pf")
    case True
    then have "sw2 = (DSJE_NOERROR pf, snd sw2)" by (cases sw2) simp
    moreover have "stage pf eng ok (DSJE_NOERROR pf, snd sw2) sw3"
      using True unfolding sw3_def ok_def
      by (auto simp: doSetJobLimit_def callStatus_def softStatus_def runBusinessCall_def
            intro!: complain_stage)
    ultimately show ?thesis by simp
  next
    case False
    then have "sw3 = sw2" by (auto simp: sw3_def)
    then show ?thesis by (cases sw2) (simp add: stage_same)
  qed
  obtain s4 w4 where p4: "setParams pf eng hJob (take (nParams st) (param st)) sw3 = Inr (s4, w4)"
    and st4': "stage pf eng (isParamCall hJob) sw3 (s4, w4)"
    using setParams_stage [of "take (nParams st) (param st)" pf eng hJob "fst sw3" "snd sw3"] ok
    by (auto simp: paramsOK_def)
  have st4: "stage pf eng ok sw3 (s4, w4)"
    using st4' by (rule stage_mono) (auto simp: ok_def isParamCall_def runBusinessCall_def split: call.splits)
  define sw5 where "sw5 =
     (if s4 = DSJE_NOERROR pf
      then complain pf ''Error running job\<newline>'' (doRunJob eng hJob (mode st) w4)
      else (s4, w4))"
  have st5: "stage pf eng ok (s4, w4) sw5"
    unfolding sw5_def ok_def
    by (auto simp: doRunJob_def callStatus_def softStatus_def runBusinessCall_def stage_same
          intro!: complain_stage)
  define sw6 where "sw6 =
     (if fst sw5 = DSJE_NOERROR pf \<and> waitForJob st
      then complain pf ''Error waiting for job\<newline>''
             (doWaitForJob eng hJob (printf ''Waiting for job...\<newline>'' [] (snd sw5)))
      else sw5)"
  have st6: "stage pf eng ok sw5 sw6"
  proof (cases "fst sw5 = DSJE_NOERROR pf \<and> waitForJob st")
    case True
    then have "sw5 = (DSJE_NOERROR pf, snd sw5)" by (cases sw5) simp
    moreover have "stage pf eng ok (DSJE_NOERROR pf, snd sw5) sw6"
      using True unfolding sw6_def ok_def
      by (auto simp: doWaitForJob_def callStatus_def softStatus_def runBusinessCall_def
            intro!: complain_stage)
    ultimately show ?thesis by simp
  next
    case False
    then have "sw6 = sw5" by (auto simp: sw6_def)
    then show ?thesis by (cases sw5) (simp add: stage_same)
  qed
  have "chained pf eng ok (calls w1) (DSJE_NOERROR pf, w1)"
    by (simp add: chained_def)
  then have "chained pf eng ok (calls w1) sw2" using st2 by (rule chained_stage)
  then have "chained pf eng ok (calls w1) sw3" using st3 by (rule chained_stage)
  then have "chained pf eng ok (calls w1) (s4, w4)" using st4 by (rule chained_stage)
  then have "chained pf eng ok (calls w1) sw5" using st5 by (rule chained_stage)
  then have "chained pf eng ok (calls w1) sw6" using st6 by (rule chained_stage)
  moreover obtain s6 w6 where s6: "sw6 = (s6, w6)" by (cases sw6)
  ultimately obtain mid where mid: "calls w6 = calls w1 @ mid" "list_all ok mid"
    "hardFailures pf eng (calls w1) mid = (if s6 = DSJE_NOERROR pf then [] else [s6])"
    "case lastStatus eng (calls w1) mid of
       None \<Rightarrow> s6 = DSJE_NOERROR pf
     | Some (c, x) \<Rightarrow> x = s6 \<and> \<not> softStatus pf c x"
    unfolding chained_def by auto
  have "stage pf eng ok sw2 sw6"
    using st3 st4 st5 st6 by (blast intro: stage_trans)
  then obtain more where more: "calls w6 = calls (snd sw2) @ more"
    unfolding s6 by (cases sw2) (auto simp: stage_def)
  have first: "0 \<le> warningLimit st \<Longrightarrow>
      mid = SetJobLimit hJob DSJ_LIMITWARN (warningLimit st) # more"
    using mid(1) more by (simp add: sw2_def doSetJobLimit_def)
  have res: "runLocked pf eng st hJob w = returns (fst sw6, doUnlockJob hJob (snd sw6))"
    using False p4
    unfolding sw6_def sw5_def sw3_def sw2_def w1_def runLocked_def doLockJob_def
    by (auto simp: Let_def split_beta)
  show ?thesis
    using False res mid first
    by (auto simp: returns_def doUnlockJob_def w1_def ok_def s6)
qed

subsection \<open>The block that opens and closes project and job\<close>

lemma inProjectJob_cases:
  assumes "inProjectJob eng p j body w = Some (Inr (r, w'))"
  shows "(DSOpenProject eng (calls w) p = None \<and>
          calls w' = calls w @ [OpenProject p, GetLastError] \<and>
          r = DSGetLastError eng (calls w @ [OpenProject p]) \<and>
          printed w' = printed w @ [Stderr ''ERROR: Failed to open project\<newline>'' []]) \<or>
         (\<exists>hp. DSOpenProject eng (calls w) p = Some hp \<and>
               DSOpenJob eng (calls w @ [OpenProject p]) hp j = None \<and>
               calls w' = calls w @ [OpenProject p, OpenJob hp j, GetLastError, CloseProject hp] \<and>
               r = DSGetLastError eng (calls w @ [OpenProject p, OpenJob hp j]) \<and>
               printed w' = printed w @ [Stderr ''ERROR: Failed to open job\<newline>'' []]) \<or>
         (\<exists>hp hj wb. DSOpenProject eng (calls w) p = Some hp \<and>
               DSOpenJob eng (calls w @ [OpenProject p]) hp j = Some hj \<and>
               body hj (docall (OpenJob hp j) (docall (OpenProject p) w)) = Some (Inr (r, wb)) \<and>
               calls w' = calls wb @ [CloseJob hj, CloseProject hp] \<and>
               printed w' = printed wb)"
  using assms
  by (auto simp: inProjectJob_def doOpenProject_def doOpenJob_def doGetLastError_def
        doCloseProject_def doCloseJob_def returns_def
        split: option.splits sum.splits prod.splits)

lemma inProjectJob_returns:
  assumes "\<And>hj wb. \<exists>r w'. body hj wb = Some (Inr (r, w'))"
  shows "\<exists>r w'. inProjectJob eng p j body w = Some (Inr (r, w'))"
proof (cases "DSOpenProject eng (calls w) p")
  case None
  then show ?thesis
    by (simp add: inProjectJob_def doOpenProject_def doGetLastError_def returns_def)
next
  case (Some hp)
  show ?thesis
  proof (cases "DSOpenJob eng (calls w @ [OpenProject p]) hp j")
    case None
    with Some show ?thesis
      by (simp add: inProjectJob_def doOpenProject_def doOpenJob_def doGetLastError_def returns_def)
  next
    case (Some hj)
    obtain r wb where "body hj (docall (OpenJob hp j) (docall (OpenProject p) w)) = Some (Inr (r, wb))"
      using assms by blast
    with Some \<open>DSOpenProject eng (calls w) p = Some hp\<close> show ?thesis
      by (simp add: inProjectJob_def doOpenProject_def doOpenJob_def returns_def)
  qed
qed

subsection \<open>The warning limit\<close>

lemma atoi_minus5: "atoi pf ''-5'' = - 5"
  by (simp add: atoi_def strip_sign_def isspace_def isdigit_def)

text \<open>
  C9, as amended. \<^verbatim>\<open>-warn n\<close> is accepted whatever the sign of \<open>n\<close>: the option loop stores
  \<^verbatim>\<open>atoi(n)\<close>, which is \<open>-5\<close> for \<open>-5\<close>, and the handler goes on to open the project.
  The limit reaches the engine only when it is not negative: every
  \<^verbatim>\<open>DSSetJobLimit(hJob, DSJ_LIMITWARN, v)\<close> the handler makes has \<open>v = atoi(n)\<close> and
  \<open>0 \<le> v\<close>, and when \<open>0 \<le> atoi(n)\<close> and the job is opened and locked that call is made.
\<close>

theorem warn_limit_forwarding:
  assumes "\<not> isOption project"
  shows "atoi pf ''-5'' = - 5 \<and>
     runOptions pf runargs0 [''-warn'', n, project, job] =
       Inr (runargs0\<lparr>warningLimit := atoi pf n\<rparr>, [project, job]) \<and>
     (\<exists>r w' new.
        jobRun pf eng [''-warn'', n, project, job] w = Some (Inr (r, w')) \<and>
        calls w' = calls w @ OpenProject project # new \<and>
        (\<forall>h v. SetJobLimit h DSJ_LIMITWARN v \<in> set new \<longrightarrow> v = atoi pf n \<and> 0 \<le> v) \<and>
        (0 \<le> atoi pf n \<longrightarrow>
           (\<forall>hp hj. DSOpenProject eng (calls w) project = Some hp \<longrightarrow>
              DSOpenJob eng (calls w @ [OpenProject project]) hp job = Some hj \<longrightarrow>
              DSLockJob eng (calls w @ [OpenProject project, OpenJob hp job]) hj = DSJE_NOERROR pf \<longrightarrow>
              SetJobLimit hj DSJ_LIMITWARN (atoi pf n) \<in> set new)))"
proof -
  define st where "st = runargs0\<lparr>warningLimit := atoi pf n\<rparr>"
  have parse: "runOptions pf runargs0 [''-warn'', n, project, job] = Inr (st, [project, job])"
    using assms by (simp add: isOption_def runargs0_def st_def)
  have run: "jobRun pf eng [''-warn'', n, project, job] w =
      inProjectJob eng project job (runLocked pf eng st) w"
    using parse by (simp add: jobRun_def st_def runargs0_def)
  have np: "paramsOK st"
    by (simp add: st_def runargs0_def paramsOK_def MAX_PARAMS_def)
  have wl: "warningLimit st = atoi pf n" by (simp add: st_def)
  have body: "\<And>hj wb. \<exists>r w'. runLocked pf eng st hj wb = Some (Inr (r, w'))"
    using runLocked_trace [OF np] by blast
  obtain r w' where ret: "inProjectJob eng project job (runLocked pf eng st) w = Some (Inr (r, w'))"
    using inProjectJob_returns [of "runLocked pf eng st", OF body] by blast
  have "\<exists>new. calls w' = calls w @ OpenProject project # new \<and>
        (\<forall>h v. SetJobLimit h DSJ_LIMITWARN v \<in> set new \<longrightarrow> v = atoi pf n \<and> 0 \<le> v) \<and>
        (0 \<le> atoi pf n \<longrightarrow>
           (\<forall>hp hj. DSOpenProject eng (calls w) project = Some hp \<longrightarrow>
              DSOpenJob eng (calls w @ [OpenProject project]) hp job = Some hj \<longrightarrow>
              DSLockJob eng (calls w @ [OpenProject project, OpenJob hp job]) hj = DSJE_NOERROR pf \<longrightarrow>
              SetJobLimit hj DSJ_LIMITWARN (atoi pf n) \<in> set new))"
    using inProjectJob_cases [OF ret]
  proof (elim disjE exE conjE)
    assume "DSOpenProject eng (calls w) project = None"
      "calls w' = calls w @ [OpenProject project, GetLastError]"
    then show ?thesis by simp
  next
    fix hp
    assume "DSOpenProject eng (calls w) project = Some hp"
      "DSOpenJob eng (calls w @ [OpenProject project]) hp job = None"
      "calls w' = calls w @ [OpenProject project, OpenJob hp job, GetLastError, CloseProject hp]"
    then show ?thesis by simp
  next
    fix hp hj wb
    assume op: "DSOpenProject eng (calls w) project = Some hp"
      and oj: "DSOpenJob eng (calls w @ [OpenProject project]) hp job = Some hj"
      and b: "runLocked pf eng st hj (docall (OpenJob hp job) (docall (OpenProject project) w)) =
               Some (Inr (r, wb))"
      and c: "calls w' = calls wb @ [CloseJob hj, CloseProject hp]"
    let ?w2 = "docall (OpenJob hp job) (docall (OpenProject project) w)"
    from runLocked_trace [OF np, of pf eng hj ?w2] b
    have tr: "if DSLockJob eng (calls ?w2) hj \<noteq> DSJE_NOERROR pf
      then calls wb = calls ?w2 @ [LockJob hj] \<and> r = DSLockJob eng (calls ?w2) hj
      else \<exists>mid. calls wb = calls ?w2 @ LockJob hj # mid @ [UnlockJob hj] \<and>
             list_all (runBusinessCall st hj) mid \<and>
             hardFailures pf eng (calls ?w2 @ [LockJob hj]) mid =
               (if r = DSJE_NOERROR pf then [] else [r]) \<and>
             (case lastStatus eng (calls ?w2 @ [LockJob hj]) mid of
                None \<Rightarrow> r = DSJE_NOERROR pf
              | Some (c, x) \<Rightarrow> x = r \<and> \<not> softStatus pf c x) \<and>
             (0 \<le> warningLimit st \<longrightarrow>
                (\<exists>more. mid = SetJobLimit hj DSJ_LIMITWARN (warningLimit st) # more))"
      by auto
    show ?thesis
    proof (cases "DSLockJob eng (calls ?w2) hj \<noteq> DSJE_NOERROR pf")
      case True
      with tr c op oj show ?thesis by auto
    next
      case False
      with tr obtain mid where mid: "calls wb = calls ?w2 @ LockJob hj # mid @ [UnlockJob hj]"
        "list_all (runBusinessCall st hj) mid"
        "0 \<le> warningLimit st \<longrightarrow>
           (\<exists>more. mid = SetJobLimit hj DSJ_LIMITWARN (warningLimit st) # more)"
        by auto
      have lim: "\<forall>h v. SetJobLimit h DSJ_LIMITWARN v \<in> set mid \<longrightarrow> v = atoi pf n \<and> 0 \<le> v"
        using mid(2) wl by (auto simp: list_all_iff runBusinessCall_def)
      have "calls w' = calls w @ OpenProject project #
              (OpenJob hp job # LockJob hj # mid @ [UnlockJob hj, CloseJob hj, CloseProject hp])"
        using c mid(1) by simp
      moreover have "\<forall>h v. SetJobLimit h DSJ_LIMITWARN v \<in>
              set (OpenJob hp job # LockJob hj # mid @ [UnlockJob hj, CloseJob hj, CloseProject hp])
              \<longrightarrow> v = atoi pf n \<and> 0 \<le> v"
        using lim by auto
      moreover have "0 \<le> atoi pf n \<longrightarrow> SetJobLimit hj DSJ_LIMITWARN (atoi pf n) \<in>
              set (OpenJob hp job # LockJob hj # mid @ [UnlockJob hj, CloseJob hj, CloseProject hp])"
        using mid(3) wl by auto
      ultimately show ?thesis using op oj by auto
    qed
  qed
  with ret run parse show ?thesis
    by (auto simp: atoi_minus5 st_def)
qed

theorem warn_limit_forwarding_witness:
  "runOptions platform0 runargs0 [''-warn'', ''-5'', ''proj'', ''job''] =
     Inr (runargs0\<lparr>warningLimit := - 5\<rparr>, [''proj'', ''job'']) \<and>
   (\<exists>r w' new.
      jobRun platform0 engine0 [''-warn'', ''-5'', ''proj'', ''job''] world0 = Some (Inr (r, w')) \<and>
      calls w' = OpenProject ''proj'' # new \<and>
      (\<forall>h v. SetJobLimit h DSJ_LIMITWARN v \<notin> set new))"
proof -
  have h: "\<not> isOption ''proj''" by (simp add: isOption_def)
  note t = warn_limit_forwarding [OF h, of platform0 "''-5''" "''job''" engine0 world0]
  from t have a: "atoi platform0 ''-5'' = - 5" by (rule conjunct1)
  from t have b: "runOptions platform0 runargs0 [''-warn'', ''-5'', ''proj'', ''job''] =
       Inr (runargs0\<lparr>warningLimit := atoi platform0 ''-5''\<rparr>, [''proj'', ''job''])"
    by (elim conjE)
  from t obtain r w' new where c:
    "jobRun platform0 engine0 [''-warn'', ''-5'', ''proj'', ''job''] world0 = Some (Inr (r, w'))"
    "calls w' = calls world0 @ OpenProject ''proj'' # new"
    "\<forall>h v. SetJobLimit h DSJ_LIMITWARN v \<in> set new \<longrightarrow>
       v = atoi platform0 ''-5'' \<and> 0 \<le> v"
    by (elim conjE exE)
  have "calls w' = OpenProject ''proj'' # new" using c(2) by (simp add: world0_def)
  moreover have "\<forall>h v. SetJobLimit h DSJ_LIMITWARN v \<notin> set new"
    using c(3) unfolding a by fastforce
  ultimately show ?thesis using b c(1) unfolding a by blast
qed

text \<open>
  C9, as stated, fails: on an engine that accepts every call, \<^verbatim>\<open>-run -warn -5 proj job\<close>
  locks and runs the job without any call of \<^verbatim>\<open>DSSetJobLimit\<close>, because of the test
  \<^verbatim>\<open>if (warningLimit >= 0)\<close>.
\<close>

theorem warn_minus5_not_forwarded:
  "jobRun platform0 engine0 [''-warn'', ''-5'', ''proj'', ''job''] world0 =
     Some (Inr (0, \<lparr>calls = [OpenProject ''proj'', OpenJob 1 ''job'', LockJob 2,
                            RunJob 2 DSJ_RUNNORMAL, UnlockJob 2, CloseJob 2, CloseProject 1],
                   printed = [], stdin = []\<rparr>))"
  by (simp add: jobRun_def isOption_def runargs0_def atoi_def strip_sign_def isspace_def
        isdigit_def inProjectJob_def runLocked_def doOpenProject_def doOpenJob_def doLockJob_def
        doRunJob_def doUnlockJob_def doCloseJob_def doCloseProject_def complain_def returns_def
        docall_def engine0_def platform0_def world0_def MAX_PARAMS_def)

subsection \<open>Setting the parameters of a run\<close>

text \<open>
  When the type query fails, \<^verbatim>\<open>setParam\<close> reports the status and returns it without
  calling \<^verbatim>\<open>DSSetParam\<close>; the loop over the stored parameters queries them in their
  order, sets each one whose query succeeded, and stops after the first failure.
\<close>

lemma queriedNames_append: "queriedNames (xs @ ys) = queriedNames xs @ queriedNames ys"
  by (induction xs rule: queriedNames.induct) simp_all

lemma setNames_append: "setNames (xs @ ys) = setNames xs @ setNames ys"
  by (induction xs rule: setNames.induct) simp_all

lemma setParams_skip: "s \<noteq> DSJE_NOERROR pf \<Longrightarrow> setParams pf eng hJob ps (s, w) = Inr (s, w)"
  by (cases ps) simp_all

lemma setParam_type_query_fails:
  assumes "CHR ''='' \<notin> set name" and "DSGetParamInfo eng (calls w) hJob name = (s, info)"
    and "s \<noteq> DSJE_NOERROR pf"
  shows "setParam pf eng hJob (name @ ''='' @ text) w =
     Inr (s, eprintf ''Error %d getting information for parameter '%s'\<newline>'' [AInt s, AStr name]
               (docall (GetParamInfo hJob name) w))"
  using assms by (simp add: setParam_def doGetParamInfo_def split_name Let_def)

lemma setParam_once:
  assumes "CHR ''='' \<in> set p"
  shows "\<exists>s' w' new. setParam pf eng hJob p w = Inr (s', w') \<and> calls w' = calls w @ new \<and>
           queriedNames new = [paramName p] \<and>
           (if fst (DSGetParamInfo eng (calls w) hJob (paramName p)) = DSJE_NOERROR pf
            then setNames new = [paramName p] else setNames new = [] \<and> s' \<noteq> DSJE_NOERROR pf)"
  using assms
  by (auto simp: setParam_def Let_def doGetParamInfo_def doSetParam_def paramName_def
        split: prod.splits)

lemma setParams_in_order:
  assumes "\<forall>p \<in> set ps. CHR ''='' \<in> set p"
  shows "\<exists>s' w' new k.
           setParams pf eng hJob ps (DSJE_NOERROR pf, w) = Inr (s', w') \<and>
           calls w' = calls w @ new \<and> k \<le> length ps \<and>
           queriedNames new = map paramName (take k ps) \<and>
           (s' = DSJE_NOERROR pf \<longrightarrow> k = length ps \<and> setNames new = map paramName ps) \<and>
           (k < length ps \<longrightarrow> s' \<noteq> DSJE_NOERROR pf)"
  using assms
proof (induction ps arbitrary: w)
  case Nil
  then show ?case by simp
next
  case (Cons p ps)
  then obtain s1 w1 n1 where one: "setParam pf eng hJob p w = Inr (s1, w1)"
    "calls w1 = calls w @ n1" "queriedNames n1 = [paramName p]"
    "if fst (DSGetParamInfo eng (calls w) hJob (paramName p)) = DSJE_NOERROR pf
     then setNames n1 = [paramName p] else setNames n1 = [] \<and> s1 \<noteq> DSJE_NOERROR pf"
    using setParam_once [of p pf eng hJob w] by auto
  show ?case
  proof (cases "s1 = DSJE_NOERROR pf")
    case False
    then have "setParams pf eng hJob (p # ps) (DSJE_NOERROR pf, w) = Inr (s1, w1)"
      using one(1) by (simp add: setParams_skip)
    with one False show ?thesis
      by (intro exI [of _ s1] exI [of _ w1] exI [of _ n1] exI [of _ 1]) simp
  next
    case True
    from Cons obtain s' w' n2 k where rest:
      "setParams pf eng hJob ps (DSJE_NOERROR pf, w1) = Inr (s', w')"
      "calls w' = calls w1 @ n2" "k \<le> length ps"
      "queriedNames n2 = map paramName (take k ps)"
      "s' = DSJE_NOERROR pf \<longrightarrow> k = length ps \<and> setNames n2 = map paramName ps"
      "k < length ps \<longrightarrow> s' \<noteq> DSJE_NOERROR pf"
      by (metis list.set_intros(2))
    have sn: "setNames n1 = [paramName p]" using one(4) True by (auto split: if_splits)
    have "setParams pf eng hJob (p # ps) (DSJE_NOERROR pf, w) = Inr (s', w')"
      using one(1) True rest(1) by simp
    with one rest sn show ?thesis
      by (intro exI [of _ s'] exI [of _ w'] exI [of _ "n1 @ n2"] exI [of _ "Suc k"])
         (simp add: queriedNames_append setNames_append)
  qed
qed

text \<open>
  C6 fails on the command line below: the eleventh \<^verbatim>\<open>-param\<close> is stored at
  \<^verbatim>\<open>param[10]\<close>, outside the array of \<^verbatim>\<open>MAX_PARAMS\<close> pointers, before any parameter is
  submitted.
\<close>

theorem eleven_params_overflow:
  "jobRun pf eng
     [''-param'', ''p1=1'', ''-param'', ''p2=2'', ''-param'', ''p3=3'', ''-param'', ''p4=4'',
      ''-param'', ''p5=5'', ''-param'', ''p6=6'', ''-param'', ''p7=7'', ''-param'', ''p8=8'',
      ''-param'', ''p9=9'', ''-param'', ''p10=10'', ''-param'', ''p11=11'', ''proj'', ''job''] w =
   Some (Inl ParamArrayOverflow)"
  by (simp add: jobRun_def isOption_def runargs0_def MAX_PARAMS_def)

subsection \<open>Iterating over the log\<close>

lemma printLogEvent_simps [simp]:
  "calls (printLogEvent e w) = calls w"
  "printed (printLogEvent e w) = printed w @ logItem e"
  "stdin (printLogEvent e w) = stdin w"
  by (simp_all add: printLogEvent_def logItem_def)

lemma logLoop_stop:
  "s \<noteq> DSJE_NOERROR pf \<Longrightarrow> logLoop pf eng hJob s e w = Some (s, w)"
  by (subst logLoop.simps) simp

lemma logLoop_step:
  "logLoop pf eng hJob (DSJE_NOERROR pf) e w =
   logLoop pf eng hJob (fst (DSFindNextLogEntry eng (calls w) hJob))
     (snd (DSFindNextLogEntry eng (calls w) hJob))
     (docall (FindNextLogEntry hJob) (printLogEvent e w))"
  by (subst logLoop.simps) (simp add: doFindNextLogEntry_def)

lemma logLoop_run:
  assumes "s_end \<noteq> DSJE_NOERROR pf"
  shows "\<forall>k < length es. DSFindNextLogEntry eng (calls w @ replicate k (FindNextLogEntry hJob)) hJob =
            (if Suc k < length (e # es) then (DSJE_NOERROR pf, (e # es) ! Suc k) else (s_end, e_end)) \<Longrightarrow>
         DSFindNextLogEntry eng (calls w @ replicate (length es) (FindNextLogEntry hJob)) hJob = (s_end, e_end) \<Longrightarrow>
         \<exists>w'. logLoop pf eng hJob (DSJE_NOERROR pf) e w = Some (s_end, w') \<and>
              calls w' = calls w @ replicate (Suc (length es)) (FindNextLogEntry hJob) \<and>
              printed w' = printed w @ concat (map logItem (e # es)) \<and> stdin w' = stdin w"
proof (induction es arbitrary: e w)
  case Nil
  then show ?case using assms by (simp add: logLoop_step logLoop_stop)
next
  case (Cons e1 es)
  let ?w1 = "docall (FindNextLogEntry hJob) (printLogEvent e w)"
  have first: "DSFindNextLogEntry eng (calls w) hJob = (DSJE_NOERROR pf, e1)"
    using Cons.prems(1) [rule_format, of 0] by simp
  have shift: "\<And>k. calls ?w1 @ replicate k (FindNextLogEntry hJob) =
      calls w @ replicate (Suc k) (FindNextLogEntry hJob)"
    by (simp add: replicate_append_same)
  have h1: "\<forall>k < length es. DSFindNextLogEntry eng (calls ?w1 @ replicate k (FindNextLogEntry hJob)) hJob =
            (if Suc k < length (e1 # es) then (DSJE_NOERROR pf, (e1 # es) ! Suc k) else (s_end, e_end))"
  proof (intro allI impI)
    fix k assume "k < length es"
    then show "DSFindNextLogEntry eng (calls ?w1 @ replicate k (FindNextLogEntry hJob)) hJob =
            (if Suc k < length (e1 # es) then (DSJE_NOERROR pf, (e1 # es) ! Suc k) else (s_end, e_end))"
      using Cons.prems(1) [rule_format, of "Suc k"] unfolding shift by simp
  qed
  have h2: "DSFindNextLogEntry eng (calls ?w1 @ replicate (length es) (FindNextLogEntry hJob)) hJob = (s_end, e_end)"
    using Cons.prems(2) unfolding shift by simp
  from Cons.IH [OF h1 h2] obtain w' where w': "logLoop pf eng hJob (DSJE_NOERROR pf) e1 ?w1 = Some (s_end, w')"
    "calls w' = calls ?w1 @ replicate (Suc (length es)) (FindNextLogEntry hJob)"
    "printed w' = printed ?w1 @ concat (map logItem (e1 # es))" "stdin w' = stdin ?w1"
    by blast
  have "logLoop pf eng hJob (DSJE_NOERROR pf) e w = Some (s_end, w')"
    using w'(1) first by (simp add: logLoop_step)
  moreover have "calls w' = calls w @ replicate (Suc (length (e1 # es))) (FindNextLogEntry hJob)"
    using w'(2) by (simp add: replicate_append_same)
  moreover have "printed w' = printed w @ concat (map logItem (e # e1 # es))"
    using w'(3) by simp
  moreover have "stdin w' = stdin w" using w'(4) by simp
  ultimately show ?case by blast
qed


lemma logSumBody_run:
  assumes ans: "\<forall>k \<le> length es. cursorAnswer eng (calls w) hj (lsType st) (maxNumber st) k =
                 (if k < length es then (DSJE_NOERROR pf, es ! k) else (s_end, e_end))"
    and fin: "s_end \<noteq> DSJE_NOERROR pf"
  shows "\<exists>w'. logSumBody pf eng st hj w =
              Some (Inr (if s_end = DSJE_NOMORE pf then DSJE_NOERROR pf else s_end, w')) \<and>
           calls w' = calls w @ FindFirstLogEntry hj (lsType st) 0 0 (maxNumber st) #
                        replicate (length es) (FindNextLogEntry hj) \<and>
           printed w' = printed w @ concat (map logItem es) @
             (if s_end = DSJE_NOMORE pf then []
              else [Stderr ''Error %d getting log summary\<newline>'' [AInt s_end]])"
proof (cases es)
  case Nil
  with ans have "DSFindFirstLogEntry eng (calls w) hj (lsType st) 0 0 (maxNumber st) = (s_end, e_end)"
    by (simp add: cursorAnswer_def)
  with Nil fin show ?thesis
    by (simp add: logSumBody_def doFindFirstLogEntry_def logLoop_stop returns_def)
next
  case (Cons e es')
  let ?ff = "FindFirstLogEntry hj (lsType st) 0 0 (maxNumber st)"
  let ?w0 = "docall ?ff w"
  have first: "DSFindFirstLogEntry eng (calls w) hj (lsType st) 0 0 (maxNumber st) = (DSJE_NOERROR pf, e)"
    using ans [rule_format, of 0] Cons by (simp add: cursorAnswer_def)
  have nxt: "\<And>j. Suc j \<le> length es \<Longrightarrow>
      DSFindNextLogEntry eng (calls ?w0 @ replicate j (FindNextLogEntry hj)) hj =
        (if Suc j < length es then (DSJE_NOERROR pf, es ! Suc j) else (s_end, e_end))"
  proof -
    fix j assume "Suc j \<le> length es"
    from ans [rule_format, OF this] show "DSFindNextLogEntry eng (calls ?w0 @ replicate j (FindNextLogEntry hj)) hj =
        (if Suc j < length es then (DSJE_NOERROR pf, es ! Suc j) else (s_end, e_end))"
      by (simp add: cursorAnswer_def)
  qed
  have h1: "\<forall>k < length es'. DSFindNextLogEntry eng (calls ?w0 @ replicate k (FindNextLogEntry hj)) hj =
            (if Suc k < length (e # es') then (DSJE_NOERROR pf, (e # es') ! Suc k) else (s_end, e_end))"
    using nxt Cons by simp
  have h2: "DSFindNextLogEntry eng (calls ?w0 @ replicate (length es') (FindNextLogEntry hj)) hj = (s_end, e_end)"
    using nxt [of "length es'"] Cons by simp
  from logLoop_run [OF fin h1 h2] obtain w1 where w1:
    "logLoop pf eng hj (DSJE_NOERROR pf) e ?w0 = Some (s_end, w1)"
    "calls w1 = calls ?w0 @ replicate (Suc (length es')) (FindNextLogEntry hj)"
    "printed w1 = printed ?w0 @ concat (map logItem (e # es'))"
    by blast
  with first Cons show ?thesis
    by (simp add: logSumBody_def doFindFirstLogEntry_def returns_def)
qed

text \<open>
  C7. Let the project and the job open, and let the engine answer the cursor calls of
  \<^verbatim>\<open>-logsum\<close> with the entries \<open>es\<close>, one per call, and then with a status \<open>s_end\<close> that
  is not success. Then the command returns; it has called find-first once and find-next
  once per entry, and has written exactly one item per entry, in order. If \<open>s_end\<close> is
  "no more" the result is success and nothing is written to the error stream (also
  when there is no entry at all); any other \<open>s_end\<close> is written as an error and is the
  result.
\<close>

theorem log_cursor_iteration:
  assumes "\<not> isOption project"
    and "DSOpenProject eng (calls w) project = Some hp"
    and "DSOpenJob eng (calls w @ [OpenProject project]) hp job = Some hj"
    and "\<forall>k \<le> length es.
           cursorAnswer eng (calls w @ [OpenProject project, OpenJob hp job]) hj DSJ_LOGANY 0 k =
             (if k < length es then (DSJE_NOERROR pf, es ! k) else (s_end, e_end))"
    and "s_end \<noteq> DSJE_NOERROR pf"
  shows "\<exists>w'. jobLogSum pf eng [project, job] w =
              Some (Inr (if s_end = DSJE_NOMORE pf then DSJE_NOERROR pf else s_end, w')) \<and>
           calls w' = calls w @ [OpenProject project, OpenJob hp job,
                                 FindFirstLogEntry hj DSJ_LOGANY 0 0 0] @
                        replicate (length es) (FindNextLogEntry hj) @
                        [CloseJob hj, CloseProject hp] \<and>
           printed w' = printed w @ concat (map logItem es) @
             (if s_end = DSJE_NOMORE pf then []
              else [Stderr ''Error %d getting log summary\<newline>'' [AInt s_end]])"
proof -
  define st where "st = \<lparr>lsType = DSJ_LOGANY, maxNumber = 0, lsBad = False\<rparr>"
  let ?w2 = "docall (OpenJob hp job) (docall (OpenProject project) w)"
  have "\<forall>k \<le> length es. cursorAnswer eng (calls ?w2) hj (lsType st) (maxNumber st) k =
                 (if k < length es then (DSJE_NOERROR pf, es ! k) else (s_end, e_end))"
    using assms(4) by (simp add: st_def)
  from logSumBody_run [OF this assms(5)] obtain wb where wb:
    "logSumBody pf eng st hj ?w2 =
       Some (Inr (if s_end = DSJE_NOMORE pf then DSJE_NOERROR pf else s_end, wb))"
    "calls wb = calls ?w2 @ FindFirstLogEntry hj (lsType st) 0 0 (maxNumber st) #
                        replicate (length es) (FindNextLogEntry hj)"
    "printed wb = printed ?w2 @ concat (map logItem es) @
             (if s_end = DSJE_NOMORE pf then []
              else [Stderr ''Error %d getting log summary\<newline>'' [AInt s_end]])"
    by blast
  have "jobLogSum pf eng [project, job] w = inProjectJob eng project job (logSumBody pf eng st) w"
    using assms(1) by (simp add: jobLogSum_def st_def)
  also have "\<dots> = Some (Inr (if s_end = DSJE_NOMORE pf then DSJE_NOERROR pf else s_end,
                         doCloseProject hp (doCloseJob hj wb)))"
    using assms(2,3) wb(1)
    by (simp add: inProjectJob_def doOpenProject_def doOpenJob_def returns_def)
  finally show ?thesis
    using wb(2,3) by (simp add: doCloseProject_def doCloseJob_def st_def)
qed

theorem log_cursor_iteration_witness:
  "\<exists>w'. jobLogSum platform0 engine_twoEntries [''proj'', ''job''] world0 = Some (Inr (0, w')) \<and>
     calls w' = [OpenProject ''proj'', OpenJob 1 ''job'', FindFirstLogEntry 2 DSJ_LOGANY 0 0 0,
                 FindNextLogEntry 2, FindNextLogEntry 2, CloseJob 2, CloseProject 1] \<and>
     printed w' = logItem event1 @ logItem event2"
proof -
  have h1: "\<not> isOption ''proj''" by (simp add: isOption_def)
  have h2: "DSOpenProject engine_twoEntries (calls world0) ''proj'' = Some 1"
    by (simp add: engine_twoEntries_def engine0_def)
  have h3: "DSOpenJob engine_twoEntries (calls world0 @ [OpenProject ''proj'']) 1 ''job'' = Some 2"
    by (simp add: engine_twoEntries_def engine0_def)
  have h4: "\<forall>k \<le> length [event1, event2].
           cursorAnswer engine_twoEntries (calls world0 @ [OpenProject ''proj'', OpenJob 1 ''job''])
             2 DSJ_LOGANY 0 k =
             (if k < length [event1, event2] then (DSJE_NOERROR platform0, [event1, event2] ! k)
              else (1001, event0))"
  proof (intro allI impI)
    fix k :: nat assume "k \<le> length [event1, event2]"
    then consider "k = 0" | "k = 1" | "k = 2" by force
    then show "cursorAnswer engine_twoEntries (calls world0 @ [OpenProject ''proj'', OpenJob 1 ''job''])
             2 DSJ_LOGANY 0 k =
             (if k < length [event1, event2] then (DSJE_NOERROR platform0, [event1, event2] ! k)
              else (1001, event0))"
      by cases (simp_all add: cursorAnswer_def engine_twoEntries_def engine0_def platform0_def world0_def)
  qed
  have h5: "(1001::int) \<noteq> DSJE_NOERROR platform0" by (simp add: platform0_def)
  from log_cursor_iteration [OF h1 h2 h3 h4 h5]
  show ?thesis by (simp add: platform0_def world0_def)
qed

subsection \<open>The dispatcher and the command line of the specification\<close>

lemma indent_by_calls [simp]: "calls (indent_by n w) = calls w"
  by (induction n w rule: indent_by.induct) (simp_all add: putchar_def)

lemma printStrList_calls [simp]: "calls (printStrList n strs w) = calls w"
  by (induction n strs w rule: printStrList.induct) (simp_all add: putchar_def)

lemma printStrList0_printed:
  "printed (printStrList 0 strs w) =
   printed w @ map (\<lambda>s. Stdout ''%s\<newline>'' [AStr s]) (takeWhile (\<lambda>s. s \<noteq> []) strs)"
  by (induction strs arbitrary: w) simp_all

lemma foldl_eprintf_calls: "calls (foldl (\<lambda>w' x. eprintf f (g x) w') w xs) = calls w"
  by (induction xs arbitrary: w) simp_all

lemma foldl_eprintf_printed:
  "printed (foldl (\<lambda>w' x. eprintf f (g x) w') w xs) = printed w @ map (\<lambda>x. Stderr f (g x)) xs"
  by (induction xs arbitrary: w) simp_all

lemma foldl_eprintf_stdin: "stdin (foldl (\<lambda>w' x. eprintf f (g x) w') w xs) = stdin w"
  by (induction xs arbitrary: w) simp_all

lemma reportError_facts:
  "fst (reportError w) = - 9999"
  "calls (snd (reportError w)) = calls w"
  "printed (snd (reportError w)) = printed w @ usageText"
  by (simp_all add: reportError_def DSJE_DSJOB_ERROR_def foldl_eprintf_calls
        foldl_eprintf_printed usageText_def)

lemma takeFlag_empty [simp]: "takeFlag f [] = Some (None, [])"
  by (simp add: takeFlag_def)

lemma globalOption_step:
  assumes "inStep argv ap ts"
  shows "(globalOption f argv ap = None \<and>
            (takeFlag f ts = None \<or> (\<exists>v. takeFlag f ts = Some (Some v, [])))) \<or>
         (\<exists>v ap' ts'. globalOption f argv ap = Some (v, ap') \<and>
            takeFlag f ts = Some (v, ts') \<and> inStep argv ap' ts')"
proof -
  obtain argc argPos where ap: "ap = (argc, argPos)" by (cases ap)
  from assms ap have lt: "argPos < length argv" and argc: "argc = length argv - argPos"
    and ts: "ts = drop argPos argv" by (auto simp: inStep_def)
  from lt ts have ts1: "ts = argv ! argPos # drop (Suc argPos) argv"
    by (simp add: Cons_nth_drop_Suc)
  show ?thesis
  proof (cases "argv ! argPos = f")
    case False
    with ap ts1 assms show ?thesis
      by (simp add: globalOption_def takeFlag_def)
  next
    case True
    show ?thesis
    proof (cases "argc < 3")
      case True
      then have "length (drop (Suc argPos) argv) < 2" using argc by simp
      then have "drop (Suc argPos) argv = [] \<or> (\<exists>v. drop (Suc argPos) argv = [v])"
        by (cases "drop (Suc argPos) argv") (auto simp: less_Suc_eq length_Suc_conv)
      with True \<open>argv ! argPos = f\<close> ap ts1 show ?thesis
        by (auto simp: globalOption_def takeFlag_def)
    next
      case False
      then have lt2: "Suc argPos < length argv" "argPos + 2 < length argv" using argc by simp_all
      then have "drop (Suc argPos) argv = argv ! (argPos + 1) # drop (argPos + 2) argv"
        by (simp add: Cons_nth_drop_Suc)
      with False \<open>argv ! argPos = f\<close> ap ts1 lt2 argc show ?thesis
        by (auto simp: globalOption_def takeFlag_def inStep_def)
    qed
  qed
qed


lemma globalOptions_spec:
  assumes "2 \<le> length argv"
  shows "(globalOptions argv = None \<and>
            (specGlobals (tl argv) = None \<or>
             (\<exists>d s u p. specGlobals (tl argv) = Some (d, s, u, p, [])))) \<or>
         (\<exists>d s u p ap. globalOptions argv = Some (d, s, u, p, ap) \<and>
            specGlobals (tl argv) = Some (d, s, u, p, drop (snd ap) argv) \<and>
            inStep argv ap (drop (snd ap) argv))"
proof -
  have i0: "inStep argv (length argv - 1, 1) (tl argv)"
    using assms by (simp add: inStep_def drop_Suc)
  from globalOption_step [OF i0, of "''-domain''"]
  show ?thesis
  proof (elim disjE conjE exE)
    assume "globalOption ''-domain'' argv (length argv - 1, 1) = None"
      "takeFlag ''-domain'' (tl argv) = None"
    then show ?thesis by (simp add: globalOptions_def specGlobals_def)
  next
    fix v assume "globalOption ''-domain'' argv (length argv - 1, 1) = None"
      "takeFlag ''-domain'' (tl argv) = Some (Some v, [])"
    then show ?thesis by (simp add: globalOptions_def specGlobals_def)
  next
    fix d ap1 ts1
    assume g1: "globalOption ''-domain'' argv (length argv - 1, 1) = Some (d, ap1)"
      and t1: "takeFlag ''-domain'' (tl argv) = Some (d, ts1)" and i1: "inStep argv ap1 ts1"
    from globalOption_step [OF i1, of "''-server''"]
    show ?thesis
    proof (elim disjE conjE exE)
      assume "globalOption ''-server'' argv ap1 = None" "takeFlag ''-server'' ts1 = None"
      with g1 t1 show ?thesis by (simp add: globalOptions_def specGlobals_def)
    next
      fix v assume "globalOption ''-server'' argv ap1 = None"
        "takeFlag ''-server'' ts1 = Some (Some v, [])"
      with g1 t1 show ?thesis by (simp add: globalOptions_def specGlobals_def)
    next
      fix s ap2 ts2
      assume g2: "globalOption ''-server'' argv ap1 = Some (s, ap2)"
        and t2: "takeFlag ''-server'' ts1 = Some (s, ts2)" and i2: "inStep argv ap2 ts2"
      from globalOption_step [OF i2, of "''-user''"]
      show ?thesis
      proof (elim disjE conjE exE)
        assume "globalOption ''-user'' argv ap2 = None" "takeFlag ''-user'' ts2 = None"
        with g1 t1 g2 t2 show ?thesis by (simp add: globalOptions_def specGlobals_def)
      next
        fix v assume "globalOption ''-user'' argv ap2 = None"
          "takeFlag ''-user'' ts2 = Some (Some v, [])"
        with g1 t1 g2 t2 show ?thesis by (simp add: globalOptions_def specGlobals_def)
      next
        fix u ap3 ts3
        assume g3: "globalOption ''-user'' argv ap2 = Some (u, ap3)"
          and t3: "takeFlag ''-user'' ts2 = Some (u, ts3)" and i3: "inStep argv ap3 ts3"
        from globalOption_step [OF i3, of "''-password''"]
        show ?thesis
        proof (elim disjE conjE exE)
          assume "globalOption ''-password'' argv ap3 = None" "takeFlag ''-password'' ts3 = None"
          with g1 t1 g2 t2 g3 t3 show ?thesis by (simp add: globalOptions_def specGlobals_def)
        next
          fix v assume "globalOption ''-password'' argv ap3 = None"
            "takeFlag ''-password'' ts3 = Some (Some v, [])"
          with g1 t1 g2 t2 g3 t3 show ?thesis by (simp add: globalOptions_def specGlobals_def)
        next
          fix p ap4 ts4
          assume g4: "globalOption ''-password'' argv ap3 = Some (p, ap4)"
            and t4: "takeFlag ''-password'' ts3 = Some (p, ts4)" and i4: "inStep argv ap4 ts4"
          from i4 have ts4: "ts4 = drop (snd ap4) argv" by (cases ap4) (simp add: inStep_def)
          have "globalOptions argv = Some (d, s, u, p, ap4)"
            using g1 g2 g3 g4 by (cases ap4) (simp add: globalOptions_def)
          moreover have "specGlobals (tl argv) = Some (d, s, u, p, drop (snd ap4) argv)"
            using t1 t2 t3 t4 ts4 by (simp add: specGlobals_def)
          ultimately show ?thesis using i4 ts4 by blast
        qed
      qed
    qed
  qed
qed

lemma main_eq_specDispatch: "main pf eng argv w = specDispatch pf eng argv w"
proof (cases "length argv < 2")
  case True
  then have "tl argv = []" by (cases argv) (auto simp: less_Suc_eq)
  with True show ?thesis by (simp add: main_def specDispatch_def specGlobals_def)
next
  case False
  then have two: "2 \<le> length argv" by simp
  from globalOptions_spec [OF two] show ?thesis
  proof (elim disjE conjE exE)
    assume "globalOptions argv = None" "specGlobals (tl argv) = None"
    with False show ?thesis by (simp add: main_def specDispatch_def)
  next
    fix d s u p
    assume "globalOptions argv = None" "specGlobals (tl argv) = Some (d, s, u, p, [])"
    with False show ?thesis by (simp add: main_def specDispatch_def)
  next
    fix d s u p ap
    assume g: "globalOptions argv = Some (d, s, u, p, ap)"
      and sp: "specGlobals (tl argv) = Some (d, s, u, p, drop (snd ap) argv)"
      and i: "inStep argv ap (drop (snd ap) argv)"
    obtain argc argPos where ap: "ap = (argc, argPos)" by (cases ap)
    from i ap have lt: "argPos < length argv" and argc: "argc = length argv - argPos"
      by (auto simp: inStep_def)
    have dr: "drop argPos argv = argv ! argPos # drop (argPos + 1) argv"
      using lt by (simp add: Cons_nth_drop_Suc)
    have "\<not> argc < 1" using lt argc by simp
    with False g sp ap dr show ?thesis
      by (simp add: main_def specDispatch_def split: option.splits)
  qed
qed

subsection \<open>What the dispatcher does with a command line\<close>

lemma find_by_key:
  "distinct (map fst xs) \<Longrightarrow> (k, v) \<in> set xs \<Longrightarrow> find (\<lambda>entry. k = fst entry) xs = Some (k, v)"
  by (induction xs) (auto simp: image_iff)

lemma MajorOption_names:
  "map fst MajorOption =
     [''run'', ''stop'', ''lprojects'', ''ljobs'', ''lstages'', ''llinks'', ''jobinfo'',
      ''stageinfo'', ''linkinfo'', ''lparams'', ''paraminfo'', ''log'', ''logsum'',
      ''logdetail'', ''lognewest'']"
  by (simp add: MajorOption_def)

lemma registered_find:
  "(name, handler) \<in> set MajorOption \<Longrightarrow>
   find (\<lambda>entry. name = fst entry) MajorOption = Some (name, handler)"
  by (rule find_by_key) (simp_all add: MajorOption_names)

lemma registered_not_flag:
  assumes "(name, handler) \<in> set MajorOption"
  shows "name \<noteq> ''domain'' \<and> name \<noteq> ''server'' \<and> name \<noteq> ''user'' \<and> name \<noteq> ''password''"
proof -
  from assms have "name \<in> set (map fst MajorOption)" by force
  then show ?thesis unfolding MajorOption_names by auto
qed

lemma specGlobals_tokens:
  assumes "cmd \<noteq> ''-domain''" "cmd \<noteq> ''-server''" "cmd \<noteq> ''-user''" "cmd \<noteq> ''-password''"
  shows "specGlobals (globalTokens d s u p @ cmd # args) = Some (d, s, u, p, cmd # args)"
  using assms
  by (cases d; cases s; cases u; cases p)
     (simp_all add: specGlobals_def globalTokens_def flagTokens_def takeFlag_def)

lemma main_dispatches:
  assumes "(name, handler) \<in> set MajorOption"
  shows "main pf eng (prog # globalTokens d s u p @ (CHR ''-'' # name) # args) w =
         runHandler pf eng handler d s u p args w"
proof -
  have "specGlobals (globalTokens d s u p @ (CHR ''-'' # name) # args) =
        Some (d, s, u, p, (CHR ''-'' # name) # args)"
    using registered_not_flag [OF assms] by (intro specGlobals_tokens) simp_all
  then show ?thesis
    using registered_find [OF assms]
    by (simp add: main_eq_specDispatch specDispatch_def hasPrefixChar_def)
qed

lemma runHandler_result:
  assumes "handler pf eng args (docall (SetServerParams d u p s) w) = Some (Inr (result, w1))"
  shows "\<exists>w2. runHandler pf eng handler d s u p args w = Some (Inr (result, w2)) \<and>
           calls w2 = calls w1 @ [GetLastErrorMsg] \<and>
           printed w2 = printed w1 @
             (if result \<noteq> DSJE_NOERROR pf
              then [Stderr ''\<newline>Status code = %d\<newline>'' [AInt result]] else []) @
             (case DSGetLastErrorMsg eng (calls w1) of
                None \<Rightarrow> []
              | Some errText \<Rightarrow>
                  Stderr ''\<newline>Last recorded error message =\<newline>'' [] #
                  map (\<lambda>s. Stdout ''%s\<newline>'' [AStr s]) (takeWhile (\<lambda>s. s \<noteq> []) errText) @
                  [Stderr ''\<newline>'' []])"
  using assms
  by (auto simp: runHandler_def doGetLastErrorMsg_def returns_def printStrList0_printed Let_def
        split: option.splits)


lemma find_in: "find P xs = Some x \<Longrightarrow> x \<in> set xs \<and> P x"
  by (induction xs) (auto split: if_splits)




lemma runHandler_dispatched:
  "dispatchedTo pf eng handler d s u p args w (runHandler pf eng handler d s u p args w)"
proof (cases "handler pf eng args (docall (SetServerParams d u p s) w)")
  case None
  then show ?thesis by (simp add: dispatchedTo_def runHandler_def)
next
  case (Some x)
  show ?thesis
  proof (cases x)
    case (Inl f)
    with Some show ?thesis by (simp add: dispatchedTo_def runHandler_def)
  next
    case (Inr y)
    obtain r w1 where y: "y = (r, w1)" by (cases y)
    from runHandler_result [of handler pf eng args d u p s w r w1] Some Inr y
    show ?thesis by (auto simp: dispatchedTo_def)
  qed
qed

text \<open>
  C3. \<^verbatim>\<open>main\<close> reads the command line exactly as the grammar of the specification does:
  the flags \<^verbatim>\<open>-domain\<close>, \<^verbatim>\<open>-server\<close>, \<^verbatim>\<open>-user\<close>, \<^verbatim>\<open>-password\<close> in this order, each with
  one value, each possibly absent. So any subset of them, in this order, before a
  registered sub-command is dispatched to its handler: these values are given to the
  engine by \<^verbatim>\<open>DSSetServerParams\<close>, then the handler runs on the arguments after the
  sub-command, and its result is the result of the program, which makes one more call,
  the query of the last error message. \<^verbatim>\<open>-domain d -server host -run proj job\<close> is
  dispatched in this way to \<^verbatim>\<open>jobRun\<close> with domain \<open>d\<close>, server \<open>host\<close> and the arguments
  \<open>proj\<close>, \<open>job\<close>; and \<^verbatim>\<open>-server host -domain d -run proj job\<close> is refused with the usage text
  and \<open>-9999\<close>, \<^verbatim>\<open>-domain\<close> being taken for the sub-command.
\<close>

theorem global_options_in_order:
  assumes "(name, handler) \<in> set MajorOption"
  shows "main pf eng argv w = specDispatch pf eng argv w \<and>
     dispatchedTo pf eng handler d s u p args w
       (main pf eng (prog # globalTokens d s u p @ (CHR ''-'' # name) # args) w) \<and>
     dispatchedTo pf eng jobRun (Some ''d'') (Some ''host'') None None [''proj'', ''job''] w
       (main pf eng [prog, ''-domain'', ''d'', ''-server'', ''host'', ''-run'', ''proj'', ''job''] w) \<and>
     main pf eng [prog, ''-server'', ''host'', ''-domain'', ''d'', ''-run'', ''proj'', ''job''] w =
       returns (reportError (eprintf ''Invalid/unknown primary command switch.\<newline>'' [] w)) \<and>
     fst (reportError w0) = - 9999 \<and> calls (snd (reportError w0)) = calls w0 \<and>
     printed (snd (reportError w0)) = printed w0 @ usageText"
proof -
  have run: "(''run'', jobRun) \<in> set MajorOption" by (simp add: MajorOption_def)
  have "main pf eng (prog # globalTokens (Some ''d'') (Some ''host'') None None @
          (CHR ''-'' # ''run'') # [''proj'', ''job'']) w =
        runHandler pf eng jobRun (Some ''d'') (Some ''host'') None None [''proj'', ''job''] w"
    using run by (rule main_dispatches)
  then have ex1: "main pf eng [prog, ''-domain'', ''d'', ''-server'', ''host'', ''-run'', ''proj'', ''job''] w =
       runHandler pf eng jobRun (Some ''d'') (Some ''host'') None None [''proj'', ''job''] w"
    by (simp add: globalTokens_def flagTokens_def)
  have "find (\<lambda>entry. ''domain'' = fst entry) MajorOption = None"
    by (simp add: find_None_iff MajorOption_def)
  then have ex2: "main pf eng [prog, ''-server'', ''host'', ''-domain'', ''d'', ''-run'', ''proj'', ''job''] w =
       returns (reportError (eprintf ''Invalid/unknown primary command switch.\<newline>'' [] w))"
    by (simp add: main_eq_specDispatch specDispatch_def specGlobals_def takeFlag_def
          hasPrefixChar_def)
  have d1: "dispatchedTo pf eng handler d s u p args w
       (main pf eng (prog # globalTokens d s u p @ (CHR ''-'' # name) # args) w)"
    unfolding main_dispatches [OF assms] by (rule runHandler_dispatched)
  have d2: "dispatchedTo pf eng jobRun (Some ''d'') (Some ''host'') None None [''proj'', ''job''] w
       (main pf eng [prog, ''-domain'', ''d'', ''-server'', ''host'', ''-run'', ''proj'', ''job''] w)"
    unfolding ex1 by (rule runHandler_dispatched)
  show ?thesis
    using main_eq_specDispatch [of pf eng argv w] d1 d2 ex2 reportError_facts [of w0]
    by simp
qed

theorem global_options_in_order_witness:
  "(\<exists>w2. main platform0 engine0
           [''dsjob'', ''-domain'', ''d'', ''-server'', ''host'', ''-run'', ''proj'', ''job''] world0 =
           Some (Inr (0, w2)) \<and>
         calls w2 = [SetServerParams (Some ''d'') None None (Some ''host''), OpenProject ''proj'',
                     OpenJob 1 ''job'', LockJob 2, RunJob 2 DSJ_RUNNORMAL, UnlockJob 2,
                     CloseJob 2, CloseProject 1, GetLastErrorMsg]) \<and>
   (\<exists>w3. main platform0 engine0
           [''dsjob'', ''-server'', ''host'', ''-password'', ''pw'', ''-stop'', ''proj'', ''job''] world0 =
           Some (Inr (0, w3)) \<and>
         calls w3 = [SetServerParams None None (Some ''pw'') (Some ''host''), OpenProject ''proj'',
                     OpenJob 1 ''job'', StopJob 2, CloseJob 2, CloseProject 1, GetLastErrorMsg]) \<and>
   main platform0 engine0
     [''dsjob'', ''-server'', ''host'', ''-domain'', ''d'', ''-run'', ''proj'', ''job''] world0 =
     Some (Inr (- 9999,
       \<lparr>calls = [],
        printed = Stderr ''Invalid/unknown primary command switch.\<newline>'' [] # usageText,
        stdin = []\<rparr>))"
proof -
  have h: "(''stop'', jobStop) \<in> set MajorOption" by (simp add: MajorOption_def)
  note t = global_options_in_order [OF h, of platform0 engine0 "[]" world0 None
      "Some ''host''" None "Some ''pw''" "[''proj'', ''job'']" "''dsjob''"
      "eprintf ''Invalid/unknown primary command switch.\<newline>'' [] world0"]
  have run: "jobRun platform0 engine0 [''proj'', ''job'']
      (docall (SetServerParams (Some ''d'') None None (Some ''host'')) world0) =
      Some (Inr (0,
        \<lparr>calls = [SetServerParams (Some ''d'') None None (Some ''host''), OpenProject ''proj'',
                  OpenJob 1 ''job'', LockJob 2, RunJob 2 DSJ_RUNNORMAL, UnlockJob 2,
                  CloseJob 2, CloseProject 1],
         printed = [], stdin = []\<rparr>))"
    by (simp add: jobRun_def isOption_def runargs0_def inProjectJob_def runLocked_def
          doOpenProject_def doOpenJob_def doLockJob_def doRunJob_def doUnlockJob_def
          doCloseJob_def doCloseProject_def complain_def returns_def docall_def
          engine0_def platform0_def world0_def MAX_PARAMS_def)
  have stop: "jobStop platform0 engine0 [''proj'', ''job'']
      (docall (SetServerParams None None (Some ''pw'') (Some ''host'')) world0) =
      Some (Inr (0,
        \<lparr>calls = [SetServerParams None None (Some ''pw'') (Some ''host''), OpenProject ''proj'',
                  OpenJob 1 ''job'', StopJob 2, CloseJob 2, CloseProject 1],
         printed = [], stdin = []\<rparr>))"
    by (simp add: jobStop_def stopBody_def inProjectJob_def doOpenProject_def doOpenJob_def
          doStopJob_def doCloseJob_def doCloseProject_def complain_def returns_def docall_def
          engine0_def platform0_def world0_def)
  from t have "dispatchedTo platform0 engine0 jobRun (Some ''d'') (Some ''host'') None None
      [''proj'', ''job''] world0
      (main platform0 engine0
         [''dsjob'', ''-domain'', ''d'', ''-server'', ''host'', ''-run'', ''proj'', ''job''] world0)"
    by (elim conjE)
  then have a: "\<exists>w2. main platform0 engine0
           [''dsjob'', ''-domain'', ''d'', ''-server'', ''host'', ''-run'', ''proj'', ''job''] world0 =
           Some (Inr (0, w2)) \<and>
         calls w2 = [SetServerParams (Some ''d'') None None (Some ''host''), OpenProject ''proj'',
                     OpenJob 1 ''job'', LockJob 2, RunJob 2 DSJ_RUNNORMAL, UnlockJob 2,
                     CloseJob 2, CloseProject 1, GetLastErrorMsg]"
    unfolding dispatchedTo_def run by (auto split: option.splits sum.splits)
  have "dispatchedTo platform0 engine0 jobStop None (Some ''host'') None (Some ''pw'')
      [''proj'', ''job''] world0
      (main platform0 engine0
         (''dsjob'' # globalTokens None (Some ''host'') None (Some ''pw'') @
            (CHR ''-'' # ''stop'') # [''proj'', ''job'']) world0)"
    by (rule t [THEN conjunct2, THEN conjunct1])
  then have "dispatchedTo platform0 engine0 jobStop None (Some ''host'') None (Some ''pw'')
      [''proj'', ''job''] world0
      (main platform0 engine0
         [''dsjob'', ''-server'', ''host'', ''-password'', ''pw'', ''-stop'', ''proj'', ''job'']
         world0)"
    by (simp add: globalTokens_def flagTokens_def)
  then have b: "\<exists>w3. main platform0 engine0
           [''dsjob'', ''-server'', ''host'', ''-password'', ''pw'', ''-stop'', ''proj'', ''job''] world0 =
           Some (Inr (0, w3)) \<and>
         calls w3 = [SetServerParams None None (Some ''pw'') (Some ''host''), OpenProject ''proj'',
                     OpenJob 1 ''job'', StopJob 2, CloseJob 2, CloseProject 1, GetLastErrorMsg]"
    unfolding dispatchedTo_def stop by (auto split: option.splits sum.splits)
  note r = t [THEN conjunct2, THEN conjunct2, THEN conjunct2]
  have c: "main platform0 engine0
      [''dsjob'', ''-server'', ''host'', ''-domain'', ''d'', ''-run'', ''proj'', ''job''] world0 =
      returns (reportError (eprintf ''Invalid/unknown primary command switch.\<newline>'' [] world0))"
    by (rule r [THEN conjunct1])
  let ?w = "eprintf ''Invalid/unknown primary command switch.\<newline>'' [] world0"
  have d: "fst (reportError ?w) = - 9999" "calls (snd (reportError ?w)) = calls ?w"
    "printed (snd (reportError ?w)) = printed ?w @ usageText"
    using r [THEN conjunct2] by blast+
  have e: "stdin (snd (reportError ?w)) = []"
    by (simp add: reportError_def world0_def foldl_eprintf_stdin)
  have "reportError ?w =
      (- 9999, \<lparr>calls = [],
        printed = Stderr ''Invalid/unknown primary command switch.\<newline>'' [] # usageText,
        stdin = []\<rparr>)"
    using d e by (intro prod_eqI world.equality) (simp_all add: world0_def)
  with a b c show ?thesis by (simp add: returns_def)
qed

text \<open>
  C4. When the sub-command is registered and its handler returns, with whatever
  result, \<^verbatim>\<open>main\<close> returns that result, and the call made right after the handler's
  calls is \<^verbatim>\<open>DSGetLastErrorMsg\<close>; the message, when there is one, is written after what
  the handler wrote (and after the status line, which is written for a result other
  than success).
\<close>

theorem last_error_message_queried:
  assumes "(name, handler) \<in> set MajorOption"
    and "handler pf eng args (docall (SetServerParams d u p s) w) = Some (Inr (result, w1))"
  shows "\<exists>w2. main pf eng (prog # globalTokens d s u p @ (CHR ''-'' # name) # args) w =
                Some (Inr (result, w2)) \<and>
           calls w2 = calls w1 @ [GetLastErrorMsg] \<and>
           printed w2 = printed w1 @
             (if result \<noteq> DSJE_NOERROR pf
              then [Stderr ''\<newline>Status code = %d\<newline>'' [AInt result]] else []) @
             (case DSGetLastErrorMsg eng (calls w1) of
                None \<Rightarrow> []
              | Some errText \<Rightarrow>
                  Stderr ''\<newline>Last recorded error message =\<newline>'' [] #
                  map (\<lambda>s. Stdout ''%s\<newline>'' [AStr s]) (takeWhile (\<lambda>s. s \<noteq> []) errText) @
                  [Stderr ''\<newline>'' []])"
  using runHandler_result [of handler pf eng args d u p s w result w1, OF assms(2)]
    main_dispatches [OF assms(1), of pf eng prog d s u p args w]
  by simp

theorem last_error_message_queried_witness:
  "\<exists>w2. main platform0 engine_stopFails [''dsjob'', ''-stop'', ''proj'', ''job''] world0 =
          Some (Inr (- 2, w2)) \<and>
     calls w2 = [SetServerParams None None None None, OpenProject ''proj'', OpenJob 1 ''job'',
                 StopJob 2, CloseJob 2, CloseProject 1, GetLastErrorMsg] \<and>
     printed w2 = [Stderr ''Error stopping job\<newline>'' [],
                   Stderr ''\<newline>Status code = %d\<newline>'' [AInt (- 2)],
                   Stderr ''\<newline>Last recorded error message =\<newline>'' [],
                   Stdout ''%s\<newline>'' [AStr ''job is not running''],
                   Stderr ''\<newline>'' []]"
proof -
  let ?w1 = "\<lparr>calls = [SetServerParams None None None None, OpenProject ''proj'', OpenJob 1 ''job'',
                 StopJob 2, CloseJob 2, CloseProject 1],
              printed = [Stderr ''Error stopping job\<newline>'' []], stdin = []\<rparr>"
  have h1: "(''stop'', jobStop) \<in> set MajorOption" by (simp add: MajorOption_def)
  have h2: "jobStop platform0 engine_stopFails [''proj'', ''job'']
              (docall (SetServerParams None None None None) world0) = Some (Inr (- 2, ?w1))"
    by (simp add: jobStop_def stopBody_def inProjectJob_def doOpenProject_def doOpenJob_def doStopJob_def
          doCloseJob_def doCloseProject_def complain_def returns_def docall_def eprintf_def
          engine_stopFails_def engine0_def platform0_def world0_def)
  from last_error_message_queried [OF h1 h2, of "''dsjob''"]
  show ?thesis
    by (simp add: globalTokens_def flagTokens_def engine_stopFails_def engine0_def platform0_def)
qed

subsection \<open>The monitor and the statuses along the block of a handler\<close>

lemma monitorAll_append:
  "monitorAll pf eng hist s (xs @ ys) =
     (case monitorAll pf eng hist s xs of
        None \<Rightarrow> None
      | Some s' \<Rightarrow> monitorAll pf eng (hist @ xs) s' ys)"
  by (induction xs arbitrary: hist s) (simp_all split: option.splits)

lemma monitor_plain:
  "plainCall c \<Longrightarrow> \<not> lockFailed s \<Longrightarrow> monitor pf eng hist s c = Some s"
  by (cases c) (simp_all add: monitor_def plainCall_def business_def)

lemma monitorAll_plain:
  "list_all plainCall cs \<Longrightarrow> \<not> lockFailed s \<Longrightarrow> monitorAll pf eng hist s cs = Some s"
  by (induction cs arbitrary: hist) (simp_all add: monitor_plain)

lemma bodyDone_plain:
  assumes "calls w' = calls w @ nb" and "list_all plainCall nb"
    and "owedResult pf (lastStatus eng (calls w) nb) r"
    and "strict \<Longrightarrow> list_all (\<lambda>x. x = r) (hardFailures pf eng (calls w) nb)"
  shows "bodyDone pf eng strict hp hj w r w'"
proof -
  have "monitorAll pf eng (calls w) (inJob hp hj) nb = Some (inJob hp hj)"
    using assms(2) by (intro monitorAll_plain) (simp_all add: inJob_def)
  with assms show ?thesis
    unfolding bodyDone_def by (intro exI [of _ nb] exI [of _ "inJob hp hj"]) (simp add: inJob_def)
qed

lemma inProjectJob_handled:
  assumes ret: "inProjectJob eng p j body w = Some (Inr (r, w'))"
    and body: "\<And>hp hj wb0 wb. body hj wb0 = Some (Inr (r, wb)) \<Longrightarrow>
                 bodyDone pf eng strict hp hj wb0 r wb"
  shows "handled pf eng strict w r w'"
  using inProjectJob_cases [OF ret]
proof (elim disjE exE conjE)
  assume a: "DSOpenProject eng (calls w) p = None"
    "calls w' = calls w @ [OpenProject p, GetLastError]"
    "r = DSGetLastError eng (calls w @ [OpenProject p])"
  show ?thesis
    unfolding handled_def
    by (rule exI [of _ "[OpenProject p, GetLastError]"])
       (simp add: a monitor_def allClosed_def owedResult_def callStatus_def softStatus_def
          failureOf_def)
next
  fix hp
  assume a: "DSOpenProject eng (calls w) p = Some hp"
    "DSOpenJob eng (calls w @ [OpenProject p]) hp j = None"
    "calls w' = calls w @ [OpenProject p, OpenJob hp j, GetLastError, CloseProject hp]"
    "r = DSGetLastError eng (calls w @ [OpenProject p, OpenJob hp j])"
  show ?thesis
    unfolding handled_def
    by (rule exI [of _ "[OpenProject p, OpenJob hp j, GetLastError, CloseProject hp]"])
       (simp add: a monitor_def allClosed_def owedResult_def callStatus_def softStatus_def
          failureOf_def)
next
  fix hp hj wb
  assume a: "DSOpenProject eng (calls w) p = Some hp"
    "DSOpenJob eng (calls w @ [OpenProject p]) hp j = Some hj"
    "body hj (docall (OpenJob hp j) (docall (OpenProject p) w)) = Some (Inr (r, wb))"
    "calls w' = calls wb @ [CloseJob hj, CloseProject hp]"
  let ?w0 = "docall (OpenJob hp j) (docall (OpenProject p) w)"
  from body [OF a(3), of hp] obtain nb s' where nb:
    "calls wb = calls ?w0 @ nb"
    "monitorAll pf eng (calls ?w0) (inJob hp hj) nb = Some s'"
    "projectOpen s' = Some hp" "jobOpen s' = Some hj" "\<not> locked s'"
    "owedResult pf (lastStatus eng (calls ?w0) nb) r"
    "if strict then list_all (\<lambda>x. x = r) (hardFailures pf eng (calls ?w0) nb) else True"
    unfolding bodyDone_def by blast
  let ?new = "[OpenProject p, OpenJob hp j] @ nb @ [CloseJob hj, CloseProject hp]"
  have c: "calls w' = calls w @ ?new" using a(4) nb(1) by simp
  have w0: "calls ?w0 = calls w @ [OpenProject p, OpenJob hp j]" by simp
  have m1: "monitorAll pf eng (calls w) allClosed [OpenProject p, OpenJob hp j] = Some (inJob hp hj)"
    using a(1,2) by (simp add: monitor_def allClosed_def inJob_def)
  have m2: "monitorAll pf eng ((calls w @ [OpenProject p, OpenJob hp j]) @ nb) s'
              [CloseJob hj, CloseProject hp] = Some allClosed"
    using nb(3,4,5) by (cases s') (simp add: monitor_def allClosed_def)
  have "monitorAll pf eng (calls w) allClosed ?new =
        monitorAll pf eng (calls w @ [OpenProject p, OpenJob hp j]) (inJob hp hj)
          (nb @ [CloseJob hj, CloseProject hp])"
    by (simp only: monitorAll_append m1 option.simps)
  also have "\<dots> = monitorAll pf eng ((calls w @ [OpenProject p, OpenJob hp j]) @ nb) s'
          [CloseJob hj, CloseProject hp]"
    using nb(2) [unfolded w0] by (simp only: monitorAll_append option.simps)
  finally have m: "monitorAll pf eng (calls w) allClosed ?new = Some allClosed"
    using m2 by simp
  have l: "lastStatus eng (calls w) ?new = lastStatus eng (calls ?w0) nb"
    by (simp add: lastStatus_append callStatus_def split: option.splits)
  have f: "hardFailures pf eng (calls w) ?new = hardFailures pf eng (calls ?w0) nb"
    by (simp add: hardFailures_append failureOf_def callStatus_def)
  have o: "owedResult pf (lastStatus eng (calls w) ?new) r"
    using nb(6) unfolding l .
  have h: "if strict then list_all (\<lambda>x. x = r) (hardFailures pf eng (calls w) ?new) else True"
    using nb(7) unfolding f .
  show ?thesis
    unfolding handled_def using c m o h by blast
qed

lemma handled_nocalls: "calls w' = calls w \<Longrightarrow> handled pf eng strict w r w'"
  unfolding handled_def by (rule exI [of _ "[]"]) (simp add: owedResult_def)

lemma printLogDetail_calls [simp]: "calls (printLogDetail n d w) = calls w"
  by (simp add: printLogDetail_def Let_def if_distrib [where f = calls])

lemma printValue_calls [simp]: "calls (printValue p w) = calls w"
  by (simp add: printValue_def split: paramtype.splits paramvalue.splits)

lemma printParamInfo_calls [simp]: "calls (printParamInfo i w) = calls w"
  by (simp add: printParamInfo_def Let_def if_distrib [where f = calls])

lemma show_calls [simp]:
  "calls (showJobStatus pf s i w) = calls w"
  "calls (showJobController pf s i w) = calls w"
  "calls (showJobStartTime pf s i w) = calls w"
  "calls (showJobWaveNumber pf s i w) = calls w"
  "calls (showUserStatus pf s i w) = calls w"
  "calls (showStageType pf s j w) = calls w"
  "calls (showInRowNum pf s j w) = calls w"
  "calls (showStageLastError pf s j w) = calls w"
  "calls (showLinkRowCount pf s k w) = calls w"
  by (simp_all add: showJobStatus_def showJobController_def showJobStartTime_def
        showJobWaveNumber_def showUserStatus_def showStageType_def showInRowNum_def
        showStageLastError_def showLinkRowCount_def)

lemma jobInfoBody_calls:
  "calls (snd (jobInfoBody pf eng hJob w)) =
   calls w @ [GetJobInfo hJob DSJ_JOBSTATUS, GetJobInfo hJob DSJ_JOBCONTROLLER,
              GetJobInfo hJob DSJ_JOBSTARTTIMESTAMP, GetJobInfo hJob DSJ_JOBWAVENO,
              GetJobInfo hJob DSJ_USERSTATUS]"
  by (simp add: jobInfoBody_def Let_def split_beta doGetJobInfo_def if_distrib [where f = calls])

lemma runOptions_paramsOK:
  "runOptions pf st args = Inr (st', rest) \<Longrightarrow> paramsOK st \<Longrightarrow> paramsOK st'"
  by (induction pf st args rule: runOptions.induct)
     (auto simp: paramsOK_def take_Suc_conv_app_nth split: if_splits)

lemma paramsOK_runargs0: "paramsOK runargs0"
  by (simp add: paramsOK_def runargs0_def)

lemma runBusiness_plain: "runBusinessCall st hj c \<Longrightarrow> plainCall c"
  by (cases c) (simp_all add: runBusinessCall_def plainCall_def)

lemma runLocked_bodyDone:
  assumes ok: "paramsOK st" and ret: "runLocked pf eng st hj w = Some (Inr (r, w'))"
  shows "bodyDone pf eng True hp hj w r w'"
proof (cases "DSLockJob eng (calls w) hj \<noteq> DSJE_NOERROR pf")
  case True
  with runLocked_trace [OF ok, of pf eng hj w] ret
  have "calls w' = calls w @ [LockJob hj]" "r = DSLockJob eng (calls w) hj" by auto
  with True show ?thesis
    unfolding bodyDone_def
    by (intro exI [of _ "[LockJob hj]"] exI [of _ "(inJob hp hj)\<lparr>lockFailed := True\<rparr>"])
       (simp add: monitor_def inJob_def owedResult_def callStatus_def softStatus_def failureOf_def)
next
  case False
  with runLocked_trace [OF ok, of pf eng hj w] ret obtain mid where mid:
    "calls w' = calls w @ LockJob hj # mid @ [UnlockJob hj]"
    "list_all (runBusinessCall st hj) mid"
    "hardFailures pf eng (calls w @ [LockJob hj]) mid = (if r = DSJE_NOERROR pf then [] else [r])"
    "case lastStatus eng (calls w @ [LockJob hj]) mid of
       None \<Rightarrow> r = DSJE_NOERROR pf
     | Some (c, x) \<Rightarrow> x = r \<and> \<not> softStatus pf c x"
    by auto
  let ?nb = "[LockJob hj] @ mid @ [UnlockJob hj]"
  let ?locked = "(inJob hp hj)\<lparr>locked := True, lockFailed := False\<rparr>"
  have plain: "list_all plainCall mid"
    using mid(2) by (auto simp: list_all_iff intro: runBusiness_plain)
  have m1: "monitorAll pf eng (calls w) (inJob hp hj) [LockJob hj] = Some ?locked"
    using False by (simp add: monitor_def inJob_def)
  have m2: "monitorAll pf eng (calls w @ [LockJob hj]) ?locked mid = Some ?locked"
    using plain by (intro monitorAll_plain) (simp_all add: inJob_def)
  have m3: "monitorAll pf eng ((calls w @ [LockJob hj]) @ mid) ?locked [UnlockJob hj] =
              Some (inJob hp hj)"
    by (simp add: monitor_def inJob_def)
  have "monitorAll pf eng (calls w) (inJob hp hj) ?nb =
        monitorAll pf eng (calls w @ [LockJob hj]) ?locked (mid @ [UnlockJob hj])"
    by (simp only: monitorAll_append m1 option.simps)
  also have "\<dots> = monitorAll pf eng ((calls w @ [LockJob hj]) @ mid) ?locked [UnlockJob hj]"
    by (simp only: monitorAll_append m2 option.simps)
  finally have m: "monitorAll pf eng (calls w) (inJob hp hj) ?nb = Some (inJob hp hj)"
    using m3 by simp
  have l: "lastStatus eng (calls w) ?nb =
      (case lastStatus eng (calls w @ [LockJob hj]) mid of
         Some y \<Rightarrow> Some y
       | None \<Rightarrow> Some (LockJob hj, DSJE_NOERROR pf))"
    using False by (simp add: lastStatus_append callStatus_def split: option.splits)
  have o: "owedResult pf (lastStatus eng (calls w) ?nb) r"
    unfolding l using mid(4) by (auto simp: owedResult_def softStatus_def split: option.splits)
  have f: "hardFailures pf eng (calls w) ?nb = (if r = DSJE_NOERROR pf then [] else [r])"
    using False mid(3) by (simp add: hardFailures_append failureOf_def callStatus_def)
  have c: "calls w' = calls w @ ?nb" using mid(1) by simp
  show ?thesis
    unfolding bodyDone_def using c m o f
    by (intro exI [of _ ?nb] exI [of _ "inJob hp hj"]) (simp add: inJob_def)
qed

lemma runUsage_calls [simp]: "calls (runUsage w) = calls w"
  by (simp add: runUsage_def)

lemma jobRun_handled:
  assumes "jobRun pf eng args w = Some (Inr (r, w'))"
  shows "handled pf eng True w r w'"
proof (cases "runOptions pf runargs0 args")
  case (Inl f)
  with assms show ?thesis by (simp add: jobRun_def)
next
  case (Inr x)
  obtain st rest where x: "x = (st, rest)" by (cases x)
  have ok: "paramsOK st"
    using Inr x paramsOK_runargs0 by (auto intro: runOptions_paramsOK)
  show ?thesis
  proof (cases "badOptions st \<or> length rest \<noteq> 2")
    case True
    with assms Inr x show ?thesis
      by (auto simp: jobRun_def returns_def intro!: handled_nocalls)
  next
    case False
    with assms Inr x have "inProjectJob eng (rest ! 0) (rest ! 1) (runLocked pf eng st) w =
        Some (Inr (r, w'))"
      by (simp add: jobRun_def)
    then show ?thesis
      by (rule inProjectJob_handled) (rule runLocked_bodyDone [OF ok])
  qed
qed

lemma body_handled:
  assumes "inProjectJob eng p j (\<lambda>hJob w2. returns (body hJob w2)) w = Some (Inr (r, w'))"
    and "\<And>hp hj wb0 wb. body hj wb0 = (r, wb) \<Longrightarrow> bodyDone pf eng strict hp hj wb0 r wb"
  shows "handled pf eng strict w r w'"
  using assms(1) by (rule inProjectJob_handled) (auto simp: returns_def intro: assms(2))

lemma guarded_handled:
  assumes "(if bad then returns (e, wu)
            else inProjectJob eng p j (\<lambda>hJob w2. returns (body hJob w2)) w) = Some (Inr (r, w'))"
    and "calls wu = calls w"
    and "\<And>hp hj wb0 wb. body hj wb0 = (r, wb) \<Longrightarrow> bodyDone pf eng strict hp hj wb0 r wb"
  shows "handled pf eng strict w r w'"
proof (cases bad)
  case True
  with assms(1,2) show ?thesis by (auto simp: returns_def intro!: handled_nocalls)
next
  case False
  with assms(1) show ?thesis by (auto intro: body_handled assms(3))
qed

lemmas status_defs =
  plainCall_def owedResult_def callStatus_def softStatus_def failureOf_def

lemma stopBody_done: "stopBody pf eng hj w = (r, w') \<Longrightarrow> bodyDone pf eng True hp hj w r w'"
  by (rule bodyDone_plain [where nb = "[StopJob hj]"])
     (auto simp: stopBody_def complain_def doStopJob_def status_defs split: if_splits)

lemma jobStop_handled:
  "jobStop pf eng args w = Some (Inr (r, w')) \<Longrightarrow> handled pf eng True w r w'"
  unfolding jobStop_def by (erule guarded_handled) (simp, erule stopBody_done)

lemma lstagesBody_done:
  "lstagesBody pf eng hj w = (r, w') \<Longrightarrow> bodyDone pf eng True hp hj w r w'"
  by (rule bodyDone_plain [where nb = "[GetJobInfo hj DSJ_STAGELIST]"])
     (auto simp: lstagesBody_def doGetJobInfo_def status_defs split_beta split: if_splits)

lemma jobLStages_handled:
  "jobLStages pf eng args w = Some (Inr (r, w')) \<Longrightarrow> handled pf eng True w r w'"
  unfolding jobLStages_def by (erule guarded_handled) (simp, erule lstagesBody_done)

lemma llinksBody_done:
  "llinksBody pf eng st hj w = (r, w') \<Longrightarrow> bodyDone pf eng True hp hj w r w'"
  by (rule bodyDone_plain [where nb = "[GetStageInfo hj st DSJ_LINKLIST]"])
     (auto simp: llinksBody_def doGetStageInfo_def status_defs split_beta Let_def split: if_splits)

lemma jobLLinks_handled:
  "jobLLinks pf eng args w = Some (Inr (r, w')) \<Longrightarrow> handled pf eng True w r w'"
  unfolding jobLLinks_def by (erule guarded_handled) (simp, erule llinksBody_done)

lemma lparamsBody_done:
  "lparamsBody pf eng hj w = (r, w') \<Longrightarrow> bodyDone pf eng True hp hj w r w'"
  by (rule bodyDone_plain [where nb = "[GetJobInfo hj DSJ_PARAMLIST]"])
     (auto simp: lparamsBody_def doGetJobInfo_def status_defs split_beta split: if_splits)

lemma jobLParams_handled:
  "jobLParams pf eng args w = Some (Inr (r, w')) \<Longrightarrow> handled pf eng True w r w'"
  unfolding jobLParams_def by (erule guarded_handled) (simp, erule lparamsBody_done)

lemma paramInfoBody_done:
  "paramInfoBody pf eng n hj w = (r, w') \<Longrightarrow> bodyDone pf eng True hp hj w r w'"
  by (rule bodyDone_plain [where nb = "[GetParamInfo hj n]"])
     (auto simp: paramInfoBody_def doGetParamInfo_def status_defs split_beta split: if_splits)

lemma jobParamInfo_handled:
  "jobParamInfo pf eng args w = Some (Inr (r, w')) \<Longrightarrow> handled pf eng True w r w'"
  unfolding jobParamInfo_def by (erule guarded_handled) (simp, erule paramInfoBody_done)

lemma logDetailBody_done:
  "logDetailBody pf eng i hj w = (r, w') \<Longrightarrow> bodyDone pf eng True hp hj w r w'"
  by (rule bodyDone_plain [where nb = "[GetLogEntry hj i]"])
     (auto simp: logDetailBody_def doGetLogEntry_def status_defs split_beta split: if_splits)

lemma jobLogDetail_handled:
  "jobLogDetail pf eng args w = Some (Inr (r, w')) \<Longrightarrow> handled pf eng True w r w'"
  unfolding jobLogDetail_def by (erule guarded_handled) (simp, erule logDetailBody_done)

lemma logNewestBody_done:
  "logNewestBody pf eng ty hj w = (r, w') \<Longrightarrow> bodyDone pf eng True hp hj w r w'"
proof (cases "DSGetNewestLogId eng (calls w) hj ty < 0")
  case True
  assume "logNewestBody pf eng ty hj w = (r, w')"
  with True show ?thesis
    by (intro bodyDone_plain [where nb = "[GetNewestLogId hj ty, GetLastError]"])
       (auto simp: logNewestBody_def doGetNewestLogId_def doGetLastError_def status_defs)
next
  case False
  assume "logNewestBody pf eng ty hj w = (r, w')"
  with False show ?thesis
    by (intro bodyDone_plain [where nb = "[GetNewestLogId hj ty]"])
       (auto simp: logNewestBody_def doGetNewestLogId_def doGetLastError_def status_defs)
qed

lemma logNewestUsage_calls [simp]: "calls (logNewestUsage w) = calls w"
  by (simp add: logNewestUsage_def)

lemma jobLogNewest_handled:
  "jobLogNewest pf eng args w = Some (Inr (r, w')) \<Longrightarrow> handled pf eng True w r w'"
proof (cases "length args < 2 \<or> 3 < length args")
  case True
  assume "jobLogNewest pf eng args w = Some (Inr (r, w'))"
  with True show ?thesis by (auto simp: jobLogNewest_def returns_def intro!: handled_nocalls)
next
  case False
  assume a: "jobLogNewest pf eng args w = Some (Inr (r, w'))"
  show ?thesis
  proof (cases "if length args = 3 then logTypeArg (args ! 2) else Some DSJ_LOGANY")
    case None
    with a False show ?thesis
      by (auto simp: jobLogNewest_def returns_def intro!: handled_nocalls)
  next
    case (Some ty)
    with a False have "inProjectJob eng (args ! 0) (args ! 1)
        (\<lambda>hJob w2. returns (logNewestBody pf eng ty hJob w2)) w = Some (Inr (r, w'))"
      by (simp add: jobLogNewest_def)
    then show ?thesis by (rule body_handled) (erule logNewestBody_done)
  qed
qed

lemma logBody_done:
  "logBody pf eng ty hj w = (r, w') \<Longrightarrow> bodyDone pf eng True hp hj w r w'"
  by (rule bodyDone_plain
        [where nb = "[LogEvent hj ty (fst (readMessage (WIN32 pf) [] (stdin w)))]"])
     (auto simp: logBody_def complain_def doLogEvent_def status_defs split_beta Let_def
           split: if_splits)

lemma logUsage_calls [simp]: "calls (logUsage w) = calls w"
  by (simp add: logUsage_def)

lemma jobLog_handled:
  "jobLog pf eng args w = Some (Inr (r, w')) \<Longrightarrow> handled pf eng True w r w'"
proof -
  assume a: "jobLog pf eng args w = Some (Inr (r, w'))"
  obtain ty bad rest where o: "logOptions (DSJ_LOGINFO, False) args = ((ty, bad), rest)"
    by (metis surj_pair)
  from a have "(if bad \<or> length rest \<noteq> 2 then returns (DSJE_DSJOB_ERROR, logUsage w)
      else inProjectJob eng (rest ! 0) (rest ! 1)
             (\<lambda>hJob w2. returns (logBody pf eng ty hJob w2)) w) = Some (Inr (r, w'))"
    by (simp add: jobLog_def o)
  then show ?thesis by (rule guarded_handled) (simp, erule logBody_done)
qed

lemma jobLProjects_handled:
  assumes "jobLProjects pf eng args w = Some (Inr (r, w'))"
  shows "handled pf eng True w r w'"
proof (cases "length args \<noteq> 0")
  case True
  with assms show ?thesis by (auto simp: jobLProjects_def returns_def intro!: handled_nocalls)
next
  case False
  show ?thesis
  proof (cases "DSGetProjectList eng (calls w)")
    case None
    with assms False have "calls w' = calls w @ [GetProjectList, GetLastError]"
      "r = DSGetLastError eng (calls w @ [GetProjectList])"
      by (auto simp: jobLProjects_def returns_def doGetProjectList_def doGetLastError_def)
    then show ?thesis
      unfolding handled_def
      by (intro exI [of _ "[GetProjectList, GetLastError]"])
         (simp add: monitor_def allClosed_def status_defs)
  next
    case (Some lst)
    with assms False have "calls w' = calls w @ [GetProjectList]"
      by (auto simp: jobLProjects_def returns_def doGetProjectList_def)
    then show ?thesis
      unfolding handled_def
      by (intro exI [of _ "[GetProjectList]"])
         (simp add: monitor_def allClosed_def status_defs)
  qed
qed

lemma jobLJobs_handled:
  assumes "jobLJobs pf eng args w = Some (Inr (r, w'))"
  shows "handled pf eng True w r w'"
proof (cases "length args \<noteq> 1")
  case True
  with assms show ?thesis by (auto simp: jobLJobs_def returns_def intro!: handled_nocalls)
next
  case False
  show ?thesis
  proof (cases "DSOpenProject eng (calls w) (args ! 0)")
    case None
    with assms False have "calls w' = calls w @ [OpenProject (args ! 0), GetLastError]"
      "r = DSGetLastError eng (calls w @ [OpenProject (args ! 0)])"
      by (auto simp: jobLJobs_def returns_def doOpenProject_def doGetLastError_def)
    with None show ?thesis
      unfolding handled_def
      by (intro exI [of _ "[OpenProject (args ! 0), GetLastError]"])
         (simp add: monitor_def allClosed_def status_defs)
  next
    case (Some hp)
    let ?s = "fst (DSGetProjectInfo eng (calls w @ [OpenProject (args ! 0)]) hp DSJ_JOBLIST)"
    from assms False Some have
      "calls w' = calls w @ [OpenProject (args ! 0), GetProjectInfo hp DSJ_JOBLIST, CloseProject hp]"
      "r = (if ?s = DSJE_NOT_AVAILABLE pf then DSJE_NOERROR pf else ?s)"
      by (auto simp: jobLJobs_def returns_def doOpenProject_def doGetProjectInfo_def
            doCloseProject_def split_beta split: if_splits)
    with Some show ?thesis
      unfolding handled_def
      by (intro exI [of _ "[OpenProject (args ! 0), GetProjectInfo hp DSJ_JOBLIST, CloseProject hp]"])
         (simp add: monitor_def allClosed_def status_defs)
  qed
qed

lemma jobInfoBody_status:
  "fst (jobInfoBody pf eng hJob w) =
     (if fst (DSGetJobInfo eng
           (calls w @ [GetJobInfo hJob DSJ_JOBSTATUS, GetJobInfo hJob DSJ_JOBCONTROLLER,
              GetJobInfo hJob DSJ_JOBSTARTTIMESTAMP, GetJobInfo hJob DSJ_JOBWAVENO])
           hJob DSJ_USERSTATUS) = DSJE_NOT_AVAILABLE pf
      then DSJE_NOERROR pf
      else fst (DSGetJobInfo eng
           (calls w @ [GetJobInfo hJob DSJ_JOBSTATUS, GetJobInfo hJob DSJ_JOBCONTROLLER,
              GetJobInfo hJob DSJ_JOBSTARTTIMESTAMP, GetJobInfo hJob DSJ_JOBWAVENO])
           hJob DSJ_USERSTATUS))"
  by (simp add: jobInfoBody_def Let_def split_beta doGetJobInfo_def if_distrib [where f = calls])

lemma jobInfoBody_done:
  assumes "jobInfoBody pf eng hj w = (r, w')"
  shows "bodyDone pf eng False hp hj w r w'"
proof -
  let ?nb = "[GetJobInfo hj DSJ_JOBSTATUS, GetJobInfo hj DSJ_JOBCONTROLLER,
              GetJobInfo hj DSJ_JOBSTARTTIMESTAMP, GetJobInfo hj DSJ_JOBWAVENO,
              GetJobInfo hj DSJ_USERSTATUS]"
  have c: "calls w' = calls w @ ?nb"
    using jobInfoBody_calls [of pf eng hj w] assms by simp
  have r: "r = fst (jobInfoBody pf eng hj w)" using assms by simp
  show ?thesis
    by (rule bodyDone_plain [where nb = ?nb, OF c])
       (simp_all add: r jobInfoBody_status status_defs)
qed

lemma jobJobInfo_handled:
  "jobJobInfo pf eng args w = Some (Inr (r, w')) \<Longrightarrow> handled pf eng False w r w'"
  unfolding jobJobInfo_def by (erule guarded_handled) (simp, erule jobInfoBody_done)

lemma stageInfoBody_calls:
  "calls (snd (stageInfoBody pf eng st hJob w)) =
   calls w @ [GetStageInfo hJob st DSJ_STAGETYPE, GetStageInfo hJob st DSJ_STAGEINROWNUM,
              GetStageInfo hJob st DSJ_STAGELASTERR]"
  by (simp add: stageInfoBody_def Let_def split_beta doGetStageInfo_def)

lemma stageInfoBody_status:
  "fst (stageInfoBody pf eng st hJob w) =
     (if fst (DSGetStageInfo eng
           (calls w @ [GetStageInfo hJob st DSJ_STAGETYPE, GetStageInfo hJob st DSJ_STAGEINROWNUM])
           hJob st DSJ_STAGELASTERR) = DSJE_NOT_AVAILABLE pf
      then DSJE_NOERROR pf
      else fst (DSGetStageInfo eng
           (calls w @ [GetStageInfo hJob st DSJ_STAGETYPE, GetStageInfo hJob st DSJ_STAGEINROWNUM])
           hJob st DSJ_STAGELASTERR))"
  by (simp add: stageInfoBody_def Let_def split_beta doGetStageInfo_def)

lemma stageInfoBody_done:
  assumes "stageInfoBody pf eng st hj w = (r, w')"
  shows "bodyDone pf eng False hp hj w r w'"
proof -
  let ?nb = "[GetStageInfo hj st DSJ_STAGETYPE, GetStageInfo hj st DSJ_STAGEINROWNUM,
              GetStageInfo hj st DSJ_STAGELASTERR]"
  have c: "calls w' = calls w @ ?nb"
    using stageInfoBody_calls [of pf eng st hj w] assms by simp
  have r: "r = fst (stageInfoBody pf eng st hj w)" using assms by simp
  show ?thesis
    by (rule bodyDone_plain [where nb = ?nb, OF c])
       (simp_all add: r stageInfoBody_status status_defs)
qed

lemma jobStageInfo_handled:
  "jobStageInfo pf eng args w = Some (Inr (r, w')) \<Longrightarrow> handled pf eng False w r w'"
  unfolding jobStageInfo_def by (erule guarded_handled) (simp, erule stageInfoBody_done)

lemma linkInfoBody_calls:
  "calls (snd (linkInfoBody pf eng st lk hJob w)) =
   calls w @ [GetLinkInfo hJob st lk DSJ_LINKROWCOUNT, GetLinkInfo hJob st lk DSJ_LINKLASTERR]"
  by (simp add: linkInfoBody_def Let_def split_beta doGetLinkInfo_def)

lemma linkInfoBody_status:
  "fst (linkInfoBody pf eng st lk hJob w) =
     (if fst (DSGetLinkInfo eng (calls w @ [GetLinkInfo hJob st lk DSJ_LINKROWCOUNT])
           hJob st lk DSJ_LINKLASTERR) = DSJE_NOT_AVAILABLE pf
      then DSJE_NOERROR pf
      else fst (DSGetLinkInfo eng (calls w @ [GetLinkInfo hJob st lk DSJ_LINKROWCOUNT])
           hJob st lk DSJ_LINKLASTERR))"
  by (simp add: linkInfoBody_def Let_def split_beta doGetLinkInfo_def)

lemma linkInfoBody_done:
  assumes "linkInfoBody pf eng st lk hj w = (r, w')"
  shows "bodyDone pf eng False hp hj w r w'"
proof -
  let ?nb = "[GetLinkInfo hj st lk DSJ_LINKROWCOUNT, GetLinkInfo hj st lk DSJ_LINKLASTERR]"
  have c: "calls w' = calls w @ ?nb"
    using linkInfoBody_calls [of pf eng st lk hj w] assms by simp
  have r: "r = fst (linkInfoBody pf eng st lk hj w)" using assms by simp
  show ?thesis
    by (rule bodyDone_plain [where nb = ?nb, OF c])
       (simp_all add: r linkInfoBody_status status_defs)
qed

lemma jobLinkInfo_handled:
  "jobLinkInfo pf eng args w = Some (Inr (r, w')) \<Longrightarrow> handled pf eng False w r w'"
  unfolding jobLinkInfo_def by (erule guarded_handled) (simp, erule linkInfoBody_done)

lemma loopTrace_stop: "s \<noteq> DSJE_NOERROR pf \<Longrightarrow> loopTrace pf eng hJob s (calls w) (s, w)"
  unfolding loopTrace_def by (rule exI [of _ 0]) simp

lemma loopTrace_step:
  assumes "loopTrace pf eng hJob (fst (DSFindNextLogEntry eng hist hJob))
             (hist @ [FindNextLogEntry hJob]) y"
  shows "loopTrace pf eng hJob (DSJE_NOERROR pf) hist y"
proof -
  let ?c = "FindNextLogEntry hJob"
  let ?s1 = "fst (DSFindNextLogEntry eng hist hJob)"
  from assms obtain n where n:
    "calls (snd y) = (hist @ [?c]) @ replicate n ?c"
    "fst y \<noteq> DSJE_NOERROR pf"
    "if n = 0 then fst y = ?s1
     else ?s1 = DSJE_NOERROR pf \<and>
       hardFailures pf eng (hist @ [?c]) (replicate n ?c) =
         (if fst y = DSJE_NOMORE pf then [] else [fst y]) \<and>
       lastStatus eng (hist @ [?c]) (replicate n ?c) = Some (?c, fst y)"
    unfolding loopTrace_def by blast
  have c: "calls (snd y) = hist @ replicate (Suc n) ?c"
    using n(1) by (simp add: replicate_append_same)
  have h: "hardFailures pf eng hist (replicate (Suc n) ?c) =
             (if fst y = DSJE_NOMORE pf then [] else [fst y])"
    using n(2,3) by (cases "n = 0") (auto simp: failureOf_def callStatus_def softStatus_def)
  have l: "lastStatus eng hist (replicate (Suc n) ?c) = Some (?c, fst y)"
    using n(3) by (cases "n = 0") (auto simp: callStatus_def)
  show ?thesis
    unfolding loopTrace_def using c h l n(2) by (intro exI [of _ "Suc n"]) simp
qed

lemma logLoop_trace:
  assumes "logLoop pf eng hJob s e w = Some y"
  shows "loopTrace pf eng hJob s (calls w) y"
proof (rule logLoop.raw_induct
    [where P = "\<lambda>pf eng hJob s e w y. loopTrace pf eng hJob s (calls w) y", OF _ assms], goal_cases)
  case (1 f pf eng hJob s e w y)
  show ?case
  proof (cases "s = DSJE_NOERROR pf")
    case True
    with 1(2) have "f pf eng hJob (fst (DSFindNextLogEntry eng (calls w) hJob))
        (snd (DSFindNextLogEntry eng (calls w) hJob))
        (docall (FindNextLogEntry hJob) (printLogEvent e w)) = Some y"
      by (simp add: doFindNextLogEntry_def)
    from 1(1) [OF this]
    have "loopTrace pf eng hJob (fst (DSFindNextLogEntry eng (calls w) hJob))
        (calls w @ [FindNextLogEntry hJob]) y"
      by simp
    then show ?thesis unfolding True by (rule loopTrace_step)
  next
    case False
    with 1(2) show ?thesis by (auto intro: loopTrace_stop)
  qed
qed

lemma logSumBody_done:
  assumes "logSumBody pf eng st hj w = Some (Inr (r, w'))"
  shows "bodyDone pf eng True hp hj w r w'"
proof -
  let ?ff = "FindFirstLogEntry hj (lsType st) 0 0 (maxNumber st)"
  let ?c = "FindNextLogEntry hj"
  let ?s0 = "fst (DSFindFirstLogEntry eng (calls w) hj (lsType st) 0 0 (maxNumber st))"
  let ?e0 = "snd (DSFindFirstLogEntry eng (calls w) hj (lsType st) 0 0 (maxNumber st))"
  from assms obtain s1 w1 where
    loop: "logLoop pf eng hj ?s0 ?e0 (docall ?ff w) = Some (s1, w1)"
    and r: "r = (if s1 = DSJE_NOMORE pf then DSJE_NOERROR pf else s1)"
    and w': "calls w' = calls w1"
    by (auto simp: logSumBody_def doFindFirstLogEntry_def returns_def split_beta
          split: option.splits if_splits)
  from logLoop_trace [OF loop] have "loopTrace pf eng hj ?s0 (calls w @ [?ff]) (s1, w1)"
    by simp
  then obtain n where n:
    "calls w1 = (calls w @ [?ff]) @ replicate n ?c"
    "s1 \<noteq> DSJE_NOERROR pf"
    "if n = 0 then s1 = ?s0
     else ?s0 = DSJE_NOERROR pf \<and>
       hardFailures pf eng (calls w @ [?ff]) (replicate n ?c) =
         (if s1 = DSJE_NOMORE pf then [] else [s1]) \<and>
       lastStatus eng (calls w @ [?ff]) (replicate n ?c) = Some (?c, s1)"
    unfolding loopTrace_def fst_conv snd_conv by blast
  let ?nb = "?ff # replicate n ?c"
  have c: "calls w' = calls w @ ?nb" using w' n(1) by simp
  have p: "list_all plainCall ?nb" by (simp add: plainCall_def list_all_iff)
  have o: "owedResult pf (lastStatus eng (calls w) ?nb) r"
    using n(2,3) r by (cases "n = 0") (auto simp: owedResult_def callStatus_def softStatus_def)
  have h: "list_all (\<lambda>x. x = r) (hardFailures pf eng (calls w) ?nb)"
    using n(2,3) r by (cases "n = 0") (auto simp: failureOf_def callStatus_def softStatus_def)
  show ?thesis by (rule bodyDone_plain [OF c p o h])
qed

lemma logSumUsage_calls [simp]: "calls (logSumUsage w) = calls w"
  by (simp add: logSumUsage_def)

lemma jobLogSum_handled:
  assumes "jobLogSum pf eng args w = Some (Inr (r, w'))"
  shows "handled pf eng True w r w'"
proof -
  obtain st rest where o:
    "logSumOptions pf \<lparr>lsType = DSJ_LOGANY, maxNumber = 0, lsBad = False\<rparr> args = (st, rest)"
    by (metis surj_pair)
  show ?thesis
  proof (cases "lsBad st \<or> length rest \<noteq> 2")
    case True
    with assms o show ?thesis
      by (auto simp: jobLogSum_def returns_def intro!: handled_nocalls)
  next
    case False
    with assms o have "inProjectJob eng (rest ! 0) (rest ! 1) (logSumBody pf eng st) w =
        Some (Inr (r, w'))"
      by (simp add: jobLogSum_def)
    then show ?thesis by (rule inProjectJob_handled) (rule logSumBody_done)
  qed
qed

subsection \<open>Every handler of the table\<close>

lemma table_handled_all:
  "list_all (\<lambda>entry. \<forall>pf eng args w r w'.
       snd entry pf eng args w = Some (Inr (r, w')) \<longrightarrow>
       handled pf eng (fst entry \<notin> set infoCommands) w r w') MajorOption"
  unfolding MajorOption_def infoCommands_def
  by (simp add: jobRun_handled jobStop_handled jobLProjects_handled jobLJobs_handled
        jobLStages_handled jobLLinks_handled jobJobInfo_handled jobStageInfo_handled
        jobLinkInfo_handled jobLParams_handled jobParamInfo_handled jobLog_handled
        jobLogSum_handled jobLogDetail_handled jobLogNewest_handled)

lemma table_handled:
  assumes "(name, handler) \<in> set MajorOption"
    and "handler pf eng args w = Some (Inr (r, w'))"
  shows "handled pf eng (name \<notin> set infoCommands) w r w'"
  using table_handled_all assms unfolding list_all_iff by fastforce

lemma runHandler_cases:
  assumes "runHandler pf eng handler d s u p args w = Some (Inr (r, w'))"
  shows "\<exists>w1. handler pf eng args (docall (SetServerParams d u p s) w) = Some (Inr (r, w1)) \<and>
           calls w' = calls w1 @ [GetLastErrorMsg] \<and>
           (r \<noteq> DSJE_NOERROR pf \<longrightarrow>
              Stderr ''\<newline>Status code = %d\<newline>'' [AInt r] \<in> set (printed w'))"
proof (cases "handler pf eng args (docall (SetServerParams d u p s) w)")
  case None
  with assms show ?thesis by (simp add: runHandler_def)
next
  case (Some x)
  show ?thesis
  proof (cases x)
    case (Inl f)
    with assms Some show ?thesis by (simp add: runHandler_def)
  next
    case (Inr y)
    obtain r1 w1 where y: "y = (r1, w1)" by (cases y)
    from runHandler_result [of handler pf eng args d u p s w r1 w1] Some Inr y assms
    show ?thesis by auto
  qed
qed

lemma runHandler_handled:
  assumes "(name, handler) \<in> set MajorOption"
    and "runHandler pf eng handler d s u p args w = Some (Inr (r, w'))"
  shows "\<exists>new. calls w' = calls w @ new \<and>
           monitorAll pf eng (calls w) allClosed new = Some allClosed \<and>
           owedResult pf (lastStatus eng (calls w) new) r \<and>
           (name \<notin> set infoCommands \<longrightarrow> list_all (\<lambda>x. x = r) (hardFailures pf eng (calls w) new)) \<and>
           (r \<noteq> DSJE_NOERROR pf \<longrightarrow>
              Stderr ''\<newline>Status code = %d\<newline>'' [AInt r] \<in> set (printed w'))"
proof -
  let ?ssp = "SetServerParams d u p s"
  from runHandler_cases [OF assms(2)] obtain w1 where w1:
    "handler pf eng args (docall ?ssp w) = Some (Inr (r, w1))"
    "calls w' = calls w1 @ [GetLastErrorMsg]"
    "r \<noteq> DSJE_NOERROR pf \<longrightarrow> Stderr ''\<newline>Status code = %d\<newline>'' [AInt r] \<in> set (printed w')"
    by blast
  from table_handled [OF assms(1) w1(1)] obtain mid where mid:
    "calls w1 = (calls w @ [?ssp]) @ mid"
    "monitorAll pf eng (calls w @ [?ssp]) allClosed mid = Some allClosed"
    "owedResult pf (lastStatus eng (calls w @ [?ssp]) mid) r"
    "name \<notin> set infoCommands \<longrightarrow> list_all (\<lambda>x. x = r) (hardFailures pf eng (calls w @ [?ssp]) mid)"
    unfolding handled_def by (auto split: if_splits)
  let ?new = "[?ssp] @ mid @ [GetLastErrorMsg]"
  have c: "calls w' = calls w @ ?new" using w1(2) mid(1) by simp
  have m0: "monitorAll pf eng (calls w) allClosed [?ssp] = Some allClosed"
    by (simp add: monitor_def)
  have m2: "monitorAll pf eng ((calls w @ [?ssp]) @ mid) allClosed [GetLastErrorMsg] = Some allClosed"
    by (simp add: monitor_def)
  have "monitorAll pf eng (calls w) allClosed ?new =
        monitorAll pf eng (calls w @ [?ssp]) allClosed (mid @ [GetLastErrorMsg])"
    by (simp only: monitorAll_append m0 option.simps)
  also have "\<dots> = monitorAll pf eng ((calls w @ [?ssp]) @ mid) allClosed [GetLastErrorMsg]"
    by (simp only: monitorAll_append mid(2) option.simps)
  finally have m: "monitorAll pf eng (calls w) allClosed ?new = Some allClosed"
    using m2 by simp
  have l: "lastStatus eng (calls w) ?new = lastStatus eng (calls w @ [?ssp]) mid"
    by (simp add: lastStatus_append callStatus_def split: option.splits)
  have f: "hardFailures pf eng (calls w) ?new = hardFailures pf eng (calls w @ [?ssp]) mid"
    by (simp add: hardFailures_append failureOf_def callStatus_def)
  have o: "owedResult pf (lastStatus eng (calls w) ?new) r"
    using mid(3) unfolding l .
  have h: "name \<notin> set infoCommands \<longrightarrow> list_all (\<lambda>x. x = r) (hardFailures pf eng (calls w) ?new)"
    using mid(4) unfolding f .
  show ?thesis using c m o h w1(3) by blast
qed

lemma main_cases:
  assumes "main pf eng argv w = Some (Inr (r, w'))"
  shows "calls w' = calls w \<or>
         (\<exists>name handler d s u p args. (name, handler) \<in> set MajorOption \<and>
            runHandler pf eng handler d s u p args w = Some (Inr (r, w')))"
proof -
  have rep: "calls w' = calls w0" if "returns (reportError w0) = Some (Inr (r, w'))" for w0
  proof -
    from that have "snd (reportError w0) = w'" by (simp add: returns_def)
    with reportError_facts(2) [of w0] show ?thesis by simp
  qed
  show ?thesis
  proof (cases "length argv < 2")
    case True
    with assms rep show ?thesis by (simp add: main_def)
  next
    case False
    show ?thesis
    proof (cases "globalOptions argv")
      case None
      with assms False rep show ?thesis by (simp add: main_def)
    next
      case (Some g)
      obtain d s u p argc argPos where g: "g = (d, s, u, p, argc, argPos)"
        by (metis surj_pair)
      show ?thesis
      proof (cases "argc < 1 \<or> \<not> hasPrefixChar pf (argv ! argPos)")
        case True
        with assms False Some g have "returns (reportError w) = Some (Inr (r, w'))"
          by (auto simp: main_def split: if_splits)
        from rep [OF this] show ?thesis by simp
      next
        case ok: False
        show ?thesis
        proof (cases "find (\<lambda>entry. tl (argv ! argPos) = fst entry) MajorOption")
          case None
          with assms False Some g ok
          have "returns (reportError (eprintf ''Invalid/unknown primary command switch.\<newline>'' [] w)) =
                  Some (Inr (r, w'))"
            by (simp add: main_def)
          from rep [OF this] show ?thesis by simp
        next
          case (Some entry)
          with assms False \<open>globalOptions argv = Some g\<close> g ok
          have "runHandler pf eng (snd entry) d s u p (drop (argPos + 1) argv) w = Some (Inr (r, w'))"
            by (simp add: main_def)
          moreover have "(fst entry, snd entry) \<in> set MajorOption"
            using find_in [OF Some] by simp
          ultimately show ?thesis by blast
        qed
      qed
    qed
  qed
qed

lemma monitor_handles:
  assumes "monitor pf eng hist s c = Some s'"
  shows "(case projectOpen s of None \<Rightarrow> [] | Some h \<Rightarrow> [h]) @ projectGiven eng hist c =
         (case c of CloseProject h \<Rightarrow> [h] | _ \<Rightarrow> []) @
         (case projectOpen s' of None \<Rightarrow> [] | Some h \<Rightarrow> [h])"
    and "(case jobOpen s of None \<Rightarrow> [] | Some h \<Rightarrow> [h]) @ jobGiven eng hist c =
         (case c of CloseJob h \<Rightarrow> [h] | _ \<Rightarrow> []) @
         (case jobOpen s' of None \<Rightarrow> [] | Some h \<Rightarrow> [h])"
  using assms
  by (cases c; auto simp: monitor_def business_def projectGiven_def jobGiven_def
        split: if_splits option.splits)+

lemma monitorAll_handles:
  "monitorAll pf eng hist s cs = Some s' \<Longrightarrow>
     (case projectOpen s of None \<Rightarrow> [] | Some h \<Rightarrow> [h]) @ openedProjects eng hist cs =
       closedProjects cs @ (case projectOpen s' of None \<Rightarrow> [] | Some h \<Rightarrow> [h]) \<and>
     (case jobOpen s of None \<Rightarrow> [] | Some h \<Rightarrow> [h]) @ openedJobs eng hist cs =
       closedJobs cs @ (case jobOpen s' of None \<Rightarrow> [] | Some h \<Rightarrow> [h])"
proof (induction cs arbitrary: hist s)
  case Nil
  then show ?case by (simp add: closedProjects_def closedJobs_def)
next
  case (Cons c cs)
  from Cons.prems obtain s1 where s1: "monitor pf eng hist s c = Some s1"
    "monitorAll pf eng (hist @ [c]) s1 cs = Some s'"
    by (auto split: option.splits)
  note ih = Cons.IH [OF s1(2)]
  note st = monitor_handles [OF s1(1)]
  have "(case projectOpen s of None \<Rightarrow> [] | Some h \<Rightarrow> [h]) @ openedProjects eng hist (c # cs) =
        ((case projectOpen s of None \<Rightarrow> [] | Some h \<Rightarrow> [h]) @ projectGiven eng hist c) @
          openedProjects eng (hist @ [c]) cs"
    by simp
  also have "\<dots> = (case c of CloseProject h \<Rightarrow> [h] | _ \<Rightarrow> []) @
      ((case projectOpen s1 of None \<Rightarrow> [] | Some h \<Rightarrow> [h]) @ openedProjects eng (hist @ [c]) cs)"
    unfolding st(1) by simp
  also have "\<dots> = closedProjects (c # cs) @ (case projectOpen s' of None \<Rightarrow> [] | Some h \<Rightarrow> [h])"
    unfolding ih [THEN conjunct1] by (simp add: closedProjects_def)
  finally have p: "(case projectOpen s of None \<Rightarrow> [] | Some h \<Rightarrow> [h]) @ openedProjects eng hist (c # cs) =
      closedProjects (c # cs) @ (case projectOpen s' of None \<Rightarrow> [] | Some h \<Rightarrow> [h])" .
  have "(case jobOpen s of None \<Rightarrow> [] | Some h \<Rightarrow> [h]) @ openedJobs eng hist (c # cs) =
        ((case jobOpen s of None \<Rightarrow> [] | Some h \<Rightarrow> [h]) @ jobGiven eng hist c) @
          openedJobs eng (hist @ [c]) cs"
    by simp
  also have "\<dots> = (case c of CloseJob h \<Rightarrow> [h] | _ \<Rightarrow> []) @
      ((case jobOpen s1 of None \<Rightarrow> [] | Some h \<Rightarrow> [h]) @ openedJobs eng (hist @ [c]) cs)"
    unfolding st(2) by simp
  also have "\<dots> = closedJobs (c # cs) @ (case jobOpen s' of None \<Rightarrow> [] | Some h \<Rightarrow> [h])"
    unfolding ih [THEN conjunct2] by (simp add: closedJobs_def)
  finally have j: "(case jobOpen s of None \<Rightarrow> [] | Some h \<Rightarrow> [h]) @ openedJobs eng hist (c # cs) =
      closedJobs (c # cs) @ (case jobOpen s' of None \<Rightarrow> [] | Some h \<Rightarrow> [h])" .
  from p j show ?case by blast
qed

lemma lifecycle_handles:
  assumes "lifecycleRespected pf eng hist cs"
  shows "closedProjects cs = openedProjects eng hist cs" "closedJobs cs = openedJobs eng hist cs"
  using monitorAll_handles [of pf eng hist allClosed cs allClosed] assms
  by (simp_all add: lifecycleRespected_def allClosed_def)

subsection \<open>The life cycle of handles\<close>

lemma main_handled:
  assumes "main pf eng argv w = Some (Inr (r, w'))"
  shows "\<exists>new. calls w' = calls w @ new \<and> monitorAll pf eng (calls w) allClosed new = Some allClosed"
  using main_cases [OF assms]
proof (elim disjE exE conjE)
  assume "calls w' = calls w"
  then show ?thesis by (intro exI [of _ "[]"]) simp
next
  fix name handler d s u p args
  assume "(name, handler) \<in> set MajorOption"
    "runHandler pf eng handler d s u p args w = Some (Inr (r, w'))"
  from runHandler_handled [OF this] show ?thesis by blast
qed

lemma callsSince_append: "calls w' = calls w @ new \<Longrightarrow> callsSince w w' = new"
  by (simp add: callsSince_def)

lemma hardFailures_failed: "x \<in> set (hardFailures pf eng hist cs) \<Longrightarrow> x \<noteq> DSJE_NOERROR pf"
  by (induction cs arbitrary: hist) (auto simp: failureOf_def split: option.splits if_splits)

text \<open>
  C1. Whenever \<^verbatim>\<open>main\<close> returns (after a usage error, a validation failure in the
  handler, an engine error or success), the calls it made extend those made before,
  and the monitor of the life cycle accepts them from all closed to all closed. So a
  project is closed only while it is the open one and its job is closed, a job only
  while it is the open one and not locked, nothing stays open or locked at the end,
  an unlock only follows a lock that succeeded, and after a lock that failed there is
  neither an unlock nor a call of limits, parameters, run or wait on the job. In
  particular the handles the engine gave out for projects are, in order, exactly the
  handles closed by \<^verbatim>\<open>DSCloseProject\<close>, and likewise for jobs and \<^verbatim>\<open>DSCloseJob\<close>: one close
  for each successful open.
\<close>

theorem handles_closed_and_locks_released:
  assumes "main pf eng argv w = Some (Inr (r, w'))"
  shows "take (length (calls w)) (calls w') = calls w \<and>
         lifecycleRespected pf eng (calls w) (callsSince w w') \<and>
         closedProjects (callsSince w w') = openedProjects eng (calls w) (callsSince w w') \<and>
         closedJobs (callsSince w w') = openedJobs eng (calls w) (callsSince w w')"
proof -
  from main_handled [OF assms] obtain new where new:
    "calls w' = calls w @ new" "monitorAll pf eng (calls w) allClosed new = Some allClosed"
    by blast
  have s: "callsSince w w' = new" using new(1) by (rule callsSince_append)
  have l: "lifecycleRespected pf eng (calls w) new"
    using new(2) by (simp add: lifecycleRespected_def)
  from lifecycle_handles [OF l] l new(1) show ?thesis unfolding s by simp
qed

theorem handles_closed_and_locks_released_witness:
  "main platform0 engine_lockRefused [''dsjob'', ''-run'', ''proj'', ''job''] world0 =
     Some (Inr (- 10,
       \<lparr>calls = [SetServerParams None None None None, OpenProject ''proj'', OpenJob 1 ''job'',
                 LockJob 2, CloseJob 2, CloseProject 1, GetLastErrorMsg],
        printed = [Stderr ''ERROR: Failed to lock job\<newline>'' [],
                   Stderr ''\<newline>Status code = %d\<newline>'' [AInt (- 10)]],
        stdin = []\<rparr>)) \<and>
   lifecycleRespected platform0 engine_lockRefused []
     [SetServerParams None None None None, OpenProject ''proj'', OpenJob 1 ''job'',
      LockJob 2, CloseJob 2, CloseProject 1, GetLastErrorMsg] \<and>
   openedProjects engine_lockRefused []
     [SetServerParams None None None None, OpenProject ''proj'', OpenJob 1 ''job'',
      LockJob 2, CloseJob 2, CloseProject 1, GetLastErrorMsg] = [1] \<and>
   openedJobs engine_lockRefused []
     [SetServerParams None None None None, OpenProject ''proj'', OpenJob 1 ''job'',
      LockJob 2, CloseJob 2, CloseProject 1, GetLastErrorMsg] = [2]"
proof -
  let ?cs = "[SetServerParams None None None None, OpenProject ''proj'', OpenJob 1 ''job'',
              LockJob 2, CloseJob 2, CloseProject 1, GetLastErrorMsg]"
  let ?W = "\<lparr>calls = ?cs,
             printed = [Stderr ''ERROR: Failed to lock job\<newline>'' [],
                        Stderr ''\<newline>Status code = %d\<newline>'' [AInt (- 10)]],
             stdin = []\<rparr>"
  have h: "(''run'', jobRun) \<in> set MajorOption" by (simp add: MajorOption_def)
  have "main platform0 engine_lockRefused
          (''dsjob'' # globalTokens None None None None @ (CHR ''-'' # ''run'') # [''proj'', ''job''])
          world0 =
        runHandler platform0 engine_lockRefused jobRun None None None None [''proj'', ''job''] world0"
    by (rule main_dispatches [OF h])
  also have "\<dots> = Some (Inr (- 10, ?W))"
    by (simp add: runHandler_def jobRun_def isOption_def runargs0_def inProjectJob_def
          runLocked_def doOpenProject_def doOpenJob_def doLockJob_def doCloseJob_def
          doCloseProject_def doGetLastErrorMsg_def complain_def returns_def docall_def
          eprintf_def engine_lockRefused_def engine0_def platform0_def world0_def
          MAX_PARAMS_def)
  finally have run: "main platform0 engine_lockRefused [''dsjob'', ''-run'', ''proj'', ''job'']
      world0 = Some (Inr (- 10, ?W))"
    by (simp add: globalTokens_def flagTokens_def)
  have c: "callsSince world0 ?W = ?cs" by (simp add: callsSince_def world0_def)
  have w0: "calls world0 = []" by (simp add: world0_def)
  have cp: "closedProjects ?cs = [1]" by (simp add: closedProjects_def)
  have cj: "closedJobs ?cs = [2]" by (simp add: closedJobs_def)
  from handles_closed_and_locks_released [OF run]
  have "lifecycleRespected platform0 engine_lockRefused [] ?cs"
    "closedProjects ?cs = openedProjects engine_lockRefused [] ?cs"
    "closedJobs ?cs = openedJobs engine_lockRefused [] ?cs"
    unfolding c w0 by blast+
  with run cp cj show ?thesis by simp
qed

subsection \<open>Messages on standard error\<close>

lemma extends_refl [simp]: "extends xs xs"
  by (simp add: extends_def)

lemma extends_append [simp]: "extends xs ys \<Longrightarrow> extends xs (ys @ zs)"
  by (auto simp: extends_def dest: arg_cong [where f = length])

lemma extends_iff: "extends xs ys \<longleftrightarrow> (\<exists>zs. ys = xs @ zs)"
proof
  assume "extends xs ys"
  then have "ys = xs @ drop (length xs) ys"
    unfolding extends_def by (metis append_take_drop_id)
  then show "\<exists>zs. ys = xs @ zs" ..
next
  assume "\<exists>zs. ys = xs @ zs"
  then show "extends xs ys" by (auto simp: extends_def)
qed

lemma extends_length: "extends xs ys \<Longrightarrow> length xs \<le> length ys"
  by (auto simp: extends_iff)

lemma extends_trans: "extends xs ys \<Longrightarrow> extends ys zs \<Longrightarrow> extends xs zs"
  by (auto simp: extends_iff)

lemma stderrOf_simps [simp]:
  "stderrOf (docall c w) = stderrOf w"
  "stderrOf (printf f a w) = stderrOf w"
  "stderrOf (eprintf f a w) = stderrOf w @ [Stderr f a]"
  "stderrOf (w\<lparr>stdin := i\<rparr>) = stderrOf w"
  by (simp_all add: stderrOf_def isStderr_def)

lemma stderrOf_indent_by [simp]: "stderrOf (indent_by n w) = stderrOf w"
  by (induction n arbitrary: w) (simp_all add: putchar_def)

lemma stderrOf_printStrList [simp]: "stderrOf (printStrList n strs w) = stderrOf w"
  by (induction strs arbitrary: w) simp_all

lemma stderrOf_printLogDetail [simp]: "stderrOf (printLogDetail n d w) = stderrOf w"
  by (simp add: printLogDetail_def Let_def if_distrib [where f = stderrOf])

lemma stderrOf_printValue [simp]: "stderrOf (printValue p w) = stderrOf w"
  by (simp add: printValue_def split: paramtype.splits paramvalue.splits)

lemma stderrOf_printParamInfo [simp]: "stderrOf (printParamInfo i w) = stderrOf w"
  by (simp add: printParamInfo_def Let_def if_distrib [where f = stderrOf])

lemma stderrOf_printLogEvent [simp]: "stderrOf (printLogEvent e w) = stderrOf w"
  by (simp add: printLogEvent_def)

lemma loud_same: "stderrOf w' = stderrOf w \<Longrightarrow> r = DSJE_NOERROR pf \<Longrightarrow> loud pf w r w'"
  by (simp add: loud_def)

lemma loud_error: "stderrOf w' = stderrOf w @ x # xs \<Longrightarrow> loud pf w r w'"
  by (simp add: loud_def)

lemma loud_from:
  "stderrOf w1 = stderrOf w \<Longrightarrow> loud pf w1 r w2 \<Longrightarrow> stderrOf w' = stderrOf w2 \<Longrightarrow> loud pf w r w'"
  by (simp add: loud_def)

lemma inProjectJob_loud:
  assumes ret: "inProjectJob eng p j body w = Some (Inr (r, w'))"
    and body: "\<And>hj wb0 wb. body hj wb0 = Some (Inr (r, wb)) \<Longrightarrow> loud pf wb0 r wb"
  shows "loud pf w r w'"
proof (cases "DSOpenProject eng (calls w) p")
  case None
  with ret show ?thesis
    by (auto simp: inProjectJob_def doOpenProject_def doGetLastError_def returns_def
          intro!: loud_error)
next
  case (Some hp)
  show ?thesis
  proof (cases "DSOpenJob eng (calls w @ [OpenProject p]) hp j")
    case None
    with ret Some show ?thesis
      by (auto simp: inProjectJob_def doOpenProject_def doOpenJob_def doGetLastError_def
            doCloseProject_def returns_def intro!: loud_error)
  next
    case (Some hj)
    let ?w2 = "docall (OpenJob hp j) (docall (OpenProject p) w)"
    from ret Some \<open>DSOpenProject eng (calls w) p = Some hp\<close>
    obtain wb where wb: "body hj ?w2 = Some (Inr (r, wb))"
      "w' = doCloseProject hp (doCloseJob hj wb)"
      by (auto simp: inProjectJob_def doOpenProject_def doOpenJob_def returns_def
            split: option.splits sum.splits)
    from body [OF wb(1)] show ?thesis
      by (rule loud_from [rotated]) (simp_all add: wb(2) doCloseProject_def doCloseJob_def)
  qed
qed

lemma body_loud:
  assumes "inProjectJob eng p j (\<lambda>hJob w2. returns (body hJob w2)) w = Some (Inr (r, w'))"
    and "\<And>hj wb0 wb. body hj wb0 = (r, wb) \<Longrightarrow> loud pf wb0 r wb"
  shows "loud pf w r w'"
  using assms(1) by (rule inProjectJob_loud) (auto simp: returns_def intro: assms(2))

lemma guarded_loud:
  assumes "(if bad then returns (e, wu)
            else inProjectJob eng p j (\<lambda>hJob w2. returns (body hJob w2)) w) = Some (Inr (r, w'))"
    and "\<exists>x xs. stderrOf wu = stderrOf w @ x # xs"
    and "\<And>hj wb0 wb. body hj wb0 = (r, wb) \<Longrightarrow> loud pf wb0 r wb"
  shows "loud pf w r w'"
proof (cases bad)
  case True
  with assms(1,2) show ?thesis by (auto simp: returns_def intro: loud_error)
next
  case False
  with assms(1) show ?thesis by (auto intro: body_loud assms(3))
qed

lemma stopBody_loud: "stopBody pf eng hj w = (r, w') \<Longrightarrow> loud pf w r w'"
  by (auto simp: stopBody_def complain_def doStopJob_def loud_def split: if_splits)

lemma jobStop_loud: "jobStop pf eng args w = Some (Inr (r, w')) \<Longrightarrow> loud pf w r w'"
  unfolding jobStop_def by (erule guarded_loud) (simp, erule stopBody_loud)

lemma lstagesBody_loud: "lstagesBody pf eng hj w = (r, w') \<Longrightarrow> loud pf w r w'"
  by (auto simp: lstagesBody_def doGetJobInfo_def loud_def split_beta split: if_splits)

lemma jobLStages_loud: "jobLStages pf eng args w = Some (Inr (r, w')) \<Longrightarrow> loud pf w r w'"
  unfolding jobLStages_def by (erule guarded_loud) (simp, erule lstagesBody_loud)

lemma llinksBody_loud: "llinksBody pf eng st hj w = (r, w') \<Longrightarrow> loud pf w r w'"
  by (auto simp: llinksBody_def doGetStageInfo_def loud_def split_beta Let_def split: if_splits)

lemma jobLLinks_loud: "jobLLinks pf eng args w = Some (Inr (r, w')) \<Longrightarrow> loud pf w r w'"
  unfolding jobLLinks_def by (erule guarded_loud) (simp, erule llinksBody_loud)

lemma lparamsBody_loud: "lparamsBody pf eng hj w = (r, w') \<Longrightarrow> loud pf w r w'"
  by (auto simp: lparamsBody_def doGetJobInfo_def loud_def split_beta split: if_splits)

lemma jobLParams_loud: "jobLParams pf eng args w = Some (Inr (r, w')) \<Longrightarrow> loud pf w r w'"
  unfolding jobLParams_def by (erule guarded_loud) (simp, erule lparamsBody_loud)

lemma paramInfoBody_loud: "paramInfoBody pf eng n hj w = (r, w') \<Longrightarrow> loud pf w r w'"
  by (auto simp: paramInfoBody_def doGetParamInfo_def loud_def split_beta split: if_splits)

lemma jobParamInfo_loud: "jobParamInfo pf eng args w = Some (Inr (r, w')) \<Longrightarrow> loud pf w r w'"
  unfolding jobParamInfo_def by (erule guarded_loud) (simp, erule paramInfoBody_loud)

lemma logDetailBody_loud: "logDetailBody pf eng i hj w = (r, w') \<Longrightarrow> loud pf w r w'"
  by (auto simp: logDetailBody_def doGetLogEntry_def loud_def split_beta split: if_splits)

lemma jobLogDetail_loud: "jobLogDetail pf eng args w = Some (Inr (r, w')) \<Longrightarrow> loud pf w r w'"
  unfolding jobLogDetail_def by (erule guarded_loud) (simp, erule logDetailBody_loud)

lemma logNewestBody_loud: "logNewestBody pf eng ty hj w = (r, w') \<Longrightarrow> loud pf w r w'"
  by (auto simp: logNewestBody_def doGetNewestLogId_def doGetLastError_def loud_def split_beta
        split: if_splits)

lemma logNewestUsage_stderr: "\<exists>x xs. stderrOf (logNewestUsage w) = stderrOf w @ x # xs"
  by (simp add: logNewestUsage_def)

lemma jobLogNewest_loud:
  "jobLogNewest pf eng args w = Some (Inr (r, w')) \<Longrightarrow> loud pf w r w'"
proof (cases "length args < 2 \<or> 3 < length args")
  case True
  assume "jobLogNewest pf eng args w = Some (Inr (r, w'))"
  with True logNewestUsage_stderr [of w] show ?thesis
    by (auto simp: jobLogNewest_def returns_def intro: loud_error)
next
  case False
  assume a: "jobLogNewest pf eng args w = Some (Inr (r, w'))"
  show ?thesis
  proof (cases "if length args = 3 then logTypeArg (args ! 2) else Some DSJ_LOGANY")
    case None
    with a False logNewestUsage_stderr [of w] show ?thesis
      by (auto simp: jobLogNewest_def returns_def intro: loud_error)
  next
    case (Some ty)
    with a False have "inProjectJob eng (args ! 0) (args ! 1)
        (\<lambda>hJob w2. returns (logNewestBody pf eng ty hJob w2)) w = Some (Inr (r, w'))"
      by (simp add: jobLogNewest_def)
    then show ?thesis by (rule body_loud) (erule logNewestBody_loud)
  qed
qed

lemma logBody_loud: "logBody pf eng ty hj w = (r, w') \<Longrightarrow> loud pf w r w'"
  by (auto simp: logBody_def complain_def doLogEvent_def loud_def split_beta Let_def
        split: if_splits)

lemma jobLog_loud: "jobLog pf eng args w = Some (Inr (r, w')) \<Longrightarrow> loud pf w r w'"
proof -
  assume a: "jobLog pf eng args w = Some (Inr (r, w'))"
  obtain ty bad rest where o: "logOptions (DSJ_LOGINFO, False) args = ((ty, bad), rest)"
    by (metis surj_pair)
  from a have "(if bad \<or> length rest \<noteq> 2 then returns (DSJE_DSJOB_ERROR, logUsage w)
      else inProjectJob eng (rest ! 0) (rest ! 1)
             (\<lambda>hJob w2. returns (logBody pf eng ty hJob w2)) w) = Some (Inr (r, w'))"
    by (simp add: jobLog_def o)
  then show ?thesis by (rule guarded_loud) (simp add: logUsage_def, erule logBody_loud)
qed

lemma stderrOf_show [simp]:
  "stderrOf (showJobStatus pf s i w) =
     stderrOf w @ (if s \<noteq> DSJE_NOERROR pf
                   then [Stderr ''Error %d getting job status\<newline>'' [AInt s]] else [])"
  "stderrOf (showJobController pf s i w) =
     stderrOf w @ (if s \<noteq> DSJE_NOT_AVAILABLE pf \<and> s \<noteq> DSJE_NOERROR pf
                   then [Stderr ''Error %d getting job controller\<newline>'' [AInt s]] else [])"
  "stderrOf (showJobStartTime pf s i w) =
     stderrOf w @ (if s \<noteq> DSJE_NOT_AVAILABLE pf \<and> s \<noteq> DSJE_NOERROR pf
                   then [Stderr ''Error %d getting job start time\<newline>'' [AInt s]] else [])"
  "stderrOf (showJobWaveNumber pf s i w) =
     stderrOf w @ (if s \<noteq> DSJE_NOERROR pf
                   then [Stderr ''Error %d getting job wave number\<newline>'' [AInt s]] else [])"
  "stderrOf (showUserStatus pf s i w) =
     stderrOf w @ (if s \<noteq> DSJE_NOT_AVAILABLE pf \<and> s \<noteq> DSJE_NOERROR pf
                   then [Stderr ''Error %d getting job user status\<newline>'' [AInt s]] else [])"
  "stderrOf (showStageType pf s j w) =
     stderrOf w @ (if s \<noteq> DSJE_NOERROR pf
                   then [Stderr ''Error %d getting stage type\<newline>'' [AInt s]] else [])"
  "stderrOf (showInRowNum pf s j w) =
     stderrOf w @ (if s \<noteq> DSJE_NOERROR pf
                   then [Stderr ''Error %d getting stage row number\<newline>'' [AInt s]] else [])"
  "stderrOf (showStageLastError pf s j w) =
     stderrOf w @ (if s \<noteq> DSJE_NOT_AVAILABLE pf \<and> s \<noteq> DSJE_NOERROR pf
                   then [Stderr ''Error %d getting stage last error\<newline>'' [AInt s]] else [])"
  "stderrOf (showLinkRowCount pf s k w) =
     stderrOf w @ (if s \<noteq> DSJE_NOERROR pf
                   then [Stderr ''Error %d getting link row count\<newline>'' [AInt s]] else [])"
  by (simp_all add: showJobStatus_def showJobController_def showJobStartTime_def
        showJobWaveNumber_def showUserStatus_def showStageType_def showInRowNum_def
        showStageLastError_def showLinkRowCount_def)

lemma extends_if [simp]: "extends xs ys \<Longrightarrow> extends xs (ys @ (if b then zs else []))"
  by simp

lemma jobInfoBody_loud:
  assumes "jobInfoBody pf eng hj w = (r, w')"
  shows "loud pf w r w'"
proof -
  have "loud pf w (fst (jobInfoBody pf eng hj w)) (snd (jobInfoBody pf eng hj w))"
    unfolding loud_def
    by (simp add: jobInfoBody_def Let_def split_beta doGetJobInfo_def del: append_assoc
          add: append_assoc [symmetric])
  with assms show ?thesis by simp
qed

lemma jobJobInfo_loud: "jobJobInfo pf eng args w = Some (Inr (r, w')) \<Longrightarrow> loud pf w r w'"
  unfolding jobJobInfo_def by (erule guarded_loud) (simp, erule jobInfoBody_loud)

lemma stageInfoBody_loud:
  assumes "stageInfoBody pf eng st hj w = (r, w')"
  shows "loud pf w r w'"
proof -
  have "loud pf w (fst (stageInfoBody pf eng st hj w)) (snd (stageInfoBody pf eng st hj w))"
    unfolding loud_def
    by (simp add: stageInfoBody_def Let_def split_beta doGetStageInfo_def del: append_assoc
          add: append_assoc [symmetric])
  with assms show ?thesis by simp
qed

lemma jobStageInfo_loud: "jobStageInfo pf eng args w = Some (Inr (r, w')) \<Longrightarrow> loud pf w r w'"
  unfolding jobStageInfo_def by (erule guarded_loud) (simp, erule stageInfoBody_loud)

lemma linkInfoBody_loud:
  assumes "linkInfoBody pf eng st lk hj w = (r, w')"
  shows "loud pf w r w'"
proof -
  have "loud pf w (fst (linkInfoBody pf eng st lk hj w)) (snd (linkInfoBody pf eng st lk hj w))"
    unfolding loud_def
    by (simp add: linkInfoBody_def Let_def split_beta doGetLinkInfo_def del: append_assoc
          add: append_assoc [symmetric])
  with assms show ?thesis by simp
qed

lemma jobLinkInfo_loud: "jobLinkInfo pf eng args w = Some (Inr (r, w')) \<Longrightarrow> loud pf w r w'"
  unfolding jobLinkInfo_def by (erule guarded_loud) (simp, erule linkInfoBody_loud)

lemma logLoop_stderr:
  assumes "logLoop pf eng hJob s e w = Some y"
  shows "stderrOf (snd y) = stderrOf w"
proof (rule logLoop.raw_induct
    [where P = "\<lambda>pf eng hJob s e w y. stderrOf (snd y) = stderrOf w", OF _ assms], goal_cases)
  case (1 f pf eng hJob s e w y)
  show ?case
  proof (cases "s = DSJE_NOERROR pf")
    case True
    with 1(2) have "f pf eng hJob (fst (DSFindNextLogEntry eng (calls w) hJob))
        (snd (DSFindNextLogEntry eng (calls w) hJob))
        (docall (FindNextLogEntry hJob) (printLogEvent e w)) = Some y"
      by (simp add: doFindNextLogEntry_def)
    from 1(1) [OF this] show ?thesis by simp
  next
    case False
    with 1(2) show ?thesis by auto
  qed
qed

lemma logSumBody_loud:
  assumes "logSumBody pf eng st hj w = Some (Inr (r, w'))"
  shows "loud pf w r w'"
proof -
  let ?ff = "FindFirstLogEntry hj (lsType st) 0 0 (maxNumber st)"
  let ?s0 = "fst (DSFindFirstLogEntry eng (calls w) hj (lsType st) 0 0 (maxNumber st))"
  let ?e0 = "snd (DSFindFirstLogEntry eng (calls w) hj (lsType st) 0 0 (maxNumber st))"
  from assms obtain s1 w1 where
    loop: "logLoop pf eng hj ?s0 ?e0 (docall ?ff w) = Some (s1, w1)"
    and r: "if s1 = DSJE_NOMORE pf then r = DSJE_NOERROR pf \<and> w' = w1
            else r = s1 \<and> w' = eprintf ''Error %d getting log summary\<newline>'' [AInt s1] w1"
    by (auto simp: logSumBody_def doFindFirstLogEntry_def returns_def split_beta
          split: option.splits if_splits)
  from logLoop_stderr [OF loop] have "stderrOf w1 = stderrOf w" by simp
  with r show ?thesis by (auto simp: loud_def split: if_splits)
qed

lemma jobLogSum_loud:
  assumes "jobLogSum pf eng args w = Some (Inr (r, w'))"
  shows "loud pf w r w'"
proof -
  obtain st rest where o:
    "logSumOptions pf \<lparr>lsType = DSJ_LOGANY, maxNumber = 0, lsBad = False\<rparr> args = (st, rest)"
    by (metis surj_pair)
  show ?thesis
  proof (cases "lsBad st \<or> length rest \<noteq> 2")
    case True
    with assms o have "w' = logSumUsage w" by (auto simp: jobLogSum_def returns_def)
    then show ?thesis by (auto simp: logSumUsage_def intro: loud_error)
  next
    case False
    with assms o have "inProjectJob eng (rest ! 0) (rest ! 1) (logSumBody pf eng st) w =
        Some (Inr (r, w'))"
      by (simp add: jobLogSum_def)
    then show ?thesis by (rule inProjectJob_loud) (rule logSumBody_loud)
  qed
qed

lemma complain_loud:
  assumes "extends (stderrOf w0) (stderrOf w)" and "stderrOf w1 = stderrOf w"
  shows "loud pf w0 s (snd (complain pf msg (s, w1)))"
  using assms extends_length [OF assms(1)] by (auto simp: loud_def complain_def)

lemma setParam_loud:
  assumes "setParam pf eng hJob p w = Inr (s', w')" and "extends (stderrOf w0) (stderrOf w)"
  shows "loud pf w0 s' w'"
  using assms extends_length [OF assms(2)]
  by (auto simp: setParam_def Let_def doGetParamInfo_def doSetParam_def loud_def split_beta
        split: if_splits)

lemma setParams_loud:
  "setParams pf eng hJob ps (s, w) = Inr (s', w') \<Longrightarrow> loud pf w0 s w \<Longrightarrow> loud pf w0 s' w'"
proof (induction ps arbitrary: s w)
  case Nil
  then show ?case by simp
next
  case (Cons p ps)
  show ?case
  proof (cases "s = DSJE_NOERROR pf")
    case False
    with Cons.prems show ?thesis by simp
  next
    case True
    with Cons.prems(1) obtain s1 w1 where one: "setParam pf eng hJob p w = Inr (s1, w1)"
      and rest: "setParams pf eng hJob ps (s1, w1) = Inr (s', w')"
      by (auto split: sum.splits)
    from Cons.prems(2) have "extends (stderrOf w0) (stderrOf w)" by (simp add: loud_def)
    from Cons.IH [OF rest setParam_loud [OF one this]] show ?thesis .
  qed
qed

lemma runLocked_loud:
  assumes ret: "runLocked pf eng st hJob w = Some (Inr (r, w'))"
  shows "loud pf w r w'"
proof (cases "DSLockJob eng (calls w) hJob \<noteq> DSJE_NOERROR pf")
  case True
  with ret show ?thesis
    by (auto simp: runLocked_def doLockJob_def returns_def intro: loud_error)
next
  case False
  define w1 where "w1 = docall (LockJob hJob) w"
  define sw2 where "sw2 =
     (if 0 \<le> warningLimit st
      then complain pf ''Error setting warning limit\<newline>''
             (doSetJobLimit eng hJob DSJ_LIMITWARN (warningLimit st) w1)
      else (DSJE_NOERROR pf, w1))"
  define sw3 where "sw3 =
     (if rowLimit st \<noteq> 0 \<and> fst sw2 = DSJE_NOERROR pf
      then complain pf ''Error setting row limit\<newline>''
             (doSetJobLimit eng hJob DSJ_LIMITROWS (rowLimit st) (snd sw2))
      else sw2)"
  have e1: "extends (stderrOf w) (stderrOf w1)" by (simp add: w1_def)
  have l2: "loud pf w (fst sw2) (snd sw2)"
  proof (cases "0 \<le> warningLimit st")
    case True
    with e1 show ?thesis
      unfolding sw2_def by (auto simp: doSetJobLimit_def intro!: complain_loud)
  next
    case False
    then show ?thesis by (simp add: sw2_def w1_def loud_same)
  qed
  have l3: "loud pf w (fst sw3) (snd sw3)"
  proof (cases "rowLimit st \<noteq> 0 \<and> fst sw2 = DSJE_NOERROR pf")
    case True
    from l2 have "extends (stderrOf w) (stderrOf (snd sw2))" by (simp add: loud_def)
    with True show ?thesis
      unfolding sw3_def by (auto simp: doSetJobLimit_def intro!: complain_loud)
  next
    case False
    then have "sw3 = sw2" by (auto simp: sw3_def)
    with l2 show ?thesis by simp
  qed
  show ?thesis
  proof (cases "setParams pf eng hJob (take (nParams st) (param st)) sw3")
    case (Inl f)
    with False have "runLocked pf eng st hJob w = Some (Inl f)"
      unfolding sw3_def sw2_def w1_def runLocked_def doLockJob_def
      by (auto simp: Let_def split_beta)
    with ret show ?thesis by simp
  next
    case (Inr sw4)
    obtain s4 w4 where sw4: "sw4 = (s4, w4)" by (cases sw4)
    from Inr have "setParams pf eng hJob (take (nParams st) (param st)) (fst sw3, snd sw3) =
        Inr (s4, w4)"
      by (simp add: sw4)
    from setParams_loud [OF this l3] have l4: "loud pf w s4 w4" .
    define sw5 where "sw5 =
       (if s4 = DSJE_NOERROR pf
        then complain pf ''Error running job\<newline>'' (doRunJob eng hJob (mode st) w4)
        else (s4, w4))"
    define sw6 where "sw6 =
       (if fst sw5 = DSJE_NOERROR pf \<and> waitForJob st
        then complain pf ''Error waiting for job\<newline>''
               (doWaitForJob eng hJob (printf ''Waiting for job...\<newline>'' [] (snd sw5)))
        else sw5)"
    have l5: "loud pf w (fst sw5) (snd sw5)"
    proof (cases "s4 = DSJE_NOERROR pf")
      case True
      from l4 have "extends (stderrOf w) (stderrOf w4)" by (simp add: loud_def)
      with True show ?thesis
        unfolding sw5_def by (auto simp: doRunJob_def intro!: complain_loud)
    next
      case False
      with l4 show ?thesis by (simp add: sw5_def)
    qed
    have l6: "loud pf w (fst sw6) (snd sw6)"
    proof (cases "fst sw5 = DSJE_NOERROR pf \<and> waitForJob st")
      case True
      from l5 have "extends (stderrOf w) (stderrOf (snd sw5))" by (simp add: loud_def)
      with True show ?thesis
        unfolding sw6_def by (auto simp: doWaitForJob_def intro!: complain_loud)
    next
      case False
      then have "sw6 = sw5" by (auto simp: sw6_def)
      with l5 show ?thesis by simp
    qed
    have res: "runLocked pf eng st hJob w = returns (fst sw6, doUnlockJob hJob (snd sw6))"
      using False Inr sw4
      unfolding sw6_def sw5_def sw3_def sw2_def w1_def runLocked_def doLockJob_def
      by (auto simp: Let_def split_beta)
    with ret have "r = fst sw6" "w' = doUnlockJob hJob (snd sw6)"
      by (simp_all add: returns_def)
    with l6 show ?thesis by (simp add: loud_def doUnlockJob_def)
  qed
qed

lemma jobRun_loud:
  assumes "jobRun pf eng args w = Some (Inr (r, w'))"
  shows "loud pf w r w'"
proof (cases "runOptions pf runargs0 args")
  case (Inl f)
  with assms show ?thesis by (simp add: jobRun_def)
next
  case (Inr x)
  obtain st rest where x: "x = (st, rest)" by (cases x)
  show ?thesis
  proof (cases "badOptions st \<or> length rest \<noteq> 2")
    case True
    with assms Inr x have "w' = runUsage w" by (auto simp: jobRun_def returns_def)
    then show ?thesis by (auto simp: runUsage_def intro: loud_error)
  next
    case False
    with assms Inr x have "inProjectJob eng (rest ! 0) (rest ! 1) (runLocked pf eng st) w =
        Some (Inr (r, w'))"
      by (simp add: jobRun_def)
    then show ?thesis by (rule inProjectJob_loud) (rule runLocked_loud)
  qed
qed

lemma jobLProjects_stderr:
  "jobLProjects pf eng args w = Some (Inr (r, w')) \<Longrightarrow> extends (stderrOf w) (stderrOf w')"
  by (auto simp: jobLProjects_def returns_def doGetProjectList_def doGetLastError_def
        split: if_splits option.splits)

lemma jobLJobs_stderr:
  "jobLJobs pf eng args w = Some (Inr (r, w')) \<Longrightarrow> extends (stderrOf w) (stderrOf w')"
  by (auto simp: jobLJobs_def returns_def doOpenProject_def doGetProjectInfo_def
        doGetLastError_def doCloseProject_def split_beta split: if_splits option.splits)

lemma table_loud_all:
  "list_all (\<lambda>entry. \<forall>pf eng args w r w'.
       snd entry pf eng args w = Some (Inr (r, w')) \<longrightarrow>
       extends (stderrOf w) (stderrOf w') \<and>
       (fst entry \<notin> set quietCommands \<longrightarrow> loud pf w r w')) MajorOption"
  unfolding MajorOption_def quietCommands_def
  by (simp add: jobLProjects_stderr jobLJobs_stderr)
     (auto simp: loud_def dest: jobRun_loud jobStop_loud jobLStages_loud jobLLinks_loud
        jobJobInfo_loud jobStageInfo_loud jobLinkInfo_loud jobLParams_loud jobParamInfo_loud
        jobLog_loud jobLogSum_loud jobLogDetail_loud jobLogNewest_loud)

lemma table_loud:
  assumes "(name, handler) \<in> set MajorOption"
    and "handler pf eng args w = Some (Inr (r, w'))"
  shows "extends (stderrOf w) (stderrOf w')"
    and "name \<notin> set quietCommands \<Longrightarrow> loud pf w r w'"
  using table_loud_all assms unfolding list_all_iff by fastforce+

subsection \<open>Engine statuses and the result\<close>

lemma runHandler_stderr:
  assumes "runHandler pf eng handler d s u p args w = Some (Inr (r, w'))"
  shows "\<exists>w1 post. handler pf eng args (docall (SetServerParams d u p s) w) = Some (Inr (r, w1)) \<and>
           stderrOf w' = stderrOf w1 @
             (if r \<noteq> DSJE_NOERROR pf
              then [Stderr ''\<newline>Status code = %d\<newline>'' [AInt r]] else []) @ post"
proof -
  from runHandler_cases [OF assms] obtain w1 where
    w1: "handler pf eng args (docall (SetServerParams d u p s) w) = Some (Inr (r, w1))"
    by blast
  from runHandler_result [of handler pf eng args d u p s w r w1, OF w1] assms
  have "printed w' = printed w1 @
             (if r \<noteq> DSJE_NOERROR pf
              then [Stderr ''\<newline>Status code = %d\<newline>'' [AInt r]] else []) @
             (case DSGetLastErrorMsg eng (calls w1) of
                None \<Rightarrow> []
              | Some errText \<Rightarrow>
                  Stderr ''\<newline>Last recorded error message =\<newline>'' [] #
                  map (\<lambda>s. Stdout ''%s\<newline>'' [AStr s]) (takeWhile (\<lambda>s. s \<noteq> []) errText) @
                  [Stderr ''\<newline>'' []])"
    by auto
  then have "stderrOf w' = stderrOf w1 @
             (if r \<noteq> DSJE_NOERROR pf
              then [Stderr ''\<newline>Status code = %d\<newline>'' [AInt r]] else []) @
             filter isStderr (case DSGetLastErrorMsg eng (calls w1) of
                None \<Rightarrow> []
              | Some errText \<Rightarrow>
                  Stderr ''\<newline>Last recorded error message =\<newline>'' [] #
                  map (\<lambda>s. Stdout ''%s\<newline>'' [AStr s]) (takeWhile (\<lambda>s. s \<noteq> []) errText) @
                  [Stderr ''\<newline>'' []])"
    by (simp add: stderrOf_def isStderr_def)
  with w1 show ?thesis by blast
qed

text \<open>
  The sub-commands other than \<^verbatim>\<open>-jobinfo\<close>, \<^verbatim>\<open>-stageinfo\<close> and \<^verbatim>\<open>-linkinfo\<close> keep a failure: when
  one of them is run and \<^verbatim>\<open>main\<close> returns \<open>r\<close>, every status received from the engine that
  is neither success nor soft ("not available" from the queries answered with \<^verbatim>\<open><none>\<close>,
  "no more" from the log cursor) is \<open>r\<close>, so that \<open>r\<close> is not success when there is one; \<open>r\<close>
  is the last status received, a soft one counting as success; and when \<open>r\<close> is not
  success, \<^verbatim>\<open>main\<close> has written \<^verbatim>\<open>Status code = r\<close> to standard error, after at least one
  message that the handler wrote there, unless the sub-command is \<^verbatim>\<open>-lprojects\<close> or
  \<^verbatim>\<open>-ljobs\<close>.
\<close>

lemma other_commands_propagate:
  assumes "(name, handler) \<in> set MajorOption" and other: "name \<notin> set infoCommands"
    and "main pf eng (prog # globalTokens d s u p @ (CHR ''-'' # name) # args) w =
           Some (Inr (r, w'))"
  shows "take (length (calls w)) (calls w') = calls w \<and>
         owedResult pf (lastStatus eng (calls w) (callsSince w w')) r \<and>
         list_all (\<lambda>x. x = r) (hardFailures pf eng (calls w) (callsSince w w')) \<and>
         (hardFailures pf eng (calls w) (callsSince w w') \<noteq> [] \<longrightarrow> r \<noteq> DSJE_NOERROR pf) \<and>
         (r \<noteq> DSJE_NOERROR pf \<longrightarrow>
            (\<exists>pre post.
               stderrOf w' =
                 stderrOf w @ pre @ Stderr ''\<newline>Status code = %d\<newline>'' [AInt r] # post \<and>
               (name \<notin> set quietCommands \<longrightarrow> pre \<noteq> [])))"
proof -
  from assms(3) have run: "runHandler pf eng handler d s u p args w = Some (Inr (r, w'))"
    by (simp add: main_dispatches [OF assms(1)])
  have said: "\<exists>pre post.
      stderrOf w' = stderrOf w @ pre @ Stderr ''\<newline>Status code = %d\<newline>'' [AInt r] # post \<and>
      (name \<notin> set quietCommands \<longrightarrow> pre \<noteq> [])"
    if fail: "r \<noteq> DSJE_NOERROR pf"
  proof -
    let ?w0 = "docall (SetServerParams d u p s) w"
    from runHandler_stderr [OF run] fail obtain w1 post where w1:
      "handler pf eng args ?w0 = Some (Inr (r, w1))"
      "stderrOf w' = stderrOf w1 @ Stderr ''\<newline>Status code = %d\<newline>'' [AInt r] # post"
      by auto
    from table_loud(1) [OF assms(1) w1(1)] obtain pre where
      pre: "stderrOf w1 = stderrOf w @ pre"
      by (auto simp: extends_iff)
    have "pre \<noteq> []" if "name \<notin> set quietCommands"
      using table_loud(2) [OF assms(1) w1(1) that] fail pre by (auto simp: loud_def)
    with w1(2) pre show ?thesis by auto
  qed
  from runHandler_handled [OF assms(1) run] obtain new where new:
    "calls w' = calls w @ new"
    "owedResult pf (lastStatus eng (calls w) new) r"
    "name \<notin> set infoCommands \<longrightarrow> list_all (\<lambda>x. x = r) (hardFailures pf eng (calls w) new)"
    "r \<noteq> DSJE_NOERROR pf \<longrightarrow> Stderr ''\<newline>Status code = %d\<newline>'' [AInt r] \<in> set (printed w')"
    by blast
  have s: "callsSince w w' = new" using new(1) by (rule callsSince_append)
  have ne: "hardFailures pf eng (calls w) new \<noteq> [] \<longrightarrow> r \<noteq> DSJE_NOERROR pf"
    if "list_all (\<lambda>x. x = r) (hardFailures pf eng (calls w) new)"
  proof
    assume "hardFailures pf eng (calls w) new \<noteq> []"
    then obtain x where x: "x \<in> set (hardFailures pf eng (calls w) new)"
      by (cases "hardFailures pf eng (calls w) new") auto
    with that have "x = r" by (simp add: list_all_iff)
    with hardFailures_failed [OF x] show "r \<noteq> DSJE_NOERROR pf" by simp
  qed
  show ?thesis unfolding s using new(1,2,3) ne said other by simp
qed

lemma other_commands_propagate_example:
  "main platform0 engine_stopFails [''dsjob'', ''-stop'', ''proj'', ''job''] world0 =
     Some (Inr (- 2,
       \<lparr>calls = [SetServerParams None None None None, OpenProject ''proj'', OpenJob 1 ''job'',
                 StopJob 2, CloseJob 2, CloseProject 1, GetLastErrorMsg],
        printed = [Stderr ''Error stopping job\<newline>'' [],
                   Stderr ''\<newline>Status code = %d\<newline>'' [AInt (- 2)],
                   Stderr ''\<newline>Last recorded error message =\<newline>'' [],
                   Stdout ''%s\<newline>'' [AStr ''job is not running''],
                   Stderr ''\<newline>'' []],
        stdin = []\<rparr>)) \<and>
   hardFailures platform0 engine_stopFails []
     [SetServerParams None None None None, OpenProject ''proj'', OpenJob 1 ''job'',
      StopJob 2, CloseJob 2, CloseProject 1, GetLastErrorMsg] = [- 2] \<and>
   list_all (\<lambda>x. x = - 2)
     (hardFailures platform0 engine_stopFails []
        [SetServerParams None None None None, OpenProject ''proj'', OpenJob 1 ''job'',
         StopJob 2, CloseJob 2, CloseProject 1, GetLastErrorMsg]) \<and>
   owedResult platform0
     (lastStatus engine_stopFails []
        [SetServerParams None None None None, OpenProject ''proj'', OpenJob 1 ''job'',
         StopJob 2, CloseJob 2, CloseProject 1, GetLastErrorMsg]) (- 2) \<and>
   (\<exists>pre post.
      [Stderr ''Error stopping job\<newline>'' [],
       Stderr ''\<newline>Status code = %d\<newline>'' [AInt (- 2)],
       Stderr ''\<newline>Last recorded error message =\<newline>'' [],
       Stderr ''\<newline>'' []] =
        pre @ Stderr ''\<newline>Status code = %d\<newline>'' [AInt (- 2)] # post \<and>
      pre \<noteq> [])"
proof -
  let ?cs = "[SetServerParams None None None None, OpenProject ''proj'', OpenJob 1 ''job'',
              StopJob 2, CloseJob 2, CloseProject 1, GetLastErrorMsg]"
  let ?W = "\<lparr>calls = ?cs,
        printed = [Stderr ''Error stopping job\<newline>'' [],
                   Stderr ''\<newline>Status code = %d\<newline>'' [AInt (- 2)],
                   Stderr ''\<newline>Last recorded error message =\<newline>'' [],
                   Stdout ''%s\<newline>'' [AStr ''job is not running''],
                   Stderr ''\<newline>'' []],
        stdin = []\<rparr>"
  have h: "(''stop'', jobStop) \<in> set MajorOption" by (simp add: MajorOption_def)
  have "main platform0 engine_stopFails
          (''dsjob'' # globalTokens None None None None @ (CHR ''-'' # ''stop'') # [''proj'', ''job''])
          world0 =
        runHandler platform0 engine_stopFails jobStop None None None None [''proj'', ''job''] world0"
    by (rule main_dispatches [OF h])
  also have "\<dots> = Some (Inr (- 2, ?W))"
    by (simp add: runHandler_def jobStop_def stopBody_def inProjectJob_def doOpenProject_def
          doOpenJob_def doStopJob_def doCloseJob_def doCloseProject_def doGetLastErrorMsg_def
          complain_def returns_def docall_def eprintf_def printf_def
          engine_stopFails_def engine0_def platform0_def world0_def)
  finally have run: "main platform0 engine_stopFails
          (''dsjob'' # globalTokens None None None None @ (CHR ''-'' # ''stop'') # [''proj'', ''job''])
          world0 = Some (Inr (- 2, ?W))" .
  have c: "callsSince world0 ?W = ?cs" by (simp add: callsSince_def world0_def)
  have w0: "calls world0 = []" by (simp add: world0_def)
  have n: "''stop'' \<notin> set infoCommands" by (simp add: infoCommands_def)
  have q: "''stop'' \<notin> set quietCommands" by (simp add: quietCommands_def)
  have ne: "- 2 \<noteq> DSJE_NOERROR platform0" by (simp add: platform0_def)
  have e: "stderrOf ?W =
      [Stderr ''Error stopping job\<newline>'' [],
       Stderr ''\<newline>Status code = %d\<newline>'' [AInt (- 2)],
       Stderr ''\<newline>Last recorded error message =\<newline>'' [],
       Stderr ''\<newline>'' []]"
    by (simp add: stderrOf_def isStderr_def)
  have e0: "stderrOf world0 = []" by (simp add: stderrOf_def world0_def)
  have f: "hardFailures platform0 engine_stopFails [] ?cs = [- 2]"
    by (simp add: failureOf_def callStatus_def softStatus_def engine_stopFails_def engine0_def
          platform0_def)
  from other_commands_propagate [OF h n run]
  have "owedResult platform0 (lastStatus engine_stopFails [] ?cs) (- 2)"
    "list_all (\<lambda>x. x = - 2) (hardFailures platform0 engine_stopFails [] ?cs)"
    "\<exists>pre post.
      stderrOf ?W = stderrOf world0 @ pre @
        Stderr ''\<newline>Status code = %d\<newline>'' [AInt (- 2)] # post \<and> pre \<noteq> []"
    unfolding c w0 using q ne by blast+
  with run f show ?thesis
    unfolding e e0 by (simp add: globalTokens_def flagTokens_def)
qed

text \<open>
  C8. \<^verbatim>\<open>jobJobInfo\<close> does not do what the claim says, and what the other handlers do. It
  assigns \<^verbatim>\<open>status\<close> at each of its five queries and returns the last. Here the engine
  answers the job status query with \<open>-1\<close> and the four queries after it with success: the
  failure is written to standard error with its code, then it is overwritten, the
  result of the program is success, and no status line is written. \<^verbatim>\<open>jobStageInfo\<close> and
  \<^verbatim>\<open>jobLinkInfo\<close> are written in the same way.
\<close>

theorem jobinfo_failure_overwritten:
  "main platform0 engine_statusQueryFails [''dsjob'', ''-jobinfo'', ''proj'', ''job''] world0 =
     Some (Inr (0,
       \<lparr>calls = [SetServerParams None None None None, OpenProject ''proj'', OpenJob 1 ''job'',
                 GetJobInfo 2 DSJ_JOBSTATUS, GetJobInfo 2 DSJ_JOBCONTROLLER,
                 GetJobInfo 2 DSJ_JOBSTARTTIMESTAMP, GetJobInfo 2 DSJ_JOBWAVENO,
                 GetJobInfo 2 DSJ_USERSTATUS, CloseJob 2, CloseProject 1, GetLastErrorMsg],
        printed = [Stderr ''Error %d getting job status\<newline>'' [AInt (- 1)],
                   Stdout (''Job Controller'' @ tabs 1 @ '': %s\<newline>'') [AStr []],
                   Stdout (''Job Start Time'' @ tabs 1 @ '': %s'') [ATime 0],
                   Stdout (''Job Wave Number'' @ tabs 1 @ '': %d\<newline>'') [AInt 1],
                   Stdout (''User Status'' @ tabs 1 @ '': %s\<newline>'') [AStr []]],
        stdin = []\<rparr>)) \<and>
   fst (DSGetJobInfo engine_statusQueryFails
          [SetServerParams None None None None, OpenProject ''proj'', OpenJob 1 ''job'']
          2 DSJ_JOBSTATUS) = - 1 \<and>
   hardFailures platform0 engine_statusQueryFails []
     [SetServerParams None None None None, OpenProject ''proj'', OpenJob 1 ''job'',
      GetJobInfo 2 DSJ_JOBSTATUS, GetJobInfo 2 DSJ_JOBCONTROLLER,
      GetJobInfo 2 DSJ_JOBSTARTTIMESTAMP, GetJobInfo 2 DSJ_JOBWAVENO,
      GetJobInfo 2 DSJ_USERSTATUS, CloseJob 2, CloseProject 1, GetLastErrorMsg] = [- 1] \<and>
   DSJE_NOERROR platform0 = 0"
proof -
  have h2: "(''jobinfo'', jobJobInfo) \<in> set MajorOption" by (simp add: MajorOption_def)
  have b: "main platform0 engine_statusQueryFails [''dsjob'', ''-jobinfo'', ''proj'', ''job''] world0 =
      runHandler platform0 engine_statusQueryFails jobJobInfo None None None None
        [''proj'', ''job''] world0"
    using main_dispatches [OF h2, of platform0 engine_statusQueryFails "''dsjob''" None None None
        None "[''proj'', ''job'']" world0]
    by (simp add: globalTokens_def flagTokens_def)
  have d: "runHandler platform0 engine_statusQueryFails jobJobInfo None None None None
        [''proj'', ''job''] world0 =
     Some (Inr (0,
       \<lparr>calls = [SetServerParams None None None None, OpenProject ''proj'', OpenJob 1 ''job'',
                 GetJobInfo 2 DSJ_JOBSTATUS, GetJobInfo 2 DSJ_JOBCONTROLLER,
                 GetJobInfo 2 DSJ_JOBSTARTTIMESTAMP, GetJobInfo 2 DSJ_JOBWAVENO,
                 GetJobInfo 2 DSJ_USERSTATUS, CloseJob 2, CloseProject 1, GetLastErrorMsg],
        printed = [Stderr ''Error %d getting job status\<newline>'' [AInt (- 1)],
                   Stdout (''Job Controller'' @ tabs 1 @ '': %s\<newline>'') [AStr []],
                   Stdout (''Job Start Time'' @ tabs 1 @ '': %s'') [ATime 0],
                   Stdout (''Job Wave Number'' @ tabs 1 @ '': %d\<newline>'') [AInt 1],
                   Stdout (''User Status'' @ tabs 1 @ '': %s\<newline>'') [AStr []]],
        stdin = []\<rparr>))"
    by (simp add: runHandler_def jobJobInfo_def jobInfoBody_def inProjectJob_def
          showJobStatus_def showJobController_def showJobStartTime_def showJobWaveNumber_def
          showUserStatus_def
          doOpenProject_def doOpenJob_def doGetJobInfo_def doCloseJob_def doCloseProject_def
          doGetLastErrorMsg_def returns_def docall_def printf_def eprintf_def
          engine_statusQueryFails_def engine0_def platform0_def world0_def jobinfo0_def)
  have f: "hardFailures platform0 engine_statusQueryFails []
     [SetServerParams None None None None, OpenProject ''proj'', OpenJob 1 ''job'',
      GetJobInfo 2 DSJ_JOBSTATUS, GetJobInfo 2 DSJ_JOBCONTROLLER,
      GetJobInfo 2 DSJ_JOBSTARTTIMESTAMP, GetJobInfo 2 DSJ_JOBWAVENO,
      GetJobInfo 2 DSJ_USERSTATUS, CloseJob 2, CloseProject 1, GetLastErrorMsg] = [- 1]"
    by (simp add: failureOf_def callStatus_def softStatus_def engine_statusQueryFails_def
          engine0_def platform0_def)
  show ?thesis
    unfolding b d f by (simp add: engine_statusQueryFails_def engine0_def platform0_def)
qed


end
